theory Spec2Isabelle
  imports Main
begin

section \<open>Jersey order backend: the two listings of \<^verbatim>\<open>server.js\<close>\<close>

text \<open>
  The source file holds two listings of the server.  The first (lines 1--810) is the
  server with the admin routes: \<^verbatim>\<open>POST /api/orders\<close>, the status update
  \<^verbatim>\<open>PATCH /api/admin/orders/:id/status\<close>, \<^verbatim>\<open>DELETE /api/admin/orders/:id\<close> and
  \<^verbatim>\<open>GET /api/admin/orders/:id\<close>.  The second (lines 810--1632) is a server with the
  public routes only; its \<^verbatim>\<open>POST /api/orders\<close> validates differently, checks the jersey
  number before the insert and dispatches its emails without awaiting them.  Definitions
  of the first listing carry the suffix \<open>_A\<close> where both listings have the operation,
  those of the second the suffix \<open>_B\<close>.

  Every handler is a function from the request, the environment and the table
  \<^verbatim>\<open>orders\<close> to the response, the table afterwards, the emails it dispatched and
  what their sends write to the console.
  The middleware ahead of the handlers (rate limits, body parsing, headers) is not
  modelled: the request is one that reaches the handler, with its body parsed.
\<close>

subsection \<open>JavaScript values of a request body\<close>

text \<open>
  The values a parsed JSON body gives a field: \<open>JUndefined\<close> for a key that is absent.
  \<open>JNum n\<close> is the number \<^verbatim>\<open>JSON.parse\<close> reads from the integer literal \<open>n\<close>: the
  double nearest to \<open>n\<close>, which is \<open>n\<close> itself up to \<open>2^53\<close> in magnitude.  Fractional
  numbers, arrays and nested objects are outside the model.  A string is a list of code
  points below 256.
\<close>

datatype jsval = JUndefined | JNull | JBool bool | JNum int | JStr string

type_synonym body = "string \<Rightarrow> jsval"

text \<open>\<^verbatim>\<open>!v\<close> is \<open>\<not> truthy v\<close>.\<close>

fun truthy :: "jsval \<Rightarrow> bool" where
  "truthy JUndefined = False"
| "truthy JNull = False"
| "truthy (JBool b) = b"
| "truthy (JNum n) = (n \<noteq> 0)"
| "truthy (JStr s) = (s \<noteq> [])"

text \<open>White space as \<^verbatim>\<open>String.prototype.trim\<close> and the class \<^verbatim>\<open>\s\<close> read it, below 256.\<close>

definition js_space :: "char \<Rightarrow> bool" where
  "js_space c = (c = CHR 0x09 \<or> c = CHR 0x0A \<or> c = CHR 0x0B \<or> c = CHR 0x0C \<or>
                 c = CHR 0x0D \<or> c = CHR 0x20 \<or> c = CHR 0xA0)"

definition trim :: "string \<Rightarrow> string" where
  "trim s = rev (dropWhile js_space (rev (dropWhile js_space s)))"

text \<open>
  The decimal digits of a natural number and of an integer: how the id of a row, an
  \<^verbatim>\<open>INTEGER\<close> of the store, and the time in milliseconds print.
\<close>

fun digits :: "nat \<Rightarrow> string" where
  "digits n = (if n < 10 then [''0123456789'' ! n]
               else digits (n div 10) @ [''0123456789'' ! (n mod 10)])"

declare digits.simps [simp del]

definition int_toString :: "int \<Rightarrow> string" where
  "int_toString n = (if n < 0 then CHR ''-'' # digits (nat (- n)) else digits (nat n))"

text \<open>
  The double a natural number is read as.  A number of at most 53 bits is its own
  double; a longer one is rounded to 53 significant bits, to the nearest value and of
  two equally near to the one with an even significand; \<open>None\<close> is \<^verbatim>\<open>Infinity\<close>,
  beyond the largest double.
\<close>

fun bit_count :: "nat \<Rightarrow> nat" where
  "bit_count n = (if n = 0 then 0 else Suc (bit_count (n div 2)))"

declare bit_count.simps [simp del]

definition double_of :: "nat \<Rightarrow> nat option" where
  "double_of a =
     (if bit_count a \<le> 53 then Some a
      else let e = bit_count a - 53; q = a div 2 ^ e; r = a mod 2 ^ e;
               m = (if 2 ^ e < 2 * r \<or> (2 * r = 2 ^ e \<and> odd q) then q + 1 else q)
           in if 1024 < bit_count (m * 2 ^ e) then None else Some (m * 2 ^ e))"

text \<open>
  \<^verbatim>\<open>Number.prototype.toString\<close> of an integer-valued double \<open>x\<close>: the decimal number
  with the fewest significant digits that is read back as \<open>x\<close>, the one nearest to
  \<open>x\<close> when there are two; \<open>shortest_from x j\<close> tries \<open>j\<close> trailing zeros, then fewer.
  Up to 21 digits are printed plainly (\<^verbatim>\<open>2 ** 60\<close> as
  \<^verbatim>\<open>1152921504606847000\<close>), more in exponent form (\<^verbatim>\<open>1e+21\<close>,
  \<^verbatim>\<open>1.5e+300\<close>).
\<close>

fun shortest_from :: "nat \<Rightarrow> nat \<Rightarrow> nat" where
  "shortest_from x 0 = x"
| "shortest_from x (Suc j) =
     (let lo = x div 10 ^ Suc j * 10 ^ Suc j; hi = lo + 10 ^ Suc j;
          lo_ok = (double_of lo = Some x); hi_ok = (double_of hi = Some x)
      in if lo_ok \<and> (\<not> hi_ok \<or> x - lo \<le> hi - x) then lo
         else if hi_ok then hi
         else shortest_from x j)"

definition exponent_form :: "nat \<Rightarrow> string" where
  "exponent_form v =
     (let ds = digits v; s = rev (dropWhile (\<lambda>c. c = CHR ''0'') (rev ds))
      in hd s # (if tl s = [] then [] else CHR ''.'' # tl s) @ ''e+'' @ digits (length ds - 1))"

definition number_toString :: "int \<Rightarrow> string" where
  "number_toString n =
     (case double_of (nat \<bar>n\<bar>) of
        None \<Rightarrow> (if n < 0 then ''-Infinity'' else ''Infinity'')
      | Some x \<Rightarrow>
          (let v = shortest_from x (length (digits x) - 1);
               t = (if length (digits v) \<le> 21 then digits v else exponent_form v)
           in if n < 0 then CHR ''-'' # t else t))"

text \<open>The string a template literal, \<^verbatim>\<open>RegExp.test\<close> and \<^verbatim>\<open>parseInt\<close> make of a value.\<close>

fun toString :: "jsval \<Rightarrow> string" where
  "toString JUndefined = ''undefined''"
| "toString JNull = ''null''"
| "toString (JBool b) = (if b then ''true'' else ''false'')"
| "toString (JNum n) = number_toString n"
| "toString (JStr s) = s"

text \<open>
  \<^verbatim>\<open>parseInt(v)\<close> with no radix, of the string of \<open>v\<close>: leading white space, an
  optional sign, then the longest run of digits, hexadecimal after \<^verbatim>\<open>0x\<close> or
  \<^verbatim>\<open>0X\<close>; \<open>None\<close> is \<^verbatim>\<open>NaN\<close>.  So a number printed in exponent form is read
  as its first digit, and \<^verbatim>\<open>Infinity\<close> as \<^verbatim>\<open>NaN\<close>.  The result here is the
  integer the digits stand for; the handlers only compare it with 0, 1, 99 and 500
  and pass it on when it lies between them, where the double it is read as is the
  integer itself.
\<close>

fun index_of :: "char \<Rightarrow> string \<Rightarrow> nat" where
  "index_of c [] = 0"
| "index_of c (d # ds) = (if c = d then 0 else Suc (index_of c ds))"

definition digit_val :: "char \<Rightarrow> nat" where
  "digit_val c = (if c \<in> set ''0123456789abcdef'' then index_of c ''0123456789abcdef''
                  else index_of c ''0123456789ABCDEF'')"

definition is_digit :: "nat \<Rightarrow> char \<Rightarrow> bool" where
  "is_digit radix c =
     (if radix = 16 then c \<in> set ''0123456789abcdefABCDEF'' else c \<in> set ''0123456789'')"

definition digits_value :: "nat \<Rightarrow> string \<Rightarrow> nat" where
  "digits_value radix ds = foldl (\<lambda>a c. a * radix + digit_val c) 0 ds"

definition parse_digits :: "nat \<Rightarrow> string \<Rightarrow> nat option" where
  "parse_digits radix s =
     (let ds = takeWhile (is_digit radix) s
      in if ds = [] then None else Some (digits_value radix ds))"

definition parse_unsigned :: "string \<Rightarrow> nat option" where
  "parse_unsigned s =
     (if take 2 s = ''0x'' \<or> take 2 s = ''0X'' then parse_digits 16 (drop 2 s)
      else parse_digits 10 s)"

definition parseInt_string :: "string \<Rightarrow> int option" where
  "parseInt_string s =
     (let t = dropWhile js_space s
      in case t of
           [] \<Rightarrow> None
         | c # r \<Rightarrow>
             if c = CHR ''-'' then map_option (\<lambda>n. - int n) (parse_unsigned r)
             else if c = CHR ''+'' then map_option int (parse_unsigned r)
             else map_option int (parse_unsigned t))"

definition parseInt :: "jsval \<Rightarrow> int option" where
  "parseInt v = parseInt_string (toString v)"

text \<open>
  The email pattern \<^verbatim>\<open>/^[^\s@]+@[^\s@]+\.[^\s@]+$/\<close>.  The first group cannot hold an
  \<^verbatim>\<open>@\<close>, so it is the longest prefix of the class; what follows the \<^verbatim>\<open>@\<close> is of the
  class throughout and has a dot that is neither its first nor its last character.
\<close>

definition not_space_at :: "char \<Rightarrow> bool" where
  "not_space_at c = (\<not> js_space c \<and> c \<noteq> CHR ''@'')"

definition email_test :: "string \<Rightarrow> bool" where
  "email_test s =
     (let a = takeWhile not_space_at s; r = dropWhile not_space_at s
      in a \<noteq> [] \<and> r \<noteq> [] \<and> hd r = CHR ''@'' \<and> list_all not_space_at (tl r) \<and>
         CHR ''.'' \<in> set (butlast (tl (tl r))))"

text \<open>
  A method call \<^verbatim>\<open>v.trim()\<close>: a \<^verbatim>\<open>TypeError\<close> on a value that is not a string.  The
  store reports a violated unique constraint (SQLSTATE 23505) or a value it cannot
  take for a column (class 22); a connection to it may fail.
\<close>

datatype pg_error = unique_violation | data_exception

datatype failure = TypeError | RangeError | PgError pg_error | ConnectionError

fun trim_method :: "jsval \<Rightarrow> failure + string" where
  "trim_method (JStr s) = Inr (trim s)"
| "trim_method v = Inl TypeError"

text \<open>
  \<^verbatim>\<open>v?.trim() || null\<close>: \<open>None\<close> is \<^verbatim>\<open>null\<close>.  Optional chaining stops at
  \<^verbatim>\<open>undefined\<close> and \<^verbatim>\<open>null\<close> only.
\<close>

fun opt_trim_or_null :: "jsval \<Rightarrow> failure + string option" where
  "opt_trim_or_null JUndefined = Inr None"
| "opt_trim_or_null JNull = Inr None"
| "opt_trim_or_null (JStr s) = Inr (if trim s = [] then None else Some (trim s))"
| "opt_trim_or_null v = Inl TypeError"

subsection \<open>The table \<^verbatim>\<open>orders\<close> and what the store converts\<close>

text \<open>
  A row of the table the first listing creates.  \<^verbatim>\<open>jersey_number\<close> is
  \<^verbatim>\<open>VARCHAR(8)\<close> with no unique constraint there; \<^verbatim>\<open>batch\<close>,
  \<^verbatim>\<open>transaction_id\<close>, \<^verbatim>\<open>notes\<close> and \<^verbatim>\<open>status\<close> may be \<^verbatim>\<open>NULL\<close>.  A
  \<^verbatim>\<open>DECIMAL(10, 2)\<close> is a number of hundredths or \<^verbatim>\<open>NaN\<close>.  The table is the list
  of its rows, oldest first.
\<close>

type_synonym timestamp = nat

datatype decimal = NaN | Hundredths int

record order =
  o_id :: int
  o_name :: string
  o_student_id :: string
  o_jersey_number :: string
  o_batch :: "string option"
  o_size :: string
  o_collar_type :: string
  o_sleeve_type :: string
  o_email :: string
  o_transaction_id :: "string option"
  o_notes :: "string option"
  o_final_price :: decimal
  o_status :: "string option"
  o_created_at :: timestamp
  o_updated_at :: timestamp

text \<open>
  The input conversions of the store are not part of the repository: how it reads the
  text of a parameter as an \<^verbatim>\<open>INTEGER\<close> and as a \<^verbatim>\<open>DECIMAL(10, 2)\<close> is a
  parameter of the model (\<open>None\<close>: the statement fails).
\<close>

record pg_input =
  int4in :: "string \<Rightarrow> int option"
  decimal_10_2 :: "string \<Rightarrow> decimal option"

text \<open>The text the driver sends for a parameter; \<open>None\<close> is \<^verbatim>\<open>NULL\<close>.\<close>

fun pg_text :: "jsval \<Rightarrow> string option" where
  "pg_text JUndefined = None"
| "pg_text JNull = None"
| "pg_text v = Some (toString v)"

text \<open>
  Storing into \<^verbatim>\<open>VARCHAR(n)\<close>: a longer string is an error unless the excess is
  spaces, which are cut; a string with the character 0 is refused.
\<close>

definition varchar :: "nat \<Rightarrow> string \<Rightarrow> string option" where
  "varchar n s =
     (if CHR 0x00 \<in> set s then None
      else if length s \<le> n then Some s
      else if list_all (\<lambda>c. c = CHR '' '') (drop n s) then Some (take n s)
      else None)"

definition pg_column :: "'a option \<Rightarrow> failure + 'a" where
  "pg_column v = (case v of None \<Rightarrow> Inl (PgError data_exception) | Some x \<Rightarrow> Inr x)"

definition and_then :: "failure + 'a \<Rightarrow> ('a \<Rightarrow> failure + 'b) \<Rightarrow> failure + 'b" where
  "and_then r f = (case r of Inl e \<Rightarrow> Inl e | Inr x \<Rightarrow> f x)"

text \<open>A column declared \<^verbatim>\<open>NOT NULL\<close> refuses \<^verbatim>\<open>NULL\<close>; one that is not takes it.\<close>

definition not_null_varchar :: "nat \<Rightarrow> string option \<Rightarrow> failure + string" where
  "not_null_varchar n v = pg_column (Option.bind v (varchar n))"

definition null_varchar :: "nat \<Rightarrow> string option \<Rightarrow> failure + string option" where
  "null_varchar n v =
     (case v of None \<Rightarrow> Inr None | Some s \<Rightarrow> pg_column (map_option Some (varchar n s)))"

definition null_text :: "string option \<Rightarrow> failure + string option" where
  "null_text v =
     (case v of None \<Rightarrow> Inr None
      | Some s \<Rightarrow> if CHR 0x00 \<in> set s then Inl (PgError data_exception) else Inr (Some s))"

subsection \<open>The environment and the email capability\<close>

text \<open>
  An email is modelled by its recipient and subject; the HTML and text bodies rendered
  from the order are left out.  \<^verbatim>\<open>fetch\<close> to the provider answers with
  \<^verbatim>\<open>response.ok\<close> true or false (and a body that is JSON, as the provider's API
  gives), rejects, or never settles.
\<close>

record email =
  e_to :: string
  e_subject :: string

datatype fetch_result = Responds bool | Rejects | Pending

text \<open>
  \<open>now\<close> is the time of the request in milliseconds (\<^verbatim>\<open>CURRENT_TIMESTAMP\<close>,
  \<^verbatim>\<open>new Date()\<close>) and \<open>nextval\<close> the id the sequence of \<^verbatim>\<open>orders.id\<close> hands
  to its insert.  \<open>order_date\<close> is what becomes of a truthy \<^verbatim>\<open>orderDate\<close> in the second
  listing: \<^verbatim>\<open>new Date(v)\<close> is invalid (\<^verbatim>\<open>toISOString\<close> throws a
  \<^verbatim>\<open>RangeError\<close>), or the store cannot read the formatted text, or it is a time.
  \<open>store_up\<close> says whether \<^verbatim>\<open>client.connect()\<close> succeeds for the request.
\<close>

datatype date_result = InvalidDate | Unreadable | Date timestamp

record env =
  BREVO_API_KEY :: "string option"
  ADMIN_EMAIL :: "string option"
  fetch :: "email \<Rightarrow> fetch_result"
  now :: timestamp
  nextval :: int
  order_date :: "jsval \<Rightarrow> date_result"
  store_up :: bool

text \<open>
  \<^verbatim>\<open>connectDB\<close>, and \<^verbatim>\<open>connectDatabase\<close> of the second listing.  Either server
  starts only with \<^verbatim>\<open>DATABASE_URL\<close> set, so what is left to fail is the connection.
\<close>

definition connectDB :: "env \<Rightarrow> failure + unit" where
  "connectDB e = (if store_up e then Inr () else Inl ConnectionError)"

definition connectDatabase :: "env \<Rightarrow> failure + unit" where
  "connectDatabase e = (if store_up e then Inr () else Inl ConnectionError)"

text \<open>\<^verbatim>\<open>process.env.X\<close> is truthy when it is set and not empty.\<close>

definition env_set :: "string option \<Rightarrow> bool" where
  "env_set v = (case v of None \<Rightarrow> False | Some s \<Rightarrow> s \<noteq> [])"

text \<open>
  A line written to the console: the method and its first argument, a fixed text.  The
  arguments after it (the message of an error, an address, an id) are left out.  Only
  what the email functions write is modelled, not the lines of the connection, of the
  queries and of the \<^verbatim>\<open>catch\<close> blocks of the handlers.
\<close>

datatype console = console_log string | console_warn string | console_error string

text \<open>
  \<^verbatim>\<open>sendEmail\<close> (first listing): the result is \<open>Some success\<close> once the promise
  settles and \<open>None\<close> when it never does, with the requests posted to the provider and
  the lines written to the console.  Without an API key nothing is posted, with a
  warning; a rejected \<^verbatim>\<open>fetch\<close> is caught and logged as an error; an answer is
  returned as \<^verbatim>\<open>success: response.ok\<close> with no line written.
\<close>

definition sendEmail :: "env \<Rightarrow> email \<Rightarrow> bool option \<times> email list \<times> console list" where
  "sendEmail e m =
     (if \<not> env_set (BREVO_API_KEY e) then
        (Some False, [], [console_warn ''Email service not configured''])
      else case fetch e m of
             Responds ok \<Rightarrow> (Some ok, [m], [])
           | Rejects \<Rightarrow> (Some False, [m], [console_error ''Email error:''])
           | Pending \<Rightarrow> (None, [m], []))"

subsection \<open>Responses\<close>

text \<open>
  A response body: JSON over the values above, a row of the table as the driver
  returns it, or the message text of a failure (not rendered).
\<close>

datatype json =
  JS jsval
| Arr "json list"
| Obj "(string \<times> json) list"
| Row order
| MessageOf failure

datatype response = Response (res_status: nat) (res_body: json)

text \<open>
  What a handler does: the response (\<open>None\<close> when it never answers), the table
  afterwards, the emails handed to the sending function, the requests posted to the
  provider and, for each email handed over, the lines its send writes to the console.
\<close>

record 'r result =
  reply :: "response option"
  store :: "'r list"
  handed :: "email list"
  posted :: "email list"
  logged :: "console list list"

definition answer :: "response \<Rightarrow> 'r list \<Rightarrow> 'r result" where
  "answer r db = \<lparr>reply = Some r, store = db, handed = [], posted = [], logged = []\<rparr>"

definition respond :: "nat \<Rightarrow> json \<Rightarrow> 'r list \<Rightarrow> 'r result" where
  "respond st b db = answer (Response st b) db"

definition error_body :: "string \<Rightarrow> json" where
  "error_body msg = Obj [(''error'', JS (JStr msg))]"

definition padStart :: "nat \<Rightarrow> char \<Rightarrow> string \<Rightarrow> string" where
  "padStart n c s = replicate (n - length s) c @ s"

subsection \<open>First listing: \<^verbatim>\<open>POST /api/orders\<close>\<close>

text \<open>The required-field test of lines 315--318: one condition over eight fields.\<close>

definition required_missing_A :: "body \<Rightarrow> bool" where
  "required_missing_A b =
     (\<not> truthy (b ''name'') \<or> \<not> truthy (b ''studentId'') \<or> \<not> truthy (b ''jerseyNumber'') \<or>
      \<not> truthy (b ''size'') \<or> \<not> truthy (b ''collarType'') \<or> \<not> truthy (b ''sleeveType'') \<or>
      \<not> truthy (b ''email'') \<or> \<not> truthy (b ''finalPrice''))"

text \<open>
  What the checks ahead of the store make of a body: a response that rejects it, an
  exception, or a pass.
\<close>

datatype 'a checked = Rejected response | Threw failure | Passed 'a

text \<open>
  Lines 314--329: required fields, then the email pattern, then the jersey number,
  each with a 400 of its own.  The number read goes on to the insert.
\<close>

definition validate_A :: "body \<Rightarrow> int checked" where
  "validate_A b =
     (if required_missing_A b then Rejected (Response 400 (error_body ''Missing required fields''))
      else if \<not> email_test (toString (b ''email'')) then
        Rejected (Response 400 (error_body ''Invalid email format''))
      else case parseInt (b ''jerseyNumber'') of
             None \<Rightarrow> Rejected (Response 400 (error_body ''Jersey number must be 0-500''))
           | Some jerseyNum \<Rightarrow>
               if jerseyNum < 0 \<or> jerseyNum > 500 then
                 Rejected (Response 400 (error_body ''Jersey number must be 0-500''))
               else Passed jerseyNum)"

text \<open>The parameters of the insert, as the handler computes them from the body.\<close>

record draft =
  d_name :: string
  d_student_id :: string
  d_jersey_number :: jsval
  d_batch :: "string option"
  d_size :: jsval
  d_collar_type :: jsval
  d_sleeve_type :: jsval
  d_email :: string
  d_transaction_id :: "string option"
  d_notes :: "string option"
  d_final_price :: jsval

definition insert_params_A :: "body \<Rightarrow> int \<Rightarrow> failure + draft" where
  "insert_params_A b jerseyNum =
     and_then (trim_method (b ''name'')) (\<lambda>name.
     and_then (trim_method (b ''studentId'')) (\<lambda>studentId.
     and_then (opt_trim_or_null (b ''batch'')) (\<lambda>batch.
     and_then (trim_method (b ''email'')) (\<lambda>email.
     and_then (opt_trim_or_null (b ''transactionId'')) (\<lambda>transactionId.
     and_then (opt_trim_or_null (b ''notes'')) (\<lambda>notes.
       Inr \<lparr>d_name = name, d_student_id = studentId, d_jersey_number = JNum jerseyNum,
            d_batch = batch, d_size = b ''size'', d_collar_type = b ''collarType'',
            d_sleeve_type = b ''sleeveType'', d_email = email,
            d_transaction_id = transactionId, d_notes = notes,
            d_final_price = b ''finalPrice''\<rparr>))))))"

text \<open>
  \<^verbatim>\<open>INSERT INTO orders (...) VALUES (...) RETURNING *\<close> on the table of the first
  listing: each parameter is stored into its column, the id comes from the sequence
  (the primary key refuses one already there), both timestamps default to now.  No
  column but the id is unique.
\<close>

definition INSERT_A ::
  "pg_input \<Rightarrow> env \<Rightarrow> draft \<Rightarrow> order list \<Rightarrow> failure + order \<times> order list" where
  "INSERT_A pg e d db =
     and_then (not_null_varchar 40 (Some (d_name d))) (\<lambda>name.
     and_then (not_null_varchar 30 (Some (d_student_id d))) (\<lambda>student_id.
     and_then (not_null_varchar 8 (pg_text (d_jersey_number d))) (\<lambda>jersey_number.
     and_then (null_varchar 20 (d_batch d)) (\<lambda>batch.
     and_then (not_null_varchar 10 (pg_text (d_size d))) (\<lambda>size.
     and_then (not_null_varchar 20 (pg_text (d_collar_type d))) (\<lambda>collar_type.
     and_then (not_null_varchar 20 (pg_text (d_sleeve_type d))) (\<lambda>sleeve_type.
     and_then (not_null_varchar 40 (Some (d_email d))) (\<lambda>email.
     and_then (null_varchar 30 (d_transaction_id d)) (\<lambda>transaction_id.
     and_then (null_text (d_notes d)) (\<lambda>notes.
     and_then (pg_column (Option.bind (pg_text (d_final_price d)) (decimal_10_2 pg)))
       (\<lambda>final_price.
         if nextval e \<in> set (map o_id db) then Inl (PgError unique_violation)
         else
           let row = \<lparr>o_id = nextval e, o_name = name, o_student_id = student_id,
                      o_jersey_number = jersey_number, o_batch = batch, o_size = size,
                      o_collar_type = collar_type, o_sleeve_type = sleeve_type,
                      o_email = email, o_transaction_id = transaction_id,
                      o_notes = notes, o_final_price = final_price,
                      o_status = Some ''pending'', o_created_at = now e,
                      o_updated_at = now e\<rparr>
           in Inr (row, db @ [row]))))))))))))"

definition confirmation_A :: "body \<Rightarrow> email" where
  "confirmation_A b =
     \<lparr>e_to = toString (b ''email''),
      e_subject = ''ICE Jersey Order Confirmation - Order Received''\<rparr>"

definition admin_alert_A :: "string \<Rightarrow> order \<Rightarrow> email" where
  "admin_alert_A admin row =
     \<lparr>e_to = admin,
      e_subject = ''New Jersey Order - '' @ o_name row @ '' (#'' @ o_jersey_number row @ '')''\<rparr>"

definition created_A :: "order \<Rightarrow> response" where
  "created_A row =
     Response 201 (Obj [(''success'', JS (JBool True)),
                        (''message'', JS (JStr ''Order placed successfully'')),
                        (''orderId'', JS (JStr (''ICE-'' @ padStart 3 CHR ''0'' (int_toString (o_id row))))),
                        (''status'', JS (JStr ''pending''))])"

text \<open>
  After the insert the handler awaits \<^verbatim>\<open>sendEmail\<close> for the confirmation, then, when
  \<^verbatim>\<open>ADMIN_EMAIL\<close> is set, for the admin alert, and only then answers 201.  An await
  that never settles leaves the request unanswered.
\<close>

definition notify_created_A :: "env \<Rightarrow> body \<Rightarrow> order \<Rightarrow> order list \<Rightarrow> order result" where
  "notify_created_A e b row db =
     (let m1 = confirmation_A b; s1 = sendEmail e m1
      in case fst s1 of
           None \<Rightarrow> \<lparr>reply = None, store = db, handed = [m1], posted = fst (snd s1),
                    logged = [snd (snd s1)]\<rparr>
         | Some ok1 \<Rightarrow>
             if env_set (ADMIN_EMAIL e) then
               (let m2 = admin_alert_A (the (ADMIN_EMAIL e)) row; s2 = sendEmail e m2
                in case fst s2 of
                     None \<Rightarrow> \<lparr>reply = None, store = db, handed = [m1, m2],
                              posted = fst (snd s1) @ fst (snd s2),
                              logged = [snd (snd s1), snd (snd s2)]\<rparr>
                   | Some ok2 \<Rightarrow> \<lparr>reply = Some (created_A row), store = db,
                                  handed = [m1, m2], posted = fst (snd s1) @ fst (snd s2),
                                  logged = [snd (snd s1), snd (snd s2)]\<rparr>)
             else \<lparr>reply = Some (created_A row), store = db, handed = [m1],
                   posted = fst (snd s1), logged = [snd (snd s1)]\<rparr>)"

definition post_orders_A :: "pg_input \<Rightarrow> env \<Rightarrow> body \<Rightarrow> order list \<Rightarrow> order result" where
  "post_orders_A pg e b db =
     (case validate_A b of
        Rejected r \<Rightarrow> answer r db
      | Threw err \<Rightarrow> respond 500 (error_body ''Order submission failed'') db
      | Passed jerseyNum \<Rightarrow>
          (case and_then (connectDB e) (\<lambda>client.
                  and_then (insert_params_A b jerseyNum) (\<lambda>d. INSERT_A pg e d db)) of
             Inl err \<Rightarrow> respond 500 (error_body ''Order submission failed'') db
           | Inr (row, db') \<Rightarrow> notify_created_A e b row db'))"

subsection \<open>First listing: the admin routes\<close>

text \<open>
  \<^verbatim>\<open>authenticateToken\<close>: the verification of the token is outside the repository, so a
  request carries its verdict.  \<open>None\<close> is \<^verbatim>\<open>next()\<close>.
\<close>

datatype token = NoToken | BadToken | GoodToken

fun authenticateToken :: "token \<Rightarrow> response option" where
  "authenticateToken NoToken = Some (Response 401 (error_body ''Access token required''))"
| "authenticateToken BadToken = Some (Response 403 (error_body ''Invalid token''))"
| "authenticateToken GoodToken = None"

text \<open>\<^verbatim>\<open>SELECT * FROM orders WHERE id = $1\<close> with the path parameter, a string.\<close>

definition SELECT_by_id :: "pg_input \<Rightarrow> string \<Rightarrow> order list \<Rightarrow> failure + order list" where
  "SELECT_by_id pg idp db =
     and_then (pg_column (int4in pg idp)) (\<lambda>i. Inr (filter (\<lambda>r. o_id r = i) db))"

definition get_order ::
  "pg_input \<Rightarrow> env \<Rightarrow> token \<Rightarrow> string \<Rightarrow> order list \<Rightarrow> order result" where
  "get_order pg e tok idp db =
     (case authenticateToken tok of
        Some r \<Rightarrow> answer r db
      | None \<Rightarrow>
          (case and_then (connectDB e) (\<lambda>client. SELECT_by_id pg idp db) of
             Inl err \<Rightarrow> respond 500 (error_body ''Failed to fetch order'') db
           | Inr [] \<Rightarrow> respond 404 (error_body ''Order not found'') db
           | Inr (row # rest) \<Rightarrow>
               respond 200 (Obj [(''success'', JS (JBool True)), (''order'', Row row)]) db))"

text \<open>
  \<^verbatim>\<open>UPDATE orders SET status = $1, updated_at = CURRENT_TIMESTAMP WHERE id = $2\<close>.
\<close>

definition UPDATE_status ::
  "pg_input \<Rightarrow> env \<Rightarrow> string \<Rightarrow> string \<Rightarrow> order list \<Rightarrow> failure + order list" where
  "UPDATE_status pg e st idp db =
     and_then (pg_column (int4in pg idp)) (\<lambda>i.
       Inr (map (\<lambda>r. if o_id r = i then r\<lparr>o_status := Some st, o_updated_at := now e\<rparr> else r) db))"

definition status_mail :: "order \<Rightarrow> email" where
  "status_mail row = \<lparr>e_to = o_email row, e_subject = ''Payment Confirmed - ICE Jersey Order''\<rparr>"

definition status_updated :: "string \<Rightarrow> response" where
  "status_updated st =
     Response 200 (Obj [(''success'', JS (JBool True)),
                        (''message'', JS (JStr ''Order status updated successfully'')),
                        (''newStatus'', JS (JStr st))])"

text \<open>
  \<^verbatim>\<open>PATCH /api/admin/orders/:id/status\<close>: the status must be the string
  \<^verbatim>\<open>pending\<close> or \<^verbatim>\<open>done\<close>; the row is read, then updated, and the email goes out
  (awaited) when the new status is \<^verbatim>\<open>done\<close> and the row read was not.
\<close>

definition patch_status ::
  "pg_input \<Rightarrow> env \<Rightarrow> token \<Rightarrow> string \<Rightarrow> body \<Rightarrow> order list \<Rightarrow> order result" where
  "patch_status pg e tok idp b db =
     (case authenticateToken tok of
        Some r \<Rightarrow> answer r db
      | None \<Rightarrow>
          if b ''status'' \<noteq> JStr ''pending'' \<and> b ''status'' \<noteq> JStr ''done'' then
            respond 400 (error_body ''Invalid status. Only pending/done allowed.'') db
          else
            (case and_then (connectDB e) (\<lambda>client. SELECT_by_id pg idp db) of
               Inl err \<Rightarrow> respond 500 (error_body ''Failed to update status'') db
             | Inr [] \<Rightarrow> respond 404 (error_body ''Order not found'') db
             | Inr (row # rest) \<Rightarrow>
                 (case UPDATE_status pg e (toString (b ''status'')) idp db of
                    Inl err \<Rightarrow> respond 500 (error_body ''Failed to update status'') db
                  | Inr db' \<Rightarrow>
                      if b ''status'' = JStr ''done'' \<and> o_status row \<noteq> Some ''done'' then
                        (let m = status_mail row; s = sendEmail e m
                         in case fst s of
                              None \<Rightarrow> \<lparr>reply = None, store = db', handed = [m],
                                       posted = fst (snd s), logged = [snd (snd s)]\<rparr>
                            | Some ok \<Rightarrow>
                                \<lparr>reply = Some (status_updated (toString (b ''status''))),
                                 store = db', handed = [m], posted = fst (snd s),
                                 logged = [snd (snd s)]\<rparr>)
                      else \<lparr>reply = Some (status_updated (toString (b ''status''))),
                            store = db', handed = [], posted = [], logged = []\<rparr>)))"

text \<open>
  \<^verbatim>\<open>DELETE /api/admin/orders/:id\<close>: \<^verbatim>\<open>DELETE FROM orders WHERE id = $1 RETURNING *\<close>
  gives the rows it removed; the handler only looks at their number.
\<close>

definition DELETE_by_id ::
  "pg_input \<Rightarrow> string \<Rightarrow> order list \<Rightarrow> failure + order list \<times> order list" where
  "DELETE_by_id pg idp db =
     and_then (pg_column (int4in pg idp)) (\<lambda>i.
       Inr (filter (\<lambda>r. o_id r = i) db, filter (\<lambda>r. o_id r \<noteq> i) db))"

definition delete_order ::
  "pg_input \<Rightarrow> env \<Rightarrow> token \<Rightarrow> string \<Rightarrow> order list \<Rightarrow> order result" where
  "delete_order pg e tok idp db =
     (case authenticateToken tok of
        Some r \<Rightarrow> answer r db
      | None \<Rightarrow>
          (case and_then (connectDB e) (\<lambda>client. DELETE_by_id pg idp db) of
             Inl err \<Rightarrow> respond 500 (error_body ''Failed to delete order'') db
           | Inr ([], db') \<Rightarrow> respond 404 (error_body ''Order not found'') db'
           | Inr (row # rest, db') \<Rightarrow>
               respond 200 (Obj [(''success'', JS (JBool True)),
                                 (''message'', JS (JStr ''Order deleted successfully''))]) db'))"

subsection \<open>Second listing: \<^verbatim>\<open>POST /api/orders\<close>\<close>

text \<open>
  A row of the table the second listing creates: \<^verbatim>\<open>jersey_number\<close> is
  \<^verbatim>\<open>INTEGER NOT NULL UNIQUE\<close>, with the columns \<^verbatim>\<open>order_date\<close> and
  \<^verbatim>\<open>department\<close> besides.
\<close>

record order_B =
  b_id :: int
  b_name :: string
  b_student_id :: string
  b_jersey_number :: int
  b_batch :: "string option"
  b_size :: string
  b_collar_type :: string
  b_sleeve_type :: string
  b_email :: string
  b_transaction_id :: "string option"
  b_notes :: "string option"
  b_final_price :: decimal
  b_order_date :: timestamp
  b_department :: "string option"
  b_status :: "string option"
  b_created_at :: timestamp
  b_updated_at :: timestamp

definition requiredFields :: "string list" where
  "requiredFields = [''name'', ''studentId'', ''jerseyNumber'', ''size'', ''collarType'',
                     ''sleeveType'', ''email'', ''finalPrice'']"

text \<open>
  \<^verbatim>\<open>requiredFields.filter(field => !req.body[field] ||
  req.body[field].toString().trim() === '')\<close>.
\<close>

definition missingFields :: "body \<Rightarrow> string list" where
  "missingFields b =
     filter (\<lambda>field. \<not> truthy (b field) \<or> trim (toString (b field)) = []) requiredFields"

text \<open>
  Lines 1277--1302: the missing fields, all of them in one response; then the jersey
  number; then the email, whose \<^verbatim>\<open>trim\<close> throws on a value that is not a string.
\<close>

definition validate_B :: "body \<Rightarrow> unit checked" where
  "validate_B b =
     (if missingFields b \<noteq> [] then
        Rejected (Response 400
          (Obj [(''error'', JS (JStr ''Missing required fields'')),
                (''missingFields'', Arr (map (\<lambda>f. JS (JStr f)) (missingFields b)))]))
      else case parseInt (b ''jerseyNumber'') of
             None \<Rightarrow> Rejected (Response 400 (error_body ''Jersey number must be between 1 and 99''))
           | Some jerseyNum \<Rightarrow>
               if jerseyNum < 1 \<or> jerseyNum > 99 then
                 Rejected (Response 400 (error_body ''Jersey number must be between 1 and 99''))
               else case trim_method (b ''email'') of
                      Inl err \<Rightarrow> Threw err
                    | Inr email \<Rightarrow>
                        if \<not> email_test email then
                          Rejected (Response 400 (error_body ''Please provide a valid email address''))
                        else Passed ())"

text \<open>\<^verbatim>\<open>executeQuery\<close>: a connection of its own for each statement.\<close>

definition executeQuery :: "env \<Rightarrow> failure + 'a \<Rightarrow> failure + 'a" where
  "executeQuery e statement = and_then (connectDatabase e) (\<lambda>client. statement)"

text \<open>\<^verbatim>\<open>SELECT id, name FROM orders WHERE jersey_number = $1\<close> with the raw field.\<close>

definition SELECT_by_jersey :: "pg_input \<Rightarrow> jsval \<Rightarrow> order_B list \<Rightarrow> failure + order_B list" where
  "SELECT_by_jersey pg v db =
     and_then (pg_column (Option.bind (pg_text v) (int4in pg))) (\<lambda>n.
       Inr (filter (\<lambda>r. b_jersey_number r = n) db))"

text \<open>\<^verbatim>\<open>v && v.trim() ? v.trim() : null\<close>.\<close>

definition clean :: "jsval \<Rightarrow> failure + string option" where
  "clean v =
     (if \<not> truthy v then Inr None
      else and_then (trim_method v) (\<lambda>t. Inr (if t = [] then None else Some t)))"

record draft_B = draft +
  d_order_date :: "timestamp option"
  d_department :: jsval

text \<open>
  \<^verbatim>\<open>formatDateForSQL(orderDate ? new Date(orderDate) : new Date())\<close>: the time the
  text stands for, \<open>None\<close> for a text the store will not read.
\<close>

definition formatDateForSQL :: "env \<Rightarrow> jsval \<Rightarrow> failure + timestamp option" where
  "formatDateForSQL e v =
     (if \<not> truthy v then Inr (Some (now e))
      else case order_date e v of
             InvalidDate \<Rightarrow> Inl RangeError
           | Unreadable \<Rightarrow> Inr None
           | Date t \<Rightarrow> Inr (Some t))"

definition insert_params_B :: "env \<Rightarrow> body \<Rightarrow> failure + draft_B" where
  "insert_params_B e b =
     and_then (clean (b ''batch'')) (\<lambda>cleanBatch.
     and_then (clean (b ''transactionId'')) (\<lambda>cleanTransactionId.
     and_then (clean (b ''notes'')) (\<lambda>cleanNotes.
     and_then (trim_method (b ''name'')) (\<lambda>name.
     and_then (trim_method (b ''studentId'')) (\<lambda>studentId.
     and_then (trim_method (b ''email'')) (\<lambda>email.
     and_then (formatDateForSQL e (b ''orderDate'')) (\<lambda>date.
       Inr \<lparr>d_name = name, d_student_id = studentId, d_jersey_number = b ''jerseyNumber'',
            d_batch = cleanBatch, d_size = b ''size'', d_collar_type = b ''collarType'',
            d_sleeve_type = b ''sleeveType'', d_email = email,
            d_transaction_id = cleanTransactionId, d_notes = cleanNotes,
            d_final_price = b ''finalPrice'', d_order_date = date,
            d_department = (if truthy (b ''department'') then b ''department''
                            else JStr ''ICE'')\<rparr>)))))))"

text \<open>
  The insert of the second listing.  Every value is converted first; then the primary
  key and the unique constraint on \<^verbatim>\<open>jersey_number\<close> refuse a row whose id or number
  is in the table.
\<close>

definition INSERT_B ::
  "pg_input \<Rightarrow> env \<Rightarrow> draft_B \<Rightarrow> order_B list \<Rightarrow> failure + order_B \<times> order_B list" where
  "INSERT_B pg e d db =
     and_then (not_null_varchar 30 (Some (d_name d))) (\<lambda>name.
     and_then (not_null_varchar 50 (Some (d_student_id d))) (\<lambda>student_id.
     and_then (pg_column (Option.bind (pg_text (d_jersey_number d)) (int4in pg))) (\<lambda>jersey_number.
     and_then (null_varchar 15 (d_batch d)) (\<lambda>batch.
     and_then (not_null_varchar 10 (pg_text (d_size d))) (\<lambda>size.
     and_then (not_null_varchar 20 (pg_text (d_collar_type d))) (\<lambda>collar_type.
     and_then (not_null_varchar 20 (pg_text (d_sleeve_type d))) (\<lambda>sleeve_type.
     and_then (not_null_varchar 40 (Some (d_email d))) (\<lambda>email.
     and_then (null_varchar 100 (d_transaction_id d)) (\<lambda>transaction_id.
     and_then (null_text (d_notes d)) (\<lambda>notes.
     and_then (pg_column (Option.bind (pg_text (d_final_price d)) (decimal_10_2 pg)))
       (\<lambda>final_price.
     and_then (pg_column (d_order_date d)) (\<lambda>date.
     and_then (null_varchar 10 (pg_text (d_department d))) (\<lambda>department.
         if nextval e \<in> set (map b_id db) \<or> jersey_number \<in> set (map b_jersey_number db)
         then Inl (PgError unique_violation)
         else
           let row = \<lparr>b_id = nextval e, b_name = name, b_student_id = student_id,
                      b_jersey_number = jersey_number, b_batch = batch, b_size = size,
                      b_collar_type = collar_type, b_sleeve_type = sleeve_type,
                      b_email = email, b_transaction_id = transaction_id,
                      b_notes = notes, b_final_price = final_price,
                      b_order_date = date, b_department = department,
                      b_status = Some ''pending'', b_created_at = now e,
                      b_updated_at = now e\<rparr>
           in Inr (row, db @ [row]))))))))))))))"

text \<open>
  \<^verbatim>\<open>sendEmailViaBrevo\<close>: no request without an API key, with a warning; an answer
  that is not ok is thrown and, like a rejected \<^verbatim>\<open>fetch\<close>, caught, logged as an error
  and returned as \<^verbatim>\<open>success: false\<close>; a delivery is logged too.
\<close>

definition sendEmailViaBrevo ::
  "env \<Rightarrow> email \<Rightarrow> bool option \<times> email list \<times> console list" where
  "sendEmailViaBrevo e m =
     (if \<not> env_set (BREVO_API_KEY e) then
        (Some False, [], [console_warn ''Brevo API key not configured, skipping email''])
      else case fetch e m of
             Responds ok \<Rightarrow>
               if ok then (Some True, [m], [console_log ''Email sent successfully via Brevo:''])
               else (Some False, [m], [console_error ''Error sending email via Brevo:''])
           | Rejects \<Rightarrow> (Some False, [m], [console_error ''Error sending email via Brevo:''])
           | Pending \<Rightarrow> (None, [m], []))"

text \<open>
  Around it \<^verbatim>\<open>sendConfirmationEmail\<close> and \<^verbatim>\<open>sendAdminNotification\<close> return its
  result and write a line of their own once it is there: a success, or a warning that
  the send failed.  Their \<^verbatim>\<open>catch\<close> is for an exception of
  \<^verbatim>\<open>sendEmailViaBrevo\<close>, which has none for a recipient that is a string.
\<close>

definition confirmation_B :: "body \<Rightarrow> email" where
  "confirmation_B b =
     \<lparr>e_to = toString (b ''email''),
      e_subject = ''ICE Jersey Order Confirmation - Order Received''\<rparr>"

definition sendConfirmationEmail ::
  "env \<Rightarrow> body \<Rightarrow> bool option \<times> email list \<times> console list" where
  "sendConfirmationEmail e b =
     (let result = sendEmailViaBrevo e (confirmation_B b)
      in (fst result, fst (snd result),
          snd (snd result) @
          (case fst result of
             None \<Rightarrow> []
           | Some success \<Rightarrow>
               if success then [console_log ''Confirmation email sent successfully to:'']
               else [console_warn ''Failed to send confirmation email:''])))"

definition admin_alert_B :: "env \<Rightarrow> body \<Rightarrow> email" where
  "admin_alert_B e b =
     \<lparr>e_to = (if env_set (ADMIN_EMAIL e) then the (ADMIN_EMAIL e)
              else ''sheikhnoorabdullah02@gmail.com''),
      e_subject = ''New Jersey Order - '' @ toString (b ''name'') @ '' (#'' @
                  toString (b ''jerseyNumber'') @ '')''\<rparr>"

definition sendAdminNotification ::
  "env \<Rightarrow> body \<Rightarrow> bool option \<times> email list \<times> console list" where
  "sendAdminNotification e b =
     (let result = sendEmailViaBrevo e (admin_alert_B e b)
      in (fst result, fst (snd result),
          snd (snd result) @
          (case fst result of
             None \<Rightarrow> []
           | Some success \<Rightarrow>
               if success then [console_log ''Admin notification sent successfully'']
               else [console_warn ''Failed to send admin notification:''])))"

text \<open>
  The order id of the response: \<^verbatim>\<open>result[0]?.id || Date.now().toString().slice(-6)\<close>,
  padded to six.
\<close>

definition orderIdFormatted :: "env \<Rightarrow> order_B \<Rightarrow> string" where
  "orderIdFormatted e row =
     ''ICE-'' @ padStart 6 CHR ''0''
       (if b_id row \<noteq> 0 then int_toString (b_id row)
        else (let s = digits (now e) in drop (length s - 6) s))"

definition opt_string :: "string option \<Rightarrow> json" where
  "opt_string v = (case v of None \<Rightarrow> JS JNull | Some s \<Rightarrow> JS (JStr s))"

definition created_B :: "env \<Rightarrow> body \<Rightarrow> draft_B \<Rightarrow> order_B \<Rightarrow> response" where
  "created_B e b d row =
     Response 201 (Obj [(''success'', JS (JBool True)),
                        (''message'', JS (JStr ''Order placed successfully'')),
                        (''orderId'', JS (JStr (orderIdFormatted e row))),
                        (''details'', Obj [(''name'', JS (JStr (d_name d))),
                                           (''jerseyNumber'', JS (b ''jerseyNumber'')),
                                           (''batch'', opt_string (d_batch d)),
                                           (''email'', JS (JStr (d_email d))),
                                           (''finalPrice'', JS (b ''finalPrice''))])])"

text \<open>
  The \<^verbatim>\<open>catch\<close> of the handler: code 23505 becomes 409, anything else 500 with the
  message of the error.
\<close>

definition failed_B :: "failure \<Rightarrow> order_B list \<Rightarrow> order_B result" where
  "failed_B err db =
     (if err = PgError unique_violation then
        respond 409 (error_body ''Jersey number is already taken'') db
      else respond 500 (Obj [(''error'', JS (JStr ''Internal server error'')),
                             (''message'', MessageOf err)]) db)"

text \<open>
  The two emails start inside \<^verbatim>\<open>Promise.allSettled\<close>, which the handler does not
  await: the response follows whatever becomes of them.  The warning of its
  \<^verbatim>\<open>then\<close> is for a send that rejects, and neither does.
\<close>

definition notify_created_B ::
  "env \<Rightarrow> body \<Rightarrow> draft_B \<Rightarrow> order_B \<Rightarrow> order_B list \<Rightarrow> order_B result" where
  "notify_created_B e b d row db =
     \<lparr>reply = Some (created_B e b d row), store = db,
      handed = [confirmation_B b, admin_alert_B e b],
      posted = fst (snd (sendConfirmationEmail e b)) @ fst (snd (sendAdminNotification e b)),
      logged = [snd (snd (sendConfirmationEmail e b)), snd (snd (sendAdminNotification e b))]\<rparr>"

text \<open>
  The handler.  The check query and the insert run on connections of their own, one
  after the other, and other requests may commit in between: \<open>seen\<close> is the table as the
  check reads it and \<open>db\<close> the table as the insert finds it.
\<close>

definition post_orders_B ::
  "pg_input \<Rightarrow> env \<Rightarrow> body \<Rightarrow> order_B list \<Rightarrow> order_B list \<Rightarrow> order_B result" where
  "post_orders_B pg e b seen db =
     (case validate_B b of
        Rejected r \<Rightarrow> answer r db
      | Threw err \<Rightarrow> failed_B err db
      | Passed u \<Rightarrow>
          (case executeQuery e (SELECT_by_jersey pg (b ''jerseyNumber'') seen) of
             Inl err \<Rightarrow> failed_B err db
           | Inr (holder # others) \<Rightarrow>
               respond 409 (error_body (''Jersey number '' @ toString (b ''jerseyNumber'') @
                                        '' is already taken by '' @ b_name holder)) db
           | Inr [] \<Rightarrow>
               (case insert_params_B e b of
                  Inl err \<Rightarrow> failed_B err db
                | Inr d \<Rightarrow>
                    (case executeQuery e (INSERT_B pg e d db) of
                       Inl err \<Rightarrow> failed_B err db
                     | Inr (row, db') \<Rightarrow> notify_created_B e b d row db'))))"

subsection \<open>Sample data\<close>

text \<open>
  A store that reads a run of decimal digits as an integer and as an amount, an
  environment with the API key set and a provider that answers, a table with the
  order of Alice, who holds jersey number 7, and the submission of Bob for the same
  number.
\<close>

definition mk_body :: "(string \<times> jsval) list \<Rightarrow> body" where
  "mk_body kvs = (\<lambda>k. case map_of kvs k of None \<Rightarrow> JUndefined | Some v \<Rightarrow> v)"

definition sample_int :: "string \<Rightarrow> int option" where
  "sample_int s = (if s \<noteq> [] \<and> list_all (is_digit 10) s then Some (int (digits_value 10 s))
                   else None)"

definition sample_pg :: pg_input where
  "sample_pg = \<lparr>int4in = sample_int,
                decimal_10_2 = (\<lambda>s. map_option (\<lambda>n. Hundredths (100 * n)) (sample_int s))\<rparr>"

definition sample_env :: env where
  "sample_env = \<lparr>BREVO_API_KEY = Some ''xkeysib'', ADMIN_EMAIL = None,
                 fetch = (\<lambda>m. Responds True), now = 1000, nextval = 2,
                 order_date = (\<lambda>v. InvalidDate), store_up = True\<rparr>"

definition alice_row :: order where
  "alice_row = \<lparr>o_id = 1, o_name = ''Alice'', o_student_id = ''S1'', o_jersey_number = ''7'',
                o_batch = None, o_size = ''M'', o_collar_type = ''round'',
                o_sleeve_type = ''short'', o_email = ''alice@example.com'',
                o_transaction_id = None, o_notes = None, o_final_price = Hundredths 45000,
                o_status = Some ''pending'', o_created_at = 10, o_updated_at = 10\<rparr>"

definition alice_row_B :: order_B where
  "alice_row_B = \<lparr>b_id = 1, b_name = ''Alice'', b_student_id = ''S1'', b_jersey_number = 7,
                  b_batch = None, b_size = ''M'', b_collar_type = ''round'',
                  b_sleeve_type = ''short'', b_email = ''alice@example.com'',
                  b_transaction_id = None, b_notes = None, b_final_price = Hundredths 45000,
                  b_order_date = 10, b_department = Some ''ICE'',
                  b_status = Some ''pending'', b_created_at = 10, b_updated_at = 10\<rparr>"

definition bob :: "jsval \<Rightarrow> jsval \<Rightarrow> body" where
  "bob jerseyNumber email =
     mk_body [(''name'', JStr ''Bob''), (''studentId'', JStr ''S2''),
              (''jerseyNumber'', jerseyNumber), (''size'', JStr ''L''),
              (''collarType'', JStr ''polo''), (''sleeveType'', JStr ''long''),
              (''email'', email), (''finalPrice'', JNum 450)]"

definition bob_row :: order where
  "bob_row = \<lparr>o_id = 2, o_name = ''Bob'', o_student_id = ''S2'', o_jersey_number = ''7'',
              o_batch = None, o_size = ''L'', o_collar_type = ''polo'',
              o_sleeve_type = ''long'', o_email = ''bob@example.com'',
              o_transaction_id = None, o_notes = None, o_final_price = Hundredths 45000,
              o_status = Some ''pending'', o_created_at = 1000, o_updated_at = 1000\<rparr>"

definition set_status :: "string \<Rightarrow> body" where
  "set_status st = mk_body [(''status'', JStr st)]"

text \<open>
  Environments in which the send fails: no API key, a provider that rejects the request,
  one that answers with a status that is not ok, and one that never answers.
\<close>

definition unconfigured_env :: env where
  "unconfigured_env = sample_env\<lparr>BREVO_API_KEY := None\<rparr>"

definition rejecting_env :: env where
  "rejecting_env = sample_env\<lparr>fetch := (\<lambda>m. Rejects)\<rparr>"

definition refusing_env :: env where
  "refusing_env = sample_env\<lparr>fetch := (\<lambda>m. Responds False)\<rparr>"

definition hanging_env :: env where
  "hanging_env = sample_env\<lparr>fetch := (\<lambda>m. Pending)\<rparr>"

text \<open>Submissions with the number 0, and with the string \<^verbatim>\<open>"0"\<close>, in both fields.\<close>

definition zero_body :: body where
  "zero_body = mk_body [(''name'', JStr ''Bob''), (''studentId'', JStr ''S2''),
              (''jerseyNumber'', JNum 0), (''size'', JStr ''L''),
              (''collarType'', JStr ''polo''), (''sleeveType'', JStr ''long''),
              (''email'', JStr ''bob@example.com''), (''finalPrice'', JNum 0)]"

definition zero_string_body :: body where
  "zero_string_body = mk_body [(''name'', JStr ''Bob''), (''studentId'', JStr ''S2''),
              (''jerseyNumber'', JStr ''0''), (''size'', JStr ''L''),
              (''collarType'', JStr ''polo''), (''sleeveType'', JStr ''long''),
              (''email'', JStr ''bob@example.com''), (''finalPrice'', JStr ''0'')]"

section \<open>Properties\<close>

text \<open>
  In the theorems below a request runs alone: no other request changes the table
  between the statements of one handler, except where the second listing's check and
  insert are given tables of their own.  The admin routes are called with a verified
  token, and where a theorem needs the store it says that the connection succeeds
  (\<open>store_up\<close>).
\<close>

subsection \<open>The admin routes of the first listing\<close>

text \<open>The primary key: one row for an id that is in the table.\<close>

lemma filter_primary_key:
  "distinct (map o_id db) \<Longrightarrow> row \<in> set db \<Longrightarrow> filter (\<lambda>r. o_id r = o_id row) db = [row]"
proof (induction db)
  case Nil
  then show ?case by simp
next
  case (Cons x xs)
  show ?case
  proof (cases "x = row")
    case True
    with Cons.prems have "\<forall>r\<in>set xs. o_id r \<noteq> o_id row" by (auto simp: image_iff)
    then have "filter (\<lambda>r. o_id r = o_id row) xs = []" by (simp add: filter_empty_conv)
    with True show ?thesis by simp
  next
    case False
    with Cons.prems have in_xs: "row \<in> set xs" and d: "distinct (map o_id xs)" by auto
    from Cons.prems in_xs have "o_id x \<noteq> o_id row" by (auto simp: image_iff)
    with Cons.IH [OF d in_xs] show ?thesis by simp
  qed
qed

lemma SELECT_by_id_row:
  assumes "distinct (map o_id db)" "row \<in> set db" "int4in pg idp = Some (o_id row)"
  shows "SELECT_by_id pg idp db = Inr [row]"
  using assms by (simp add: SELECT_by_id_def and_then_def pg_column_def filter_primary_key)

lemma UPDATE_status_row:
  assumes "int4in pg idp = Some i"
  shows "UPDATE_status pg e st idp db =
         Inr (map (\<lambda>r. if o_id r = i then r\<lparr>o_status := Some st, o_updated_at := now e\<rparr> else r) db)"
  using assms by (simp add: UPDATE_status_def and_then_def pg_column_def)

lemma patch_status_found:
  assumes "store_up e" "distinct (map o_id db)" "row \<in> set db" "int4in pg idp = Some (o_id row)"
    and "b ''status'' = JStr st" "st = ''pending'' \<or> st = ''done''"
  shows "patch_status pg e GoodToken idp b db =
     (let db' = map (\<lambda>r. if o_id r = o_id row then r\<lparr>o_status := Some st, o_updated_at := now e\<rparr> else r) db
      in if st = ''done'' \<and> o_status row \<noteq> Some ''done'' then
           (case fst (sendEmail e (status_mail row)) of
              None \<Rightarrow> \<lparr>reply = None, store = db', handed = [status_mail row],
                       posted = fst (snd (sendEmail e (status_mail row))),
                       logged = [snd (snd (sendEmail e (status_mail row)))]\<rparr>
            | Some ok \<Rightarrow> \<lparr>reply = Some (status_updated st), store = db',
                       handed = [status_mail row],
                       posted = fst (snd (sendEmail e (status_mail row))),
                       logged = [snd (snd (sendEmail e (status_mail row)))]\<rparr>)
         else \<lparr>reply = Some (status_updated st), store = db', handed = [], posted = [],
               logged = []\<rparr>)"
  using assms
  by (auto simp: patch_status_def connectDB_def and_then_def SELECT_by_id_row UPDATE_status_row
        Let_def split: option.splits)

lemma updated_row_in:
  assumes "row \<in> set db"
  shows "row\<lparr>o_status := Some st, o_updated_at := t\<rparr> \<in>
         set (map (\<lambda>r. if o_id r = o_id row then r\<lparr>o_status := Some st, o_updated_at := t\<rparr> else r) db)"
  using assms by (induction db) auto

lemma updated_ids:
  "map o_id (map (\<lambda>r. if o_id r = i then r\<lparr>o_status := Some st, o_updated_at := t\<rparr> else r) db) = map o_id db"
  by (induction db) auto

lemma store_patch_status_found:
  assumes "store_up e" "distinct (map o_id db)" "row \<in> set db" "int4in pg idp = Some (o_id row)"
    and "b ''status'' = JStr st" "st = ''pending'' \<or> st = ''done''"
  shows "store (patch_status pg e GoodToken idp b db) =
     map (\<lambda>r. if o_id r = o_id row then r\<lparr>o_status := Some st, o_updated_at := now e\<rparr> else r) db"
  by (simp add: patch_status_found [where b = b and e = e, OF assms] Let_def split: option.splits)

lemma handed_patch_status_found:
  assumes "store_up e" "distinct (map o_id db)" "row \<in> set db" "int4in pg idp = Some (o_id row)"
    and "b ''status'' = JStr st" "st = ''pending'' \<or> st = ''done''"
  shows "handed (patch_status pg e GoodToken idp b db) =
     (if st = ''done'' \<and> o_status row \<noteq> Some ''done'' then [status_mail row] else [])"
  by (simp add: patch_status_found [where b = b and e = e, OF assms] Let_def split: option.splits)

lemma posted_sendEmail:
  "fst (snd (sendEmail e m)) = (if env_set (BREVO_API_KEY e) then [m] else [])"
  by (simp add: sendEmail_def split: fetch_result.splits)

lemma posted_patch_status_found:
  assumes "store_up e" "distinct (map o_id db)" "row \<in> set db" "int4in pg idp = Some (o_id row)"
    and "b ''status'' = JStr st" "st = ''pending'' \<or> st = ''done''"
  shows "posted (patch_status pg e GoodToken idp b db) =
     (if st = ''done'' \<and> o_status row \<noteq> Some ''done'' \<and> env_set (BREVO_API_KEY e)
      then [status_mail row] else [])"
  by (simp add: patch_status_found [where b = b and e = e, OF assms] Let_def posted_sendEmail split: option.splits)

lemma fst_sendEmail_settles:
  "fetch e m \<noteq> Pending \<Longrightarrow> \<exists>ok. fst (sendEmail e m) = Some ok"
  by (cases "fetch e m") (auto simp: sendEmail_def)

lemma DELETE_by_id_parts:
  "int4in pg idp = Some i \<Longrightarrow>
   DELETE_by_id pg idp db = Inr (filter (\<lambda>r. o_id r = i) db, filter (\<lambda>r. o_id r \<noteq> i) db)"
  by (simp add: DELETE_by_id_def and_then_def pg_column_def)

lemma filter_id_empty: "(filter (\<lambda>r. o_id r = i) db = []) = (i \<notin> set (map o_id db))"
  by (auto simp: filter_empty_conv)

lemma filter_absent: "i \<notin> set (map o_id db) \<Longrightarrow> filter (\<lambda>r. o_id r \<noteq> i) db = db"
  by (induction db) auto

text \<open>
  Claim C2.  An order is in the table (ids distinct, as the primary key has them), the
  store is reachable and the verified request sets its status to \<^verbatim>\<open>done\<close>.  When the status read was not
  \<^verbatim>\<open>done\<close> (anything else, or \<^verbatim>\<open>NULL\<close>) the handler hands exactly one email, the
  payment confirmation to the address of the order, to \<^verbatim>\<open>sendEmail\<close>, which posts it
  to the provider when the API key is set; when it was \<^verbatim>\<open>done\<close> it hands none.
  Repeating the request on the table the first one left, in any environment, hands and
  posts none.
\<close>

theorem done_notifies_on_edge_only:
  assumes up: "store_up e" "store_up e'" and pk: "distinct (map o_id db)" and row: "row \<in> set db"
    and idp: "int4in pg idp = Some (o_id row)"
    and st: "b ''status'' = JStr ''done''"
  shows "handed (patch_status pg e GoodToken idp b db) =
           (if o_status row = Some ''done'' then [] else [status_mail row]) \<and>
         posted (patch_status pg e GoodToken idp b db) =
           (if o_status row \<noteq> Some ''done'' \<and> env_set (BREVO_API_KEY e) then [status_mail row] else []) \<and>
         handed (patch_status pg e' GoodToken idp b (store (patch_status pg e GoodToken idp b db))) = [] \<and>
         posted (patch_status pg e' GoodToken idp b (store (patch_status pg e GoodToken idp b db))) = []"
proof -
  let ?db' = "store (patch_status pg e GoodToken idp b db)"
  let ?row' = "row\<lparr>o_status := Some ''done'', o_updated_at := now e\<rparr>"
  have db': "?db' = map (\<lambda>r. if o_id r = o_id row then r\<lparr>o_status := Some ''done'', o_updated_at := now e\<rparr> else r) db"
    using store_patch_status_found [where b = b and e = e, OF up(1) pk row idp st] by simp
  have pk': "distinct (map o_id ?db')" using pk by (simp only: db' updated_ids)
  have row': "?row' \<in> set ?db'" using updated_row_in [OF row] by (simp only: db')
  have idp': "int4in pg idp = Some (o_id ?row')" using idp by simp
  have first: "handed (patch_status pg e GoodToken idp b db) =
           (if o_status row = Some ''done'' then [] else [status_mail row])"
    using handed_patch_status_found [where b = b and e = e, OF up(1) pk row idp st] by simp
  have firstp: "posted (patch_status pg e GoodToken idp b db) =
           (if o_status row \<noteq> Some ''done'' \<and> env_set (BREVO_API_KEY e) then [status_mail row] else [])"
    using posted_patch_status_found [where b = b and e = e, OF up(1) pk row idp st] by simp
  have second: "handed (patch_status pg e' GoodToken idp b ?db') = []"
    using handed_patch_status_found [where b = b and e = e', OF up(2) pk' row' idp' st] by simp
  have secondp: "posted (patch_status pg e' GoodToken idp b ?db') = []"
    using posted_patch_status_found [where b = b and e = e', OF up(2) pk' row' idp' st] by simp
  from first firstp second secondp show ?thesis by blast
qed

theorem done_notifies_on_edge_only_witness:
  "store_up sample_env \<and> distinct (map o_id [alice_row]) \<and> alice_row \<in> set [alice_row] \<and>
   int4in sample_pg ''1'' = Some (o_id alice_row) \<and>
   set_status ''done'' ''status'' = JStr ''done'' \<and>
   handed (patch_status sample_pg sample_env GoodToken ''1'' (set_status ''done'') [alice_row]) =
     [status_mail alice_row] \<and>
   posted (patch_status sample_pg sample_env GoodToken ''1'' (set_status ''done'') [alice_row]) =
     [status_mail alice_row] \<and>
   handed (patch_status sample_pg sample_env GoodToken ''1'' (set_status ''done'')
     (store (patch_status sample_pg sample_env GoodToken ''1'' (set_status ''done'') [alice_row]))) = [] \<and>
   posted (patch_status sample_pg sample_env GoodToken ''1'' (set_status ''done'')
     (store (patch_status sample_pg sample_env GoodToken ''1'' (set_status ''done'') [alice_row]))) = []"
proof -
  have up: "store_up sample_env" by (simp add: sample_env_def)
  have h1: "distinct (map o_id [alice_row])" by simp
  have h2: "alice_row \<in> set [alice_row]" by simp
  have h3: "int4in sample_pg ''1'' = Some (o_id alice_row)" by code_simp
  have h4: "set_status ''done'' ''status'' = JStr ''done''" by code_simp
  have h5: "o_status alice_row \<noteq> Some ''done''" by (simp add: alice_row_def)
  have h6: "env_set (BREVO_API_KEY sample_env)" by (simp add: sample_env_def env_set_def)
  show ?thesis
    using done_notifies_on_edge_only [where b = "set_status ''done''" and e = sample_env
        and e' = sample_env, OF up up h1 h2 h3 h4] up h1 h2 h3 h4 h5 h6
    by simp
qed

text \<open>
  Claim C5, as stated, fails: the response of the status update is the same whether
  the order was \<^verbatim>\<open>pending\<close> or already \<^verbatim>\<open>done\<close>; it has the fields
  \<^verbatim>\<open>success\<close>, \<^verbatim>\<open>message\<close> and \<^verbatim>\<open>newStatus\<close> and none for the previous status.
\<close>

theorem status_reply_counterexample:
  "reply (patch_status sample_pg sample_env GoodToken ''1'' (set_status ''done'') [alice_row]) =
     reply (patch_status sample_pg sample_env GoodToken ''1'' (set_status ''done'')
              [alice_row\<lparr>o_status := Some ''done''\<rparr>]) \<and>
   reply (patch_status sample_pg sample_env GoodToken ''1'' (set_status ''done'') [alice_row]) =
     Some (Response 200 (Obj [(''success'', JS (JBool True)),
                              (''message'', JS (JStr ''Order status updated successfully'')),
                              (''newStatus'', JS (JStr ''done''))]))"
  by code_simp

text \<open>
  Claim C5, amended.  With the store reachable, for an order in the table and a new
  status \<^verbatim>\<open>pending\<close> or \<^verbatim>\<open>done\<close>, once the awaited email has settled the status
  update answers 200 with \<^verbatim>\<open>success\<close>, the fixed message and \<^verbatim>\<open>newStatus\<close> only:
  the response is determined by the new status and does not carry the previous one.
\<close>

theorem status_update_reply:
  assumes up: "store_up e" and pk: "distinct (map o_id db)" and row: "row \<in> set db"
    and idp: "int4in pg idp = Some (o_id row)"
    and st: "b ''status'' = JStr st" "st = ''pending'' \<or> st = ''done''"
    and settles: "fetch e (status_mail row) \<noteq> Pending"
  shows "reply (patch_status pg e GoodToken idp b db) =
         Some (Response 200 (Obj [(''success'', JS (JBool True)),
                                  (''message'', JS (JStr ''Order status updated successfully'')),
                                  (''newStatus'', JS (JStr st))]))"
  using fst_sendEmail_settles [OF settles]
  by (auto simp: patch_status_found [where b = b and e = e, OF up pk row idp st] Let_def
        status_updated_def split: option.splits)

theorem status_update_reply_witness:
  "store_up sample_env \<and> distinct (map o_id [alice_row]) \<and> alice_row \<in> set [alice_row] \<and>
   int4in sample_pg ''1'' = Some (o_id alice_row) \<and>
   set_status ''done'' ''status'' = JStr ''done'' \<and>
   fetch sample_env (status_mail alice_row) \<noteq> Pending \<and>
   reply (patch_status sample_pg sample_env GoodToken ''1'' (set_status ''done'') [alice_row]) =
     Some (Response 200 (Obj [(''success'', JS (JBool True)),
                              (''message'', JS (JStr ''Order status updated successfully'')),
                              (''newStatus'', JS (JStr ''done''))]))"
proof -
  have up: "store_up sample_env" by (simp add: sample_env_def)
  have h1: "distinct (map o_id [alice_row])" by simp
  have h2: "alice_row \<in> set [alice_row]" by simp
  have h3: "int4in sample_pg ''1'' = Some (o_id alice_row)" by code_simp
  have h4: "set_status ''done'' ''status'' = JStr ''done''" by code_simp
  have h5: "fetch sample_env (status_mail alice_row) \<noteq> Pending" by (simp add: sample_env_def)
  show ?thesis
    using status_update_reply [where b = "set_status ''done''" and e = sample_env
        and st = "''done''", OF up h1 h2 h3 h4 _ h5] up h1 h2 h3 h4 h5
    by simp
qed

text \<open>
  Claim C8, as stated, fails: the response of a successful delete holds
  \<^verbatim>\<open>success\<close> and a fixed message, the same for two different orders, and no
  snapshot of the row removed.
\<close>

theorem delete_reply_counterexample:
  "reply (delete_order sample_pg sample_env GoodToken ''1'' [alice_row]) =
     Some (Response 200 (Obj [(''success'', JS (JBool True)),
                              (''message'', JS (JStr ''Order deleted successfully''))])) \<and>
   reply (delete_order sample_pg sample_env GoodToken ''2'' [bob_row]) =
     reply (delete_order sample_pg sample_env GoodToken ''1'' [alice_row]) \<and>
   alice_row \<noteq> bob_row"
  by code_simp

text \<open>
  Claim C8, amended.  The store is reachable.  When the id is in the table, the delete
  removes every row with
  it and leaves the others, answers 200 with \<^verbatim>\<open>success\<close> and the fixed message (no
  snapshot), and a following \<^verbatim>\<open>GET /api/admin/orders/:id\<close> for the id answers 404.
  When the id is not in the table the delete answers 404 and the table is unchanged.
\<close>

theorem delete_removes:
  assumes up: "store_up e" and idp: "int4in pg idp = Some i"
  shows "(i \<in> set (map o_id db) \<longrightarrow>
            reply (delete_order pg e GoodToken idp db) =
              Some (Response 200 (Obj [(''success'', JS (JBool True)),
                                       (''message'', JS (JStr ''Order deleted successfully''))])) \<and>
            store (delete_order pg e GoodToken idp db) = filter (\<lambda>r. o_id r \<noteq> i) db \<and>
            reply (get_order pg e GoodToken idp (store (delete_order pg e GoodToken idp db))) =
              Some (Response 404 (error_body ''Order not found''))) \<and>
         (i \<notin> set (map o_id db) \<longrightarrow>
            reply (delete_order pg e GoodToken idp db) =
              Some (Response 404 (error_body ''Order not found'')) \<and>
            store (delete_order pg e GoodToken idp db) = db)"
proof (intro conjI impI)
  assume ex: "i \<in> set (map o_id db)"
  then obtain row rest where f: "filter (\<lambda>r. o_id r = i) db = row # rest"
    using filter_id_empty [of i db] by (cases "filter (\<lambda>r. o_id r = i) db") auto
  show r: "reply (delete_order pg e GoodToken idp db) =
              Some (Response 200 (Obj [(''success'', JS (JBool True)),
                                       (''message'', JS (JStr ''Order deleted successfully''))]))"
    by (simp add: delete_order_def connectDB_def up and_then_def DELETE_by_id_parts [OF idp] f
          respond_def answer_def)
  show s: "store (delete_order pg e GoodToken idp db) = filter (\<lambda>r. o_id r \<noteq> i) db"
    by (simp add: delete_order_def connectDB_def up and_then_def DELETE_by_id_parts [OF idp] f
          respond_def answer_def)
  have "filter (\<lambda>r. o_id r = i) (filter (\<lambda>r. o_id r \<noteq> i) db) = []"
    by (simp add: filter_empty_conv)
  then show "reply (get_order pg e GoodToken idp (store (delete_order pg e GoodToken idp db))) =
              Some (Response 404 (error_body ''Order not found''))"
    by (simp add: s get_order_def connectDB_def up SELECT_by_id_def and_then_def pg_column_def idp
          respond_def answer_def)
next
  assume nex: "i \<notin> set (map o_id db)"
  then have f: "filter (\<lambda>r. o_id r = i) db = []" using filter_id_empty [of i db] by simp
  show "reply (delete_order pg e GoodToken idp db) = Some (Response 404 (error_body ''Order not found''))"
    by (simp add: delete_order_def connectDB_def up and_then_def DELETE_by_id_parts [OF idp] f
          respond_def answer_def)
  show "store (delete_order pg e GoodToken idp db) = db"
    by (simp add: delete_order_def connectDB_def up and_then_def DELETE_by_id_parts [OF idp] f
          respond_def answer_def filter_absent [OF nex])
qed

theorem delete_removes_witness:
  "store_up sample_env \<and> int4in sample_pg ''1'' = Some 1 \<and> 1 \<in> set (map o_id [alice_row, bob_row]) \<and>
   3 \<notin> set (map o_id [alice_row, bob_row]) \<and> int4in sample_pg ''3'' = Some 3 \<and>
   store (delete_order sample_pg sample_env GoodToken ''1'' [alice_row, bob_row]) = [bob_row] \<and>
   reply (get_order sample_pg sample_env GoodToken ''1''
            (store (delete_order sample_pg sample_env GoodToken ''1'' [alice_row, bob_row]))) =
     Some (Response 404 (error_body ''Order not found'')) \<and>
   reply (delete_order sample_pg sample_env GoodToken ''3'' [alice_row, bob_row]) =
     Some (Response 404 (error_body ''Order not found'')) \<and>
   store (delete_order sample_pg sample_env GoodToken ''3'' [alice_row, bob_row]) = [alice_row, bob_row]"
proof -
  have up: "store_up sample_env" by (simp add: sample_env_def)
  have h1: "int4in sample_pg ''1'' = Some 1" by code_simp
  have h2: "1 \<in> set (map o_id [alice_row, bob_row])" by (simp add: alice_row_def)
  have h3: "3 \<notin> set (map o_id [alice_row, bob_row])" by (simp add: alice_row_def bob_row_def)
  have h4: "int4in sample_pg ''3'' = Some 3" by code_simp
  have ids: "o_id alice_row = 1" "o_id bob_row = 2"
    by (simp_all add: alice_row_def bob_row_def)
  note present = delete_removes [OF up h1, of "[alice_row, bob_row]"]
  note absent = delete_removes [OF up h4, of "[alice_row, bob_row]"]
  from present h2
  have s1: "store (delete_order sample_pg sample_env GoodToken ''1'' [alice_row, bob_row]) = [bob_row]"
    by (simp add: ids)
  from present h2
  have g1: "reply (get_order sample_pg sample_env GoodToken ''1''
              (store (delete_order sample_pg sample_env GoodToken ''1'' [alice_row, bob_row]))) =
            Some (Response 404 (error_body ''Order not found''))"
    by blast
  from absent h3
  have r3: "reply (delete_order sample_pg sample_env GoodToken ''3'' [alice_row, bob_row]) =
            Some (Response 404 (error_body ''Order not found''))"
    and s3: "store (delete_order sample_pg sample_env GoodToken ''3'' [alice_row, bob_row]) =
            [alice_row, bob_row]"
    by blast+
  from up h1 h2 h3 h4 s1 g1 r3 s3 show ?thesis by blast
qed

text \<open>
  An id in the path that the store cannot read as an integer makes the statement fail:
  the delete and the fetch answer 500 from their \<^verbatim>\<open>catch\<close>, and the table is as it
  was.
\<close>

lemma unreadable_id_answers_500:
  assumes "int4in pg idp = None"
  shows "delete_order pg e GoodToken idp db = respond 500 (error_body ''Failed to delete order'') db"
    and "get_order pg e GoodToken idp db = respond 500 (error_body ''Failed to fetch order'') db"
  using assms
  by (simp_all add: delete_order_def get_order_def DELETE_by_id_def SELECT_by_id_def and_then_def
        pg_column_def connectDB_def)

text \<open>
  Claim C10.  With the store reachable, for an order in the table and a new status
  \<^verbatim>\<open>pending\<close> or \<^verbatim>\<open>done\<close>, the status update runs the \<^verbatim>\<open>UPDATE\<close> whatever the
  current status is: afterwards the row has the new status and \<^verbatim>\<open>updated_at\<close> set to
  the time of the request, also when the status was already the new one; every other
  field of the row and every other row, in its place, is as before.
\<close>

theorem status_update_frame:
  assumes up: "store_up e" and pk: "distinct (map o_id db)" and db: "db = before @ row # after"
    and idp: "int4in pg idp = Some (o_id row)"
    and st: "b ''status'' = JStr st" "st = ''pending'' \<or> st = ''done''"
  shows "store (patch_status pg e GoodToken idp b db) =
         before @ row\<lparr>o_status := Some st, o_updated_at := now e\<rparr> # after"
proof -
  have row: "row \<in> set db" using db by simp
  have b: "\<forall>r\<in>set before. o_id r \<noteq> o_id row" using pk db by (fastforce simp: image_iff)
  have a: "\<forall>r\<in>set after. o_id r \<noteq> o_id row" using pk db by (fastforce simp: image_iff)
  have "store (patch_status pg e GoodToken idp b db) =
     map (\<lambda>r. if o_id r = o_id row then r\<lparr>o_status := Some st, o_updated_at := now e\<rparr> else r) db"
    by (rule store_patch_status_found [where b = b and e = e, OF up pk row idp st])
  also have "\<dots> = before @ row\<lparr>o_status := Some st, o_updated_at := now e\<rparr> # after"
    using a b by (simp add: db map_idI)
  finally show ?thesis .
qed

theorem status_update_frame_witness:
  "store_up sample_env \<and> distinct (map o_id [alice_row, bob_row]) \<and>
   [alice_row, bob_row] = [alice_row] @ bob_row # [] \<and>
   int4in sample_pg ''2'' = Some (o_id bob_row) \<and>
   set_status ''pending'' ''status'' = JStr ''pending'' \<and>
   o_status bob_row = Some ''pending'' \<and>
   store (patch_status sample_pg sample_env GoodToken ''2'' (set_status ''pending'') [alice_row, bob_row]) =
     [alice_row, bob_row\<lparr>o_status := Some ''pending'', o_updated_at := 1000\<rparr>]"
proof -
  have up: "store_up sample_env" by (simp add: sample_env_def)
  have h1: "distinct (map o_id [alice_row, bob_row])" by code_simp
  have h2: "[alice_row, bob_row] = [alice_row] @ bob_row # []" by simp
  have h3: "int4in sample_pg ''2'' = Some (o_id bob_row)" by code_simp
  have h4: "set_status ''pending'' ''status'' = JStr ''pending''" by code_simp
  have h5: "o_status bob_row = Some ''pending''" by (simp add: bob_row_def)
  have h6: "now sample_env = 1000" by (simp add: sample_env_def)
  show ?thesis
    using status_update_frame [where b = "set_status ''pending''" and e = sample_env
        and st = "''pending''", OF up h1 h2 h3 h4] up h1 h3 h4 h5 h6
    by simp
qed

subsection \<open>Validation in both listings\<close>

text \<open>
  The test of the email pattern is the pattern read as a regular expression: three
  non-empty runs of the class, with \<^verbatim>\<open>@\<close> after the first and a dot after the second.
\<close>

lemma dot_class: "not_space_at CHR ''.''"
  by (simp add: not_space_at_def js_space_def)

lemma at_class: "\<not> not_space_at CHR ''@''"
  by (simp add: not_space_at_def)

lemma email_test_pattern:
  "email_test s =
     (\<exists>a b c. s = a @ ''@'' @ b @ ''.'' @ c \<and> a \<noteq> [] \<and> b \<noteq> [] \<and> c \<noteq> [] \<and>
        list_all not_space_at a \<and> list_all not_space_at b \<and> list_all not_space_at c)"
proof
  assume t: "email_test s"
  define a where "a = takeWhile not_space_at s"
  define r where "r = dropWhile not_space_at s"
  from t have a: "a \<noteq> []" and r: "r \<noteq> []" and h: "hd r = CHR ''@''"
    and d: "list_all not_space_at (tl r)" and dot: "CHR ''.'' \<in> set (butlast (tl (tl r)))"
    by (simp_all add: email_test_def a_def r_def Let_def)
  from dot obtain x y where xy: "butlast (tl (tl r)) = x @ CHR ''.'' # y"
    by (meson split_list)
  then have ne: "tl (tl r) \<noteq> []" by auto
  then have ne': "tl r \<noteq> []" by auto
  have tl2: "tl (tl r) = x @ CHR ''.'' # y @ [last (tl (tl r))]"
    using xy ne by (metis append_Cons append_assoc append_butlast_last_id)
  have tl1: "tl r = hd (tl r) # tl (tl r)" using ne' by simp
  have s: "s = a @ r" by (simp add: a_def r_def)
  have rr: "r = CHR ''@'' # tl r" using r h by (metis list.collapse)
  let ?b = "hd (tl r) # x" and ?c = "y @ [last (tl (tl r))]"
  have "s = a @ ''@'' @ ?b @ ''.'' @ ?c" using s rr tl1 tl2 by (metis append_Cons append_Nil)
  moreover have "list_all not_space_at a" by (simp add: a_def list_all_iff) (meson set_takeWhileD)
  moreover have "list_all not_space_at ?b \<and> list_all not_space_at ?c"
  proof -
    have "list_all not_space_at (hd (tl r) # x @ CHR ''.'' # y @ [last (tl (tl r))])"
      using d tl1 tl2 by metis
    then show ?thesis by simp
  qed
  ultimately show "\<exists>a b c. s = a @ ''@'' @ b @ ''.'' @ c \<and> a \<noteq> [] \<and> b \<noteq> [] \<and> c \<noteq> [] \<and>
        list_all not_space_at a \<and> list_all not_space_at b \<and> list_all not_space_at c"
    using a by blast
next
  assume "\<exists>a b c. s = a @ ''@'' @ b @ ''.'' @ c \<and> a \<noteq> [] \<and> b \<noteq> [] \<and> c \<noteq> [] \<and>
        list_all not_space_at a \<and> list_all not_space_at b \<and> list_all not_space_at c"
  then obtain a b c where s: "s = a @ ''@'' @ b @ ''.'' @ c" and ne: "a \<noteq> []" "b \<noteq> []" "c \<noteq> []"
    and cl: "list_all not_space_at a" "list_all not_space_at b" "list_all not_space_at c"
    by blast
  have tw: "takeWhile not_space_at s = a"
    using cl(1) by (simp add: s takeWhile_append2 list_all_iff at_class)
  have dw: "dropWhile not_space_at s = ''@'' @ b @ ''.'' @ c"
    using cl(1) by (simp add: s dropWhile_append2 list_all_iff at_class)
  have bl: "butlast (tl (b @ CHR ''.'' # c)) = tl b @ CHR ''.'' # butlast c"
    using ne by (simp add: butlast_append)
  have "CHR ''.'' \<in> set (butlast (tl (b @ CHR ''.'' # c)))"
    by (simp only: bl) simp
  then show "email_test s"
    using ne cl by (simp add: email_test_def tw dw Let_def dot_class)
qed

text \<open>\<^verbatim>\<open>parseInt\<close> reads a run of decimal digits as the number they stand for.\<close>

lemma digit_table:
  "\<forall>k\<in>set [0..<10]. digit_val (''0123456789'' ! k) = k \<and> is_digit 10 (''0123456789'' ! k) \<and>
     \<not> js_space (''0123456789'' ! k) \<and> ''0123456789'' ! k \<noteq> CHR ''-'' \<and>
     ''0123456789'' ! k \<noteq> CHR ''+'' \<and> ''0123456789'' ! k \<noteq> CHR ''x'' \<and>
     ''0123456789'' ! k \<noteq> CHR ''X''"
  by code_simp

lemma digit_char:
  assumes "k < 10"
  shows "digit_val (''0123456789'' ! k) = k" "is_digit 10 (''0123456789'' ! k)"
    "\<not> js_space (''0123456789'' ! k)" "''0123456789'' ! k \<noteq> CHR ''-''"
    "''0123456789'' ! k \<noteq> CHR ''+''" "''0123456789'' ! k \<noteq> CHR ''x''"
    "''0123456789'' ! k \<noteq> CHR ''X''"
  using digit_table assms by auto

lemma digits_value_snoc:
  "digits_value r (ds @ [c]) = digits_value r ds * r + digit_val c"
  by (simp add: digits_value_def)

lemma digits_nonempty: "digits n \<noteq> []"
  by (subst digits.simps) simp

lemma digits_are_digits: "list_all (is_digit 10) (digits n)"
proof (induction n rule: digits.induct)
  case (1 n)
  show ?case
  proof (cases "n < 10")
    case True
    then show ?thesis by (subst digits.simps) (simp add: digit_char)
  next
    case False
    with 1 have "list_all (is_digit 10) (digits (n div 10))" by simp
    moreover have "is_digit 10 (''0123456789'' ! (n mod 10))" by (rule digit_char) simp
    ultimately show ?thesis using False by (subst digits.simps) simp
  qed
qed

lemma digits_value_digits: "digits_value 10 (digits n) = n"
proof (induction n rule: digits.induct)
  case (1 n)
  show ?case
  proof (cases "n < 10")
    case True
    then show ?thesis by (subst digits.simps) (simp add: digits_value_def digit_char)
  next
    case False
    with 1 have "digits_value 10 (digits (n div 10)) = n div 10" by simp
    moreover have "digit_val (''0123456789'' ! (n mod 10)) = n mod 10" by (rule digit_char) simp
    ultimately show ?thesis using False
      by (subst digits.simps) (simp add: digits_value_snoc)
  qed
qed

lemma hd_digits: "\<exists>k<10. hd (digits n) = ''0123456789'' ! k"
proof (induction n rule: digits.induct)
  case (1 n)
  show ?case
  proof (cases "n < 10")
    case True
    then show ?thesis by (subst digits.simps) auto
  next
    case False
    with 1 obtain k where "k < 10" "hd (digits (n div 10)) = ''0123456789'' ! k" by auto
    then show ?thesis using False digits_nonempty [of "n div 10"]
      by (subst digits.simps) auto
  qed
qed

lemma parse_unsigned_digits: "parse_unsigned (digits n) = Some n"
proof -
  have all: "list_all (is_digit 10) (digits n)" by (rule digits_are_digits)
  then have tw: "takeWhile (is_digit 10) (digits n) = digits n"
    by (simp add: list_all_iff)
  have x: "\<not> is_digit 10 CHR ''x''" "\<not> is_digit 10 CHR ''X''" by code_simp+
  have "\<forall>c\<in>set (digits n). is_digit 10 c" using all by (simp add: list_all_iff)
  with x have nox: "\<forall>c\<in>set (digits n). c \<noteq> CHR ''x'' \<and> c \<noteq> CHR ''X''" by blast
  have "take 2 (digits n) \<noteq> ''0x'' \<and> take 2 (digits n) \<noteq> ''0X''"
  proof (rule ccontr)
    assume "\<not> (take 2 (digits n) \<noteq> ''0x'' \<and> take 2 (digits n) \<noteq> ''0X'')"
    then have "take 2 (digits n) = ''0x'' \<or> take 2 (digits n) = ''0X''" by blast
    then have "CHR ''x'' \<in> set (take 2 (digits n)) \<or> CHR ''X'' \<in> set (take 2 (digits n))"
      by (metis list.set_intros(1) list.set_intros(2))
    then have "CHR ''x'' \<in> set (digits n) \<or> CHR ''X'' \<in> set (digits n)"
      by (meson in_set_takeD)
    with nox show False by blast
  qed
  then show ?thesis
    by (simp add: parse_unsigned_def parse_digits_def tw digits_nonempty digits_value_digits)
qed

lemma parseInt_string_digits: "parseInt_string (digits n) = Some (int n)"
proof -
  obtain c r where cr: "digits n = c # r" using digits_nonempty [of n] by (cases "digits n") auto
  from hd_digits [of n] cr obtain k where k: "k < 10" "c = ''0123456789'' ! k" by auto
  have c: "\<not> js_space c" "c \<noteq> CHR ''-''" "c \<noteq> CHR ''+''"
    using digit_char [OF k(1)] k(2) by simp_all
  have "parse_unsigned (c # r) = Some n" using parse_unsigned_digits [of n] cr by simp
  then show ?thesis using c by (simp add: parseInt_string_def cr)
qed

text \<open>
  A number up to \<open>2^53\<close> in magnitude is its own double and prints as its decimal
  digits, so \<^verbatim>\<open>parseInt\<close> reads it back.
\<close>

lemma bit_count_less: "n < 2 ^ k \<Longrightarrow> bit_count n \<le> k"
proof (induction n arbitrary: k rule: bit_count.induct)
  case (1 n)
  show ?case
  proof (cases "n = 0")
    case True
    then show ?thesis by (subst bit_count.simps) simp
  next
    case False
    with 1(2) obtain k' where k: "k = Suc k'" by (cases k) auto
    with 1(2) have "n div 2 < 2 ^ k'" by auto
    with 1(1) False have "bit_count (n div 2) \<le> k'" by simp
    then show ?thesis using False k by (subst bit_count.simps) simp
  qed
qed

lemma bit_count_upper: "n < 2 ^ bit_count n"
proof (induction n rule: bit_count.induct)
  case (1 n)
  show ?case
  proof (cases "n = 0")
    case True
    then show ?thesis by simp
  next
    case False
    with 1 have "n div 2 < 2 ^ bit_count (n div 2)" by simp
    then have "n < 2 * 2 ^ bit_count (n div 2)" by linarith
    then show ?thesis using False by (subst bit_count.simps) simp
  qed
qed

lemma bit_count_lower: "0 < n \<Longrightarrow> 2 ^ (bit_count n - 1) \<le> n"
proof (induction n rule: bit_count.induct)
  case (1 n)
  then have n: "n \<noteq> 0" by simp
  have bc: "bit_count n = Suc (bit_count (n div 2))" using n by (subst bit_count.simps) simp
  show ?case
  proof (cases "n div 2 = 0")
    case True
    then have "bit_count (n div 2) = 0" by (subst bit_count.simps) simp
    then show ?thesis using bc n by simp
  next
    case False
    with 1(1) n have ih: "2 ^ (bit_count (n div 2) - 1) \<le> n div 2" by simp
    have pos: "0 < bit_count (n div 2)" using False by (subst bit_count.simps) simp
    then have "(2::nat) ^ bit_count (n div 2) = 2 * 2 ^ (bit_count (n div 2) - 1)"
      by (cases "bit_count (n div 2)") simp_all
    with ih have "2 ^ bit_count (n div 2) \<le> 2 * (n div 2)" by simp
    also have "\<dots> \<le> n" by simp
    finally show ?thesis using bc by simp
  qed
qed

lemma double_of_safe: "a < 2 ^ 53 \<Longrightarrow> double_of a = Some a"
proof -
  assume a: "a < 2 ^ 53"
  then have "bit_count a \<le> 53" by (rule bit_count_less)
  then show ?thesis by (simp add: double_of_def)
qed

lemma double_of_large:
  assumes h: "2 ^ 53 \<le> h" and d: "double_of h = Some y"
  shows "2 ^ 53 \<le> y"
proof -
  define e where "e = bit_count h - 53"
  have long: "\<not> bit_count h \<le> 53"
  proof
    assume "bit_count h \<le> 53"
    then have "(2::nat) ^ bit_count h \<le> 2 ^ 53" by (intro power_increasing) simp_all
    with bit_count_upper [of h] h show False by simp
  qed
  then have e1: "1 \<le> e" and bc: "bit_count h - 1 = e + 52" by (simp_all add: e_def)
  have "0 < h" using h by (cases "h = 0") simp_all
  from bit_count_lower [OF this] bc have "2 ^ (e + 52) \<le> h" by simp
  then have "2 ^ (e + 52) div 2 ^ e \<le> h div 2 ^ e" by (rule div_le_mono)
  then have q: "2 ^ 52 \<le> h div 2 ^ e" by (simp add: power_add)
  define m where "m = (if 2 ^ e < 2 * (h mod 2 ^ e) \<or> (2 * (h mod 2 ^ e) = 2 ^ e \<and> odd (h div 2 ^ e))
                       then h div 2 ^ e + 1 else h div 2 ^ e)"
  have m: "2 ^ 52 \<le> m" using q by (simp add: m_def)
  from d long have y: "y = m * 2 ^ e"
    by (simp add: double_of_def Let_def e_def [symmetric] m_def [symmetric] split: if_splits)
  have "(2::nat) ^ 1 \<le> 2 ^ e" using e1 by (intro power_increasing) simp_all
  with m have "2 ^ 52 * 2 ^ 1 \<le> m * 2 ^ e" by (rule mult_le_mono)
  then show ?thesis using y by simp
qed

lemma shortest_from_safe: "x < 2 ^ 53 \<Longrightarrow> shortest_from x j = x"
proof (induction j)
  case 0
  show ?case by simp
next
  case (Suc j)
  define lo where "lo = x div 10 ^ Suc j * 10 ^ Suc j"
  have lo: "lo \<le> x" by (simp add: lo_def)
  have hi: "x < lo + 10 ^ Suc j"
  proof -
    have "x = lo + x mod 10 ^ Suc j" by (simp only: lo_def div_mult_mod_eq)
    moreover have "x mod 10 ^ Suc j < 10 ^ Suc j" by simp
    ultimately show ?thesis by linarith
  qed
  have a: "double_of lo = Some x \<Longrightarrow> lo = x"
    using double_of_safe [of lo] lo Suc.prems by simp
  have b: "double_of (lo + 10 ^ Suc j) \<noteq> Some x"
  proof
    assume d: "double_of (lo + 10 ^ Suc j) = Some x"
    show False
    proof (cases "lo + 10 ^ Suc j < 2 ^ 53")
      case True
      with double_of_safe [OF True] d hi show False by simp
    next
      case False
      then have "2 ^ 53 \<le> lo + 10 ^ Suc j" by simp
      from double_of_large [OF this d] Suc.prems show False by simp
    qed
  qed
  show ?case
    using a b Suc.IH [OF Suc.prems]
    by (simp only: shortest_from.simps Let_def lo_def [symmetric] split: if_splits) auto
qed

lemma length_digits: "0 < k \<Longrightarrow> n < 10 ^ k \<Longrightarrow> length (digits n) \<le> k"
proof (induction n arbitrary: k rule: digits.induct)
  case (1 n)
  show ?case
  proof (cases "n < 10")
    case True
    then show ?thesis using 1(2) by (subst digits.simps) simp
  next
    case False
    with 1(3) obtain k' where k: "k = Suc k'" by (cases k) auto
    have "0 < k'" using False 1(3) k by (cases k') auto
    moreover have "n div 10 < 10 ^ k'" using 1(3) k by auto
    ultimately have "length (digits (n div 10)) \<le> k'" using 1(1) False by simp
    then show ?thesis using False k by (subst digits.simps) simp
  qed
qed

lemma number_toString_safe: "\<bar>n\<bar> < 2 ^ 53 \<Longrightarrow> number_toString n = int_toString n"
proof -
  assume a: "\<bar>n\<bar> < 2 ^ 53"
  then have "nat \<bar>n\<bar> < 2 ^ 53" by simp
  then have d: "double_of (nat \<bar>n\<bar>) = Some (nat \<bar>n\<bar>)"
    and s: "\<And>j. shortest_from (nat \<bar>n\<bar>) j = nat \<bar>n\<bar>"
    by (simp_all add: double_of_safe shortest_from_safe)
  have "nat \<bar>n\<bar> < 10 ^ 21" using a by simp
  then have len: "length (digits (nat \<bar>n\<bar>)) \<le> 21" by (intro length_digits) simp_all
  show ?thesis
  proof (cases "n < 0")
    case True
    then have "nat \<bar>n\<bar> = nat (- n)" by simp
    with d s len True show ?thesis by (simp add: number_toString_def int_toString_def Let_def)
  next
    case False
    then have "nat \<bar>n\<bar> = nat n" by simp
    with d s len False show ?thesis by (simp add: number_toString_def int_toString_def Let_def)
  qed
qed

lemma parseInt_JNum: "\<bar>n\<bar> < 2 ^ 53 \<Longrightarrow> parseInt (JNum n) = Some n"
proof (cases "n < 0")
  case True
  assume a: "\<bar>n\<bar> < 2 ^ 53"
  have "\<not> js_space CHR ''-''" by (simp add: js_space_def)
  then have "parseInt_string (CHR ''-'' # digits (nat (- n))) = Some (- int (nat (- n)))"
    by (simp add: parseInt_string_def parse_unsigned_digits)
  with True show ?thesis
    by (simp add: parseInt_def number_toString_safe [OF a] int_toString_def)
next
  case False
  assume a: "\<bar>n\<bar> < 2 ^ 53"
  from False show ?thesis
    by (simp add: parseInt_def number_toString_safe [OF a] int_toString_def parseInt_string_digits)
qed

text \<open>
  The number \<^verbatim>\<open>1e21\<close> is the first that prints in exponent form;
  \<^verbatim>\<open>parseInt\<close> reads the 1 ahead of the \<^verbatim>\<open>e\<close>.
\<close>

lemma shortest_from_step:
  "0 < j \<Longrightarrow> shortest_from x j =
     (let lo = x div 10 ^ j * 10 ^ j; hi = lo + 10 ^ j;
          lo_ok = (double_of lo = Some x); hi_ok = (double_of hi = Some x)
      in if lo_ok \<and> (\<not> hi_ok \<or> x - lo \<le> hi - x) then lo
         else if hi_ok then hi
         else shortest_from x (j - 1))"
proof (cases j)
  case 0
  then show "0 < j \<Longrightarrow> ?thesis" by simp
next
  case (Suc n)
  then show ?thesis by (simp only: shortest_from.simps diff_Suc_1)
qed

lemma number_toString_eval:
  assumes "double_of (nat \<bar>n\<bar>) = Some x" and "length (digits x) - 1 = j"
    and "shortest_from x j = v"
  shows "number_toString n =
           (let t = (if length (digits v) \<le> 21 then digits v else exponent_form v)
            in if n < 0 then CHR ''-'' # t else t)"
  using assms by (simp add: number_toString_def Let_def)

lemma number_toString_exponent: "number_toString 1000000000000000000000 = ''1e+21''"
proof -
  have d: "double_of 1000000000000000000000 = Some 1000000000000000000000"
    by (simp add: double_of_def bit_count.simps)
  have dg: "digits 1000000000000000000000 = ''1000000000000000000000''"
    by (simp add: digits.simps)
  have l: "length (digits 1000000000000000000000) - 1 = 21" by (simp add: dg)
  have s: "shortest_from 1000000000000000000000 21 = 1000000000000000000000"
    using d by (simp add: shortest_from_step)
  have e: "exponent_form 1000000000000000000000 = ''1e+21''"
  proof -
    have "digits 21 = ''21''" by (simp add: digits.simps)
    then show ?thesis unfolding exponent_form_def Let_def l by (simp add: dg)
  qed
  have "double_of (nat \<bar>1000000000000000000000\<bar>) = Some 1000000000000000000000"
    using d by simp
  from number_toString_eval [OF this l s]
  show ?thesis by (simp add: dg e)
qed

lemma parseInt_exponent: "parseInt (JNum 1000000000000000000000) = Some 1"
  unfolding parseInt_def toString.simps number_toString_exponent by code_simp

lemma in_missingFields:
  "(f \<in> set (missingFields b)) =
   (f \<in> set requiredFields \<and> (\<not> truthy (b f) \<or> trim (toString (b f)) = []))"
  by (auto simp: missingFields_def)

lemma trim_zero: "trim ''0'' = ''0''"
  by (simp add: trim_def js_space_def)

lemma parseInt_zero_string: "parseInt (JStr ''0'') = Some 0"
  by code_simp

lemma post_orders_A_rejected:
  "validate_A b = Rejected r \<Longrightarrow> post_orders_A pg e b db = answer r db"
  by (simp add: post_orders_A_def)

lemma post_orders_B_rejected:
  "validate_B b = Rejected r \<Longrightarrow> post_orders_B pg e b seen db = answer r db"
  by (simp add: post_orders_B_def)

text \<open>
  Claim C9.  A submission whose \<^verbatim>\<open>jerseyNumber\<close> or \<^verbatim>\<open>finalPrice\<close> is the number 0
  is rejected as missing a required field, 400, in both listings, and the second names
  the field in \<^verbatim>\<open>missingFields\<close>: presence is tested by truthiness.  The string
  \<^verbatim>\<open>"0"\<close> passes the presence test: the second listing does not list the field, the
  first finds nothing missing when the other six fields are truthy, and with a valid
  email its validation then accepts jersey number 0, which lies in its range 0--500.
\<close>

theorem zero_is_missing:
  "(b ''jerseyNumber'' = JNum 0 \<or> b ''finalPrice'' = JNum 0 \<longrightarrow>
      post_orders_A pg e b db = respond 400 (error_body ''Missing required fields'') db \<and>
      post_orders_B pg e b seen dbB =
        respond 400 (Obj [(''error'', JS (JStr ''Missing required fields'')),
                          (''missingFields'', Arr (map (\<lambda>f. JS (JStr f)) (missingFields b)))]) dbB) \<and>
   (b ''jerseyNumber'' = JNum 0 \<longrightarrow> ''jerseyNumber'' \<in> set (missingFields b)) \<and>
   (b ''finalPrice'' = JNum 0 \<longrightarrow> ''finalPrice'' \<in> set (missingFields b)) \<and>
   (b ''jerseyNumber'' = JStr ''0'' \<longrightarrow> ''jerseyNumber'' \<notin> set (missingFields b)) \<and>
   (b ''finalPrice'' = JStr ''0'' \<longrightarrow> ''finalPrice'' \<notin> set (missingFields b)) \<and>
   (b ''jerseyNumber'' = JStr ''0'' \<and> b ''finalPrice'' = JStr ''0'' \<and> truthy (b ''name'') \<and>
    truthy (b ''studentId'') \<and> truthy (b ''size'') \<and> truthy (b ''collarType'') \<and>
    truthy (b ''sleeveType'') \<and> truthy (b ''email'') \<longrightarrow> \<not> required_missing_A b) \<and>
   (b ''jerseyNumber'' = JStr ''0'' \<and> \<not> required_missing_A b \<and>
    email_test (toString (b ''email'')) \<longrightarrow> validate_A b = Passed 0)"
proof (intro conjI impI)
  assume z: "b ''jerseyNumber'' = JNum 0 \<or> b ''finalPrice'' = JNum 0"
  then have m: "required_missing_A b" by (auto simp: required_missing_A_def)
  from z have "''jerseyNumber'' \<in> set (missingFields b) \<or> ''finalPrice'' \<in> set (missingFields b)"
    by (auto simp: in_missingFields requiredFields_def)
  then have mf: "missingFields b \<noteq> []" by auto
  show "post_orders_A pg e b db = respond 400 (error_body ''Missing required fields'') db"
    using m by (simp add: post_orders_A_def validate_A_def respond_def)
  show "post_orders_B pg e b seen dbB =
        respond 400 (Obj [(''error'', JS (JStr ''Missing required fields'')),
                          (''missingFields'', Arr (map (\<lambda>f. JS (JStr f)) (missingFields b)))]) dbB"
    using mf by (simp add: post_orders_B_def validate_B_def respond_def)
next
  assume "b ''jerseyNumber'' = JNum 0"
  then show "''jerseyNumber'' \<in> set (missingFields b)"
    by (simp add: in_missingFields requiredFields_def)
next
  assume "b ''finalPrice'' = JNum 0"
  then show "''finalPrice'' \<in> set (missingFields b)"
    by (simp add: in_missingFields requiredFields_def)
next
  assume "b ''jerseyNumber'' = JStr ''0''"
  then show "''jerseyNumber'' \<notin> set (missingFields b)"
    by (simp add: in_missingFields trim_zero)
next
  assume "b ''finalPrice'' = JStr ''0''"
  then show "''finalPrice'' \<notin> set (missingFields b)"
    by (simp add: in_missingFields trim_zero)
next
  assume "b ''jerseyNumber'' = JStr ''0'' \<and> b ''finalPrice'' = JStr ''0'' \<and> truthy (b ''name'') \<and>
    truthy (b ''studentId'') \<and> truthy (b ''size'') \<and> truthy (b ''collarType'') \<and>
    truthy (b ''sleeveType'') \<and> truthy (b ''email'')"
  then show "\<not> required_missing_A b" by (simp add: required_missing_A_def)
next
  assume "b ''jerseyNumber'' = JStr ''0'' \<and> \<not> required_missing_A b \<and>
    email_test (toString (b ''email''))"
  then show "validate_A b = Passed 0"
    by (simp add: validate_A_def parseInt_zero_string)
qed

theorem zero_is_missing_witness:
  "zero_body ''jerseyNumber'' = JNum 0 \<and> zero_body ''finalPrice'' = JNum 0 \<and>
   post_orders_A sample_pg sample_env zero_body [alice_row] =
     respond 400 (error_body ''Missing required fields'') [alice_row] \<and>
   post_orders_B sample_pg sample_env zero_body [] [] =
     respond 400 (Obj [(''error'', JS (JStr ''Missing required fields'')),
                       (''missingFields'', Arr [JS (JStr ''jerseyNumber''), JS (JStr ''finalPrice'')])]) [] \<and>
   zero_string_body ''jerseyNumber'' = JStr ''0'' \<and> zero_string_body ''finalPrice'' = JStr ''0'' \<and>
   missingFields zero_string_body = [] \<and> \<not> required_missing_A zero_string_body \<and>
   email_test (toString (zero_string_body ''email'')) \<and>
   validate_A zero_string_body = Passed 0"
proof -
  have z: "zero_body ''jerseyNumber'' = JNum 0" "zero_body ''finalPrice'' = JNum 0"
    by code_simp+
  have mf: "missingFields zero_body = [''jerseyNumber'', ''finalPrice'']" by code_simp
  have s: "zero_string_body ''jerseyNumber'' = JStr ''0''" "zero_string_body ''finalPrice'' = JStr ''0''"
    by code_simp+
  have t: "truthy (zero_string_body ''name'')" "truthy (zero_string_body ''studentId'')"
    "truthy (zero_string_body ''size'')" "truthy (zero_string_body ''collarType'')"
    "truthy (zero_string_body ''sleeveType'')" "truthy (zero_string_body ''email'')"
    by code_simp+
  have em: "email_test (toString (zero_string_body ''email''))" by code_simp
  have ms: "missingFields zero_string_body = []" by code_simp
  note zm = zero_is_missing [of zero_body sample_pg sample_env "[alice_row]" "[]" "[]"]
  note zs = zero_is_missing [of zero_string_body sample_pg sample_env "[]" "[]" "[]"]
  from zm z mf
  have a: "post_orders_A sample_pg sample_env zero_body [alice_row] =
             respond 400 (error_body ''Missing required fields'') [alice_row]"
    and b: "post_orders_B sample_pg sample_env zero_body [] [] =
     respond 400 (Obj [(''error'', JS (JStr ''Missing required fields'')),
                       (''missingFields'', Arr [JS (JStr ''jerseyNumber''), JS (JStr ''finalPrice'')])]) []"
    by simp_all
  from zs s t have nm: "\<not> required_missing_A zero_string_body" by blast
  from zs s nm em have v: "validate_A zero_string_body = Passed 0" by blast
  from z a b s ms nm em v show ?thesis by blast
qed

text \<open>
  The submission of Bob with the number \<^verbatim>\<open>1e21\<close> as its jersey number: the field is
  present, and \<^verbatim>\<open>parseInt\<close> reads it as 1.
\<close>

lemma bob_fields:
  "bob j m ''name'' = JStr ''Bob''" "bob j m ''studentId'' = JStr ''S2''"
  "bob j m ''jerseyNumber'' = j" "bob j m ''size'' = JStr ''L''"
  "bob j m ''collarType'' = JStr ''polo''" "bob j m ''sleeveType'' = JStr ''long''"
  "bob j m ''email'' = m" "bob j m ''finalPrice'' = JNum 450"
  by (simp_all add: bob_def mk_body_def)

lemma bob_exponent:
  "m \<noteq> [] \<Longrightarrow> \<not> required_missing_A (bob (JNum 1000000000000000000000) (JStr m))"
  by (simp add: required_missing_A_def bob_fields)

lemma bob_exponent_present:
  assumes "trim m \<noteq> []"
  shows "missingFields (bob (JNum 1000000000000000000000) (JStr m)) = []"
proof -
  have t: "trim ''Bob'' \<noteq> []" "trim ''S2'' \<noteq> []" "trim ''1e+21'' \<noteq> []" "trim ''L'' \<noteq> []"
    "trim ''polo'' \<noteq> []" "trim ''long'' \<noteq> []" "trim (toString (JNum 450)) \<noteq> []"
    by code_simp+
  from assms have "m \<noteq> []" by (auto simp: trim_def)
  with assms t show ?thesis
    by (simp add: missingFields_def requiredFields_def bob_fields number_toString_exponent)
qed

text \<open>
  Claim C4, as stated, fails.  In the second listing a submission with a jersey number
  out of range and an invalid email is answered with the jersey message alone; in the
  first a submission without \<^verbatim>\<open>jerseyNumber\<close> and \<^verbatim>\<open>email\<close> is answered with
  \<^verbatim>\<open>Missing required fields\<close> and no field name.
\<close>

theorem one_message_counterexample:
  "parseInt (bob (JStr ''100'') (JStr ''bad'') ''jerseyNumber'') = Some 100 \<and>
   \<not> email_test (trim ''bad'') \<and>
   reply (post_orders_B sample_pg sample_env (bob (JStr ''100'') (JStr ''bad'')) [] []) =
     Some (Response 400 (error_body ''Jersey number must be between 1 and 99'')) \<and>
   \<not> truthy (bob JUndefined JNull ''jerseyNumber'') \<and> \<not> truthy (bob JUndefined JNull ''email'') \<and>
   reply (post_orders_A sample_pg sample_env (bob JUndefined JNull) []) =
     Some (Response 400 (error_body ''Missing required fields''))"
  by code_simp

text \<open>
  Claim C4, amended.  A submission that fails a check is answered 400 with the message
  of the first check it fails, and the table is unchanged.  The first listing checks
  the required fields (one message, no names), then the email pattern, then the jersey
  number.  The second checks the required fields and lists every one that is falsy or
  blank in \<^verbatim>\<open>missingFields\<close>, then the jersey number, then the email pattern of an
  email that is a string; a value that is present but invalid is reported alone, by its
  message, never together with another.
\<close>

theorem first_failing_check_only:
  "(required_missing_A b \<longrightarrow>
      post_orders_A pg e b db = respond 400 (error_body ''Missing required fields'') db) \<and>
   (\<not> required_missing_A b \<and> \<not> email_test (toString (b ''email'')) \<longrightarrow>
      post_orders_A pg e b db = respond 400 (error_body ''Invalid email format'') db) \<and>
   (\<not> required_missing_A b \<and> email_test (toString (b ''email'')) \<and>
    (\<forall>n. parseInt (b ''jerseyNumber'') = Some n \<longrightarrow> n < 0 \<or> 500 < n) \<longrightarrow>
      post_orders_A pg e b db = respond 400 (error_body ''Jersey number must be 0-500'') db) \<and>
   set (missingFields b) =
     {f \<in> set requiredFields. \<not> truthy (b f) \<or> trim (toString (b f)) = []} \<and>
   (missingFields b \<noteq> [] \<longrightarrow>
      post_orders_B pg e b seen dbB =
        respond 400 (Obj [(''error'', JS (JStr ''Missing required fields'')),
                          (''missingFields'', Arr (map (\<lambda>f. JS (JStr f)) (missingFields b)))]) dbB) \<and>
   (missingFields b = [] \<and>
    (\<forall>n. parseInt (b ''jerseyNumber'') = Some n \<longrightarrow> n < 1 \<or> 99 < n) \<longrightarrow>
      post_orders_B pg e b seen dbB =
        respond 400 (error_body ''Jersey number must be between 1 and 99'') dbB) \<and>
   (missingFields b = [] \<and> (\<exists>n. parseInt (b ''jerseyNumber'') = Some n \<and> 1 \<le> n \<and> n \<le> 99) \<and>
    (\<exists>s. b ''email'' = JStr s \<and> \<not> email_test (trim s)) \<longrightarrow>
      post_orders_B pg e b seen dbB =
        respond 400 (error_body ''Please provide a valid email address'') dbB)"
proof (intro conjI impI)
  assume "required_missing_A b"
  then show "post_orders_A pg e b db = respond 400 (error_body ''Missing required fields'') db"
    by (simp add: post_orders_A_def validate_A_def respond_def)
next
  assume "\<not> required_missing_A b \<and> \<not> email_test (toString (b ''email''))"
  then show "post_orders_A pg e b db = respond 400 (error_body ''Invalid email format'') db"
    by (simp add: post_orders_A_def validate_A_def respond_def)
next
  assume a: "\<not> required_missing_A b \<and> email_test (toString (b ''email'')) \<and>
    (\<forall>n. parseInt (b ''jerseyNumber'') = Some n \<longrightarrow> n < 0 \<or> 500 < n)"
  then have "validate_A b = Rejected (Response 400 (error_body ''Jersey number must be 0-500''))"
    by (cases "parseInt (b ''jerseyNumber'')") (auto simp: validate_A_def)
  then show "post_orders_A pg e b db = respond 400 (error_body ''Jersey number must be 0-500'') db"
    by (simp add: post_orders_A_rejected respond_def)
next
  show "set (missingFields b) =
     {f \<in> set requiredFields. \<not> truthy (b f) \<or> trim (toString (b f)) = []}"
    by (auto simp: missingFields_def)
next
  assume "missingFields b \<noteq> []"
  then show "post_orders_B pg e b seen dbB =
        respond 400 (Obj [(''error'', JS (JStr ''Missing required fields'')),
                          (''missingFields'', Arr (map (\<lambda>f. JS (JStr f)) (missingFields b)))]) dbB"
    by (simp add: post_orders_B_def validate_B_def respond_def)
next
  assume a: "missingFields b = [] \<and>
    (\<forall>n. parseInt (b ''jerseyNumber'') = Some n \<longrightarrow> n < 1 \<or> 99 < n)"
  then have "validate_B b = Rejected (Response 400 (error_body ''Jersey number must be between 1 and 99''))"
    by (cases "parseInt (b ''jerseyNumber'')") (auto simp: validate_B_def)
  then show "post_orders_B pg e b seen dbB =
        respond 400 (error_body ''Jersey number must be between 1 and 99'') dbB"
    by (simp add: post_orders_B_rejected respond_def)
next
  assume a: "missingFields b = [] \<and> (\<exists>n. parseInt (b ''jerseyNumber'') = Some n \<and> 1 \<le> n \<and> n \<le> 99) \<and>
    (\<exists>s. b ''email'' = JStr s \<and> \<not> email_test (trim s))"
  then have "validate_B b = Rejected (Response 400 (error_body ''Please provide a valid email address''))"
    by (auto simp: validate_B_def)
  then show "post_orders_B pg e b seen dbB =
        respond 400 (error_body ''Please provide a valid email address'') dbB"
    by (simp add: post_orders_B_rejected respond_def)
qed

theorem first_failing_check_only_witness:
  "required_missing_A (bob JUndefined JNull) \<and>
   reply (post_orders_A sample_pg sample_env (bob JUndefined JNull) [alice_row]) =
     Some (Response 400 (error_body ''Missing required fields'')) \<and>
   \<not> required_missing_A (bob (JNum 501) (JStr ''bad'')) \<and>
   \<not> email_test (toString (bob (JNum 501) (JStr ''bad'') ''email'')) \<and>
   reply (post_orders_A sample_pg sample_env (bob (JNum 501) (JStr ''bad'')) [alice_row]) =
     Some (Response 400 (error_body ''Invalid email format'')) \<and>
   \<not> required_missing_A (bob (JNum 501) (JStr ''bob@example.com'')) \<and>
   email_test (toString (bob (JNum 501) (JStr ''bob@example.com'') ''email'')) \<and>
   parseInt (bob (JNum 501) (JStr ''bob@example.com'') ''jerseyNumber'') = Some 501 \<and>
   reply (post_orders_A sample_pg sample_env (bob (JNum 501) (JStr ''bob@example.com'')) [alice_row]) =
     Some (Response 400 (error_body ''Jersey number must be 0-500'')) \<and>
   missingFields (bob JUndefined (JStr '' '')) = [''jerseyNumber'', ''email''] \<and>
   reply (post_orders_B sample_pg sample_env (bob JUndefined (JStr '' '')) [] []) =
     Some (Response 400 (Obj [(''error'', JS (JStr ''Missing required fields'')),
                              (''missingFields'', Arr [JS (JStr ''jerseyNumber''), JS (JStr ''email'')])])) \<and>
   missingFields (bob (JStr ''100'') (JStr ''bad'')) = [] \<and>
   parseInt (bob (JStr ''100'') (JStr ''bad'') ''jerseyNumber'') = Some 100 \<and>
   reply (post_orders_B sample_pg sample_env (bob (JStr ''100'') (JStr ''bad'')) [] []) =
     Some (Response 400 (error_body ''Jersey number must be between 1 and 99'')) \<and>
   missingFields (bob (JNum 7) (JStr ''bad'')) = [] \<and>
   parseInt (bob (JNum 7) (JStr ''bad'') ''jerseyNumber'') = Some 7 \<and>
   bob (JNum 7) (JStr ''bad'') ''email'' = JStr ''bad'' \<and> \<not> email_test (trim ''bad'') \<and>
   reply (post_orders_B sample_pg sample_env (bob (JNum 7) (JStr ''bad'')) [] []) =
     Some (Response 400 (error_body ''Please provide a valid email address'')) \<and>
   missingFields (bob (JNum 1000000000000000000000) (JStr ''bad'')) = [] \<and>
   parseInt (bob (JNum 1000000000000000000000) (JStr ''bad'') ''jerseyNumber'') = Some 1 \<and>
   reply (post_orders_B sample_pg sample_env (bob (JNum 1000000000000000000000) (JStr ''bad'')) [] []) =
     Some (Response 400 (error_body ''Please provide a valid email address''))"
proof -
  have m1: "required_missing_A (bob JUndefined JNull)" by code_simp
  have m2: "\<not> required_missing_A (bob (JNum 501) (JStr ''bad''))"
    "\<not> email_test (toString (bob (JNum 501) (JStr ''bad'') ''email''))"
    by code_simp+
  have m3: "\<not> required_missing_A (bob (JNum 501) (JStr ''bob@example.com''))"
    "email_test (toString (bob (JNum 501) (JStr ''bob@example.com'') ''email''))"
    "parseInt (bob (JNum 501) (JStr ''bob@example.com'') ''jerseyNumber'') = Some 501"
    by code_simp+
  have m4: "missingFields (bob JUndefined (JStr '' '')) = [''jerseyNumber'', ''email'']"
    by code_simp
  have m5: "missingFields (bob (JStr ''100'') (JStr ''bad'')) = []"
    "parseInt (bob (JStr ''100'') (JStr ''bad'') ''jerseyNumber'') = Some 100"
    by code_simp+
  have m6: "missingFields (bob (JNum 7) (JStr ''bad'')) = []"
    "parseInt (bob (JNum 7) (JStr ''bad'') ''jerseyNumber'') = Some 7"
    "bob (JNum 7) (JStr ''bad'') ''email'' = JStr ''bad''" "\<not> email_test (trim ''bad'')"
    by code_simp+
  note t = first_failing_check_only [where pg = sample_pg and e = sample_env and db = "[alice_row]"
      and seen = "[]" and dbB = "[]"]
  from t [of "bob JUndefined JNull"] m1
  have r1: "reply (post_orders_A sample_pg sample_env (bob JUndefined JNull) [alice_row]) =
     Some (Response 400 (error_body ''Missing required fields''))"
    by (simp add: respond_def answer_def)
  from t [of "bob (JNum 501) (JStr ''bad'')"] m2
  have r2: "reply (post_orders_A sample_pg sample_env (bob (JNum 501) (JStr ''bad'')) [alice_row]) =
     Some (Response 400 (error_body ''Invalid email format''))"
    by (simp add: respond_def answer_def)
  from t [of "bob (JNum 501) (JStr ''bob@example.com'')"] m3
  have r3: "reply (post_orders_A sample_pg sample_env (bob (JNum 501) (JStr ''bob@example.com'')) [alice_row]) =
     Some (Response 400 (error_body ''Jersey number must be 0-500''))"
    by (simp add: respond_def answer_def)
  from t [of "bob JUndefined (JStr '' '')"] m4
  have r4: "reply (post_orders_B sample_pg sample_env (bob JUndefined (JStr '' '')) [] []) =
     Some (Response 400 (Obj [(''error'', JS (JStr ''Missing required fields'')),
                              (''missingFields'', Arr [JS (JStr ''jerseyNumber''), JS (JStr ''email'')])]))"
    by (simp add: respond_def answer_def)
  from t [of "bob (JStr ''100'') (JStr ''bad'')"] m5
  have r5: "reply (post_orders_B sample_pg sample_env (bob (JStr ''100'') (JStr ''bad'')) [] []) =
     Some (Response 400 (error_body ''Jersey number must be between 1 and 99''))"
    by (simp add: respond_def answer_def)
  from t [of "bob (JNum 7) (JStr ''bad'')"] m6
  have r6: "reply (post_orders_B sample_pg sample_env (bob (JNum 7) (JStr ''bad'')) [] []) =
     Some (Response 400 (error_body ''Please provide a valid email address''))"
    by (simp add: respond_def answer_def)
  have "trim ''bad'' \<noteq> []" by code_simp
  then have m7: "missingFields (bob (JNum 1000000000000000000000) (JStr ''bad'')) = []"
    by (rule bob_exponent_present)
  have m8: "parseInt (bob (JNum 1000000000000000000000) (JStr ''bad'') ''jerseyNumber'') = Some 1"
    "bob (JNum 1000000000000000000000) (JStr ''bad'') ''email'' = JStr ''bad''"
    by (simp_all add: bob_fields parseInt_exponent)
  from t [of "bob (JNum 1000000000000000000000) (JStr ''bad'')"] m7 m8 m6(4)
  have r7: "reply (post_orders_B sample_pg sample_env (bob (JNum 1000000000000000000000) (JStr ''bad'')) [] []) =
     Some (Response 400 (error_body ''Please provide a valid email address''))"
    by (simp add: respond_def answer_def)
  from m1 r1 m2 r2 m3 r3 m4 r4 m5 r5 m6 r6 m7 m8(1) r7 show ?thesis by blast
qed

text \<open>
  Claim C6, as stated, fails: there is no single configured range.  The same
  submission with jersey number 100 passes the validation of the first listing and is
  rejected by the second, whose upper bound is 99; jersey number 0, sent as a string, is
  the lower bound of the first and below that of the second.
\<close>

theorem two_ranges_counterexample:
  "validate_A (bob (JStr ''100'') (JStr ''bob@example.com'')) = Passed 100 \<and>
   validate_B (bob (JStr ''100'') (JStr ''bob@example.com'')) =
     Rejected (Response 400 (error_body ''Jersey number must be between 1 and 99'')) \<and>
   validate_B (bob (JStr ''99'') (JStr ''bob@example.com'')) = Passed () \<and>
   validate_A (bob (JStr ''0'') (JStr ''bob@example.com'')) = Passed 0 \<and>
   validate_B (bob (JStr ''0'') (JStr ''bob@example.com'')) =
     Rejected (Response 400 (error_body ''Jersey number must be between 1 and 99''))"
  by code_simp

text \<open>
  Claim C6, amended.  Each listing writes its inclusive range as literals in the
  handler, 0--500 in the first and 1--99 in the second.  For a submission that passes
  the presence and email checks, a \<^verbatim>\<open>jerseyNumber\<close> that \<^verbatim>\<open>parseInt\<close> reads as a
  number inside the range of the listing, its bounds included, passes validation, and
  one read as a number outside, the numbers next to the bounds included, is rejected
  with 400; what validation rejects, the handler answers, with the table unchanged.
\<close>

theorem literal_ranges:
  "(\<not> required_missing_A b \<and> email_test (toString (b ''email'')) \<and>
    parseInt (b ''jerseyNumber'') = Some n \<longrightarrow>
      validate_A b = (if 0 \<le> n \<and> n \<le> 500 then Passed n
                      else Rejected (Response 400 (error_body ''Jersey number must be 0-500'')))) \<and>
   (missingFields b = [] \<and> b ''email'' = JStr s \<and> email_test (trim s) \<and>
    parseInt (b ''jerseyNumber'') = Some n \<longrightarrow>
      validate_B b = (if 1 \<le> n \<and> n \<le> 99 then Passed ()
                      else Rejected (Response 400 (error_body ''Jersey number must be between 1 and 99'')))) \<and>
   (validate_A b = Rejected r \<longrightarrow> post_orders_A pg e b db = answer r db) \<and>
   (validate_B b = Rejected r \<longrightarrow> post_orders_B pg e b seen dbB = answer r dbB)"
  by (auto simp: validate_A_def validate_B_def post_orders_A_def post_orders_B_def)

theorem literal_ranges_witness:
  "validate_A (bob (JStr ''0'') (JStr ''bob@example.com'')) = Passed 0 \<and>
   validate_A (bob (JNum 500) (JStr ''bob@example.com'')) = Passed 500 \<and>
   validate_A (bob (JNum (- 1)) (JStr ''bob@example.com'')) =
     Rejected (Response 400 (error_body ''Jersey number must be 0-500'')) \<and>
   validate_A (bob (JNum 501) (JStr ''bob@example.com'')) =
     Rejected (Response 400 (error_body ''Jersey number must be 0-500'')) \<and>
   validate_B (bob (JNum 1) (JStr ''bob@example.com'')) = Passed () \<and>
   validate_B (bob (JNum 99) (JStr ''bob@example.com'')) = Passed () \<and>
   validate_B (bob (JStr ''0'') (JStr ''bob@example.com'')) =
     Rejected (Response 400 (error_body ''Jersey number must be between 1 and 99'')) \<and>
   validate_B (bob (JNum 100) (JStr ''bob@example.com'')) =
     Rejected (Response 400 (error_body ''Jersey number must be between 1 and 99'')) \<and>
   \<not> required_missing_A (bob (JNum 500) (JStr ''bob@example.com'')) \<and>
   missingFields (bob (JNum 99) (JStr ''bob@example.com'')) = [] \<and>
   email_test (trim ''bob@example.com'') \<and>
   parseInt (bob (JNum 500) (JStr ''bob@example.com'') ''jerseyNumber'') = Some 500 \<and>
   parseInt (bob (JNum 99) (JStr ''bob@example.com'') ''jerseyNumber'') = Some 99 \<and>
   reply (post_orders_A sample_pg sample_env (bob (JNum 501) (JStr ''bob@example.com'')) [alice_row]) =
     Some (Response 400 (error_body ''Jersey number must be 0-500'')) \<and>
   reply (post_orders_B sample_pg sample_env (bob (JNum 100) (JStr ''bob@example.com'')) [] []) =
     Some (Response 400 (error_body ''Jersey number must be between 1 and 99'')) \<and>
   parseInt (bob (JNum 1000000000000000000000) (JStr ''bob@example.com'') ''jerseyNumber'') = Some 1 \<and>
   validate_A (bob (JNum 1000000000000000000000) (JStr ''bob@example.com'')) = Passed 1 \<and>
   validate_B (bob (JNum 1000000000000000000000) (JStr ''bob@example.com'')) = Passed ()"
proof -
  have em: "email_test (trim ''bob@example.com'')" by code_simp
  have em': "email_test ''bob@example.com''" "trim ''bob@example.com'' \<noteq> []"
    "''bob@example.com'' \<noteq> []"
    by code_simp+
  have hx: "\<not> required_missing_A (bob (JNum 1000000000000000000000) (JStr ''bob@example.com''))"
    "email_test (toString (bob (JNum 1000000000000000000000) (JStr ''bob@example.com'') ''email''))"
    "parseInt (bob (JNum 1000000000000000000000) (JStr ''bob@example.com'') ''jerseyNumber'') = Some 1"
    "missingFields (bob (JNum 1000000000000000000000) (JStr ''bob@example.com'')) = []"
    "bob (JNum 1000000000000000000000) (JStr ''bob@example.com'') ''email'' = JStr ''bob@example.com''"
    using em' by (simp_all add: bob_exponent bob_exponent_present bob_fields parseInt_exponent)
  have ax: "validate_A (bob (JNum 1000000000000000000000) (JStr ''bob@example.com'')) = Passed 1"
    using literal_ranges [of "bob (JNum 1000000000000000000000) (JStr ''bob@example.com'')" "1"] hx
    by simp
  have bx: "validate_B (bob (JNum 1000000000000000000000) (JStr ''bob@example.com'')) = Passed ()"
    using literal_ranges [where b = "bob (JNum 1000000000000000000000) (JStr ''bob@example.com'')"
        and n = "1" and s = "''bob@example.com''"] hx em
    by simp
  have ha0: "\<not> required_missing_A (bob (JStr ''0'') (JStr ''bob@example.com''))"
    "email_test (toString (bob (JStr ''0'') (JStr ''bob@example.com'') ''email''))"
    "parseInt (bob (JStr ''0'') (JStr ''bob@example.com'') ''jerseyNumber'') = Some (0)"
    by code_simp+
  have a0: "validate_A (bob (JStr ''0'') (JStr ''bob@example.com'')) = Passed 0"
    using literal_ranges [of "bob (JStr ''0'') (JStr ''bob@example.com'')" "0"] ha0 by simp
  have ha1: "\<not> required_missing_A (bob (JNum 500) (JStr ''bob@example.com''))"
    "email_test (toString (bob (JNum 500) (JStr ''bob@example.com'') ''email''))"
    "parseInt (bob (JNum 500) (JStr ''bob@example.com'') ''jerseyNumber'') = Some (500)"
    by code_simp+
  have a1: "validate_A (bob (JNum 500) (JStr ''bob@example.com'')) = Passed 500"
    using literal_ranges [of "bob (JNum 500) (JStr ''bob@example.com'')" "500"] ha1 by simp
  have ha2: "\<not> required_missing_A (bob (JNum (- 1)) (JStr ''bob@example.com''))"
    "email_test (toString (bob (JNum (- 1)) (JStr ''bob@example.com'') ''email''))"
    "parseInt (bob (JNum (- 1)) (JStr ''bob@example.com'') ''jerseyNumber'') = Some (- 1)"
    by code_simp+
  have a2: "validate_A (bob (JNum (- 1)) (JStr ''bob@example.com'')) = Rejected (Response 400 (error_body ''Jersey number must be 0-500''))"
    using literal_ranges [of "bob (JNum (- 1)) (JStr ''bob@example.com'')" "- 1"] ha2 by simp
  have ha3: "\<not> required_missing_A (bob (JNum 501) (JStr ''bob@example.com''))"
    "email_test (toString (bob (JNum 501) (JStr ''bob@example.com'') ''email''))"
    "parseInt (bob (JNum 501) (JStr ''bob@example.com'') ''jerseyNumber'') = Some (501)"
    by code_simp+
  have a3: "validate_A (bob (JNum 501) (JStr ''bob@example.com'')) = Rejected (Response 400 (error_body ''Jersey number must be 0-500''))"
    using literal_ranges [of "bob (JNum 501) (JStr ''bob@example.com'')" "501"] ha3 by simp
  have hb0: "missingFields (bob (JNum 1) (JStr ''bob@example.com'')) = []"
    "bob (JNum 1) (JStr ''bob@example.com'') ''email'' = JStr ''bob@example.com''"
    "parseInt (bob (JNum 1) (JStr ''bob@example.com'') ''jerseyNumber'') = Some (1)"
    by code_simp+
  have b0: "validate_B (bob (JNum 1) (JStr ''bob@example.com'')) = Passed ()"
    using literal_ranges [where b = "bob (JNum 1) (JStr ''bob@example.com'')" and n = "1" and s = "''bob@example.com''"] hb0 em
    by simp
  have hb1: "missingFields (bob (JNum 99) (JStr ''bob@example.com'')) = []"
    "bob (JNum 99) (JStr ''bob@example.com'') ''email'' = JStr ''bob@example.com''"
    "parseInt (bob (JNum 99) (JStr ''bob@example.com'') ''jerseyNumber'') = Some (99)"
    by code_simp+
  have b1: "validate_B (bob (JNum 99) (JStr ''bob@example.com'')) = Passed ()"
    using literal_ranges [where b = "bob (JNum 99) (JStr ''bob@example.com'')" and n = "99" and s = "''bob@example.com''"] hb1 em
    by simp
  have hb2: "missingFields (bob (JStr ''0'') (JStr ''bob@example.com'')) = []"
    "bob (JStr ''0'') (JStr ''bob@example.com'') ''email'' = JStr ''bob@example.com''"
    "parseInt (bob (JStr ''0'') (JStr ''bob@example.com'') ''jerseyNumber'') = Some (0)"
    by code_simp+
  have b2: "validate_B (bob (JStr ''0'') (JStr ''bob@example.com'')) = Rejected (Response 400 (error_body ''Jersey number must be between 1 and 99''))"
    using literal_ranges [where b = "bob (JStr ''0'') (JStr ''bob@example.com'')" and n = "0" and s = "''bob@example.com''"] hb2 em
    by simp
  have hb3: "missingFields (bob (JNum 100) (JStr ''bob@example.com'')) = []"
    "bob (JNum 100) (JStr ''bob@example.com'') ''email'' = JStr ''bob@example.com''"
    "parseInt (bob (JNum 100) (JStr ''bob@example.com'') ''jerseyNumber'') = Some (100)"
    by code_simp+
  have b3: "validate_B (bob (JNum 100) (JStr ''bob@example.com'')) = Rejected (Response 400 (error_body ''Jersey number must be between 1 and 99''))"
    using literal_ranges [where b = "bob (JNum 100) (JStr ''bob@example.com'')" and n = "100" and s = "''bob@example.com''"] hb3 em
    by simp
  have ra: "reply (post_orders_A sample_pg sample_env (bob (JNum 501) (JStr ''bob@example.com'')) [alice_row]) =
     Some (Response 400 (error_body ''Jersey number must be 0-500''))"
    using literal_ranges [where b = "bob (JNum 501) (JStr ''bob@example.com'')" and pg = sample_pg
        and e = sample_env and db = "[alice_row]"
        and r = "Response 400 (error_body ''Jersey number must be 0-500'')"] a3
    by (simp add: answer_def)
  have rb: "reply (post_orders_B sample_pg sample_env (bob (JNum 100) (JStr ''bob@example.com'')) [] []) =
     Some (Response 400 (error_body ''Jersey number must be between 1 and 99''))"
    using literal_ranges [where b = "bob (JNum 100) (JStr ''bob@example.com'')" and pg = sample_pg
        and e = sample_env and seen = "[]" and dbB = "[]"
        and r = "Response 400 (error_body ''Jersey number must be between 1 and 99'')"] b3
    by (simp add: answer_def)
  from a0 a1 a2 a3 b0 b1 b2 b3 ha1(1,3) hb1(1,3) em ra rb hx(3) ax bx show ?thesis by blast
qed

text \<open>
  So the first listing admits a submission whose jersey number is the number
  \<^verbatim>\<open>1e21\<close>: it stores jersey number 1 and answers 201.
\<close>

lemma exponent_number_admitted:
  "reply (post_orders_A sample_pg sample_env
            (bob (JNum 1000000000000000000000) (JStr ''bob@example.com'')) []) =
     Some (created_A (bob_row\<lparr>o_jersey_number := ''1''\<rparr>)) \<and>
   store (post_orders_A sample_pg sample_env
            (bob (JNum 1000000000000000000000) (JStr ''bob@example.com'')) []) =
     [bob_row\<lparr>o_jersey_number := ''1''\<rparr>]"
proof -
  let ?b = "bob (JNum 1000000000000000000000) (JStr ''bob@example.com'')"
  have em: "email_test ''bob@example.com''" "''bob@example.com'' \<noteq> []" by code_simp+
  then have v: "validate_A ?b = Passed 1"
    by (simp add: validate_A_def bob_exponent bob_fields parseInt_exponent)
  have ins: "and_then (connectDB sample_env) (\<lambda>client.
               and_then (insert_params_A ?b 1) (\<lambda>d. INSERT_A sample_pg sample_env d [])) =
             Inr (bob_row\<lparr>o_jersey_number := ''1''\<rparr>, [bob_row\<lparr>o_jersey_number := ''1''\<rparr>])"
    by code_simp
  have n: "reply (notify_created_A sample_env ?b (bob_row\<lparr>o_jersey_number := ''1''\<rparr>)
                    [bob_row\<lparr>o_jersey_number := ''1''\<rparr>]) =
             Some (created_A (bob_row\<lparr>o_jersey_number := ''1''\<rparr>))"
    "store (notify_created_A sample_env ?b (bob_row\<lparr>o_jersey_number := ''1''\<rparr>)
                    [bob_row\<lparr>o_jersey_number := ''1''\<rparr>]) =
             [bob_row\<lparr>o_jersey_number := ''1''\<rparr>]"
    by (simp_all add: notify_created_A_def Let_def sendEmail_def sample_env_def env_set_def)
  show ?thesis by (simp add: post_orders_A_def v ins n)
qed

subsection \<open>Emails and the response\<close>

lemma INSERT_A_env:
  "INSERT_A pg (e\<lparr>BREVO_API_KEY := k, fetch := f\<rparr>) d db = INSERT_A pg e d db"
  by (simp add: INSERT_A_def Let_def cong: if_cong)

lemma connectDB_env:
  "connectDB (e\<lparr>BREVO_API_KEY := k, fetch := f\<rparr>) = connectDB e"
  "connectDatabase (e\<lparr>BREVO_API_KEY := k, fetch := f\<rparr>) = connectDatabase e"
  by (simp_all add: connectDB_def connectDatabase_def)

lemma INSERT_B_env:
  "INSERT_B pg (e\<lparr>BREVO_API_KEY := k, fetch := f\<rparr>) d db = INSERT_B pg e d db"
  by (simp add: INSERT_B_def Let_def cong: if_cong)

lemma insert_params_B_env:
  "insert_params_B (e\<lparr>BREVO_API_KEY := k, fetch := f\<rparr>) b = insert_params_B e b"
  by (simp add: insert_params_B_def formatDateForSQL_def cong: if_cong)

lemma created_B_env:
  "created_B (e\<lparr>BREVO_API_KEY := k, fetch := f\<rparr>) b d row = created_B e b d row"
  by (simp add: created_B_def orderIdFormatted_def Let_def cong: if_cong)

lemma sendEmail_settles:
  "\<forall>m. fetch e m \<noteq> Pending \<Longrightarrow> \<exists>ok. fst (sendEmail e m) = Some ok"
  by (cases "fetch e m") (auto simp: sendEmail_def)

lemma notify_created_A_settled:
  assumes "\<forall>m. fetch e m \<noteq> Pending"
  shows "reply (notify_created_A e b row db) = Some (created_A row) \<and>
         store (notify_created_A e b row db) = db"
proof -
  obtain ok1 where s1: "fst (sendEmail e (confirmation_A b)) = Some ok1"
    using sendEmail_settles [OF assms] by blast
  obtain ok2 where s2: "fst (sendEmail e (admin_alert_A (the (ADMIN_EMAIL e)) row)) = Some ok2"
    using sendEmail_settles [OF assms] by blast
  show ?thesis by (simp add: notify_created_A_def Let_def s1 s2)
qed

lemma post_orders_A_settled:
  assumes "\<forall>m. fetch e m \<noteq> Pending"
  shows "reply (post_orders_A pg e b db) =
           (case validate_A b of
              Rejected r \<Rightarrow> Some r
            | Threw err \<Rightarrow> Some (Response 500 (error_body ''Order submission failed''))
            | Passed n \<Rightarrow>
                (case and_then (connectDB e) (\<lambda>client.
                        and_then (insert_params_A b n) (\<lambda>d. INSERT_A pg e d db)) of
                   Inl err \<Rightarrow> Some (Response 500 (error_body ''Order submission failed''))
                 | Inr (row, db') \<Rightarrow> Some (created_A row))) \<and>
         store (post_orders_A pg e b db) =
           (case validate_A b of
              Rejected r \<Rightarrow> db
            | Threw err \<Rightarrow> db
            | Passed n \<Rightarrow>
                (case and_then (connectDB e) (\<lambda>client.
                        and_then (insert_params_A b n) (\<lambda>d. INSERT_A pg e d db)) of
                   Inl err \<Rightarrow> db
                 | Inr (row, db') \<Rightarrow> db'))"
  by (simp add: post_orders_A_def answer_def respond_def notify_created_A_settled [OF assms]
        split: checked.splits sum.splits prod.splits)

lemma patch_status_settled:
  assumes "\<forall>m. fetch e m \<noteq> Pending"
  shows "reply (patch_status pg e tok idp b db) =
           (case authenticateToken tok of
              Some r \<Rightarrow> Some r
            | None \<Rightarrow>
                if b ''status'' \<noteq> JStr ''pending'' \<and> b ''status'' \<noteq> JStr ''done'' then
                  Some (Response 400 (error_body ''Invalid status. Only pending/done allowed.''))
                else
                  (case and_then (connectDB e) (\<lambda>client. SELECT_by_id pg idp db) of
                     Inl err \<Rightarrow> Some (Response 500 (error_body ''Failed to update status''))
                   | Inr [] \<Rightarrow> Some (Response 404 (error_body ''Order not found''))
                   | Inr (row # rest) \<Rightarrow> Some (status_updated (toString (b ''status''))))) \<and>
         store (patch_status pg e tok idp b db) =
           (case authenticateToken tok of
              Some r \<Rightarrow> db
            | None \<Rightarrow>
                if b ''status'' \<noteq> JStr ''pending'' \<and> b ''status'' \<noteq> JStr ''done'' then db
                else
                  (case and_then (connectDB e) (\<lambda>client. SELECT_by_id pg idp db) of
                     Inl err \<Rightarrow> db
                   | Inr [] \<Rightarrow> db
                   | Inr (row # rest) \<Rightarrow>
                       map (\<lambda>r. if Some (o_id r) = int4in pg idp
                                then r\<lparr>o_status := Some (toString (b ''status'')), o_updated_at := now e\<rparr>
                                else r) db))"
proof (cases "store_up e \<and> int4in pg idp \<noteq> None")
  case False
  then show ?thesis
    by (auto simp: patch_status_def connectDB_def SELECT_by_id_def and_then_def pg_column_def
          answer_def respond_def split: option.splits)
next
  case True
  then obtain i where Some: "int4in pg idp = Some i" and up: "store_up e" by auto
  have s: "\<And>m. \<exists>ok. fst (sendEmail e m) = Some ok" using sendEmail_settles [OF assms] by blast
  have sel: "and_then (connectDB e) (\<lambda>client. SELECT_by_id pg idp db) =
             Inr (filter (\<lambda>r. o_id r = i) db)"
    by (simp add: connectDB_def up SELECT_by_id_def and_then_def pg_column_def Some)
  show ?thesis
  proof (cases "filter (\<lambda>r. o_id r = i) db")
    case Nil
    then show ?thesis
      by (simp add: patch_status_def sel answer_def respond_def split: option.splits)
  next
    case (Cons row rest)
    obtain ok where ok: "fst (sendEmail e (status_mail row)) = Some ok" using s by blast
    have eq: "(\<lambda>r. if Some (o_id r) = Some i then r\<lparr>o_status := Some (toString (b ''status'')), o_updated_at := now e\<rparr> else r)
            = (\<lambda>r. if o_id r = i then r\<lparr>o_status := Some (toString (b ''status'')), o_updated_at := now e\<rparr> else r)"
      by auto
    show ?thesis
      by (simp add: patch_status_def sel Cons UPDATE_status_row [OF Some] answer_def respond_def
            Let_def ok Some eq split: option.splits)
  qed
qed

lemma post_orders_B_replies:
  "reply (post_orders_B pg e b seen db) \<noteq> None"
  by (simp add: post_orders_B_def answer_def respond_def failed_B_def notify_created_B_def
        split: checked.splits sum.splits list.splits prod.splits)

lemma post_orders_B_env:
  "reply (post_orders_B pg (e\<lparr>BREVO_API_KEY := k, fetch := f\<rparr>) b seen db) =
     reply (post_orders_B pg e b seen db) \<and>
   store (post_orders_B pg (e\<lparr>BREVO_API_KEY := k, fetch := f\<rparr>) b seen db) =
     store (post_orders_B pg e b seen db)"
  by (simp add: post_orders_B_def answer_def respond_def failed_B_def notify_created_B_def
        INSERT_B_env insert_params_B_env created_B_env executeQuery_def connectDB_env
        split: checked.splits sum.splits list.splits prod.splits)

lemma notify_created_A_store:
  "store (notify_created_A e b row db) = db"
  by (simp add: notify_created_A_def Let_def split: option.splits)

lemma notify_created_A_reply:
  "reply (notify_created_A e b row db) =
     (if fst (sendEmail e (confirmation_A b)) = None \<or>
         (env_set (ADMIN_EMAIL e) \<and>
          fst (sendEmail e (admin_alert_A (the (ADMIN_EMAIL e)) row)) = None)
      then None else Some (created_A row))"
  by (auto simp: notify_created_A_def Let_def split: option.splits)

lemma and_then_Inr_unit: "and_then (Inr ()) f = f ()"
  by (simp add: and_then_def)

lemma fst_sendEmail_None:
  "(fst (sendEmail e m) = None) = (env_set (BREVO_API_KEY e) \<and> fetch e m = Pending)"
  by (cases "fetch e m") (auto simp: sendEmail_def)

lemma store_env_A:
  "store (post_orders_A pg (e\<lparr>BREVO_API_KEY := k, fetch := f\<rparr>) b db) = store (post_orders_A pg e b db)"
  by (simp add: post_orders_A_def answer_def respond_def notify_created_A_store INSERT_A_env
        connectDB_env split: checked.splits sum.splits prod.splits)

lemma UPDATE_status_env:
  "UPDATE_status pg (e\<lparr>BREVO_API_KEY := k, fetch := f\<rparr>) st idp db = UPDATE_status pg e st idp db"
  by (simp add: UPDATE_status_def cong: if_cong)

lemma store_patch_status:
  "store (patch_status pg e tok idp bs db) =
     (case authenticateToken tok of
        Some r \<Rightarrow> db
      | None \<Rightarrow>
          if bs ''status'' \<noteq> JStr ''pending'' \<and> bs ''status'' \<noteq> JStr ''done'' then db
          else
            (case and_then (connectDB e) (\<lambda>client. SELECT_by_id pg idp db) of
               Inl err \<Rightarrow> db
             | Inr [] \<Rightarrow> db
             | Inr (row # rest) \<Rightarrow>
                 (case UPDATE_status pg e (toString (bs ''status'')) idp db of
                    Inl err \<Rightarrow> db
                  | Inr db' \<Rightarrow> db')))"
proof (cases "authenticateToken tok")
  case (Some r)
  then show ?thesis by (simp add: patch_status_def answer_def)
next
  case None
  show ?thesis
  proof (cases "bs ''status'' \<noteq> JStr ''pending'' \<and> bs ''status'' \<noteq> JStr ''done''")
    case True
    with None show ?thesis by (simp add: patch_status_def answer_def respond_def)
  next
    case valid: False
    show ?thesis
    proof (cases "and_then (connectDB e) (\<lambda>client. SELECT_by_id pg idp db)")
      case (Inl err)
      with None valid show ?thesis
        by (auto simp: patch_status_def answer_def respond_def)
    next
      case (Inr rows)
      show ?thesis
      proof (cases rows)
        case Nil
        with None valid Inr show ?thesis
          by (auto simp: patch_status_def answer_def respond_def)
      next
        case (Cons row rest)
        show ?thesis
        proof (cases "UPDATE_status pg e (toString (bs ''status'')) idp db")
          case (Inl err)
          with None valid Inr Cons show ?thesis
            by (auto simp: patch_status_def answer_def respond_def)
        next
          case upd: (Inr db')
          with None valid Inr Cons show ?thesis
            by (auto simp: patch_status_def answer_def respond_def Let_def split: option.splits)
        qed
      qed
    qed
  qed
qed

lemma store_env_patch:
  "store (patch_status pg (e\<lparr>BREVO_API_KEY := k, fetch := f\<rparr>) tok idp bs db) =
   store (patch_status pg e tok idp bs db)"
  by (simp add: store_patch_status connectDB_env UPDATE_status_env
        cong: option.case_cong sum.case_cong list.case_cong if_cong)

lemma notify_created_A_handed:
  "handed (notify_created_A e b row db) \<noteq> [] \<and>
   (reply (notify_created_A e b row db) = None) =
     (env_set (BREVO_API_KEY e) \<and> fetch e (last (handed (notify_created_A e b row db))) = Pending)"
  by (auto simp: notify_created_A_def Let_def fst_sendEmail_None [symmetric] split: option.splits)

lemma notify_created_A_logged:
  "logged (notify_created_A e b row db) =
   map (\<lambda>m. snd (snd (sendEmail e m))) (handed (notify_created_A e b row db))"
  by (simp add: notify_created_A_def Let_def split: option.splits)

lemma unanswered_A:
  "(reply (post_orders_A pg e b db) = None) =
   (handed (post_orders_A pg e b db) \<noteq> [] \<and> env_set (BREVO_API_KEY e) \<and>
    fetch e (last (handed (post_orders_A pg e b db))) = Pending)"
  using notify_created_A_handed
  by (simp add: post_orders_A_def answer_def respond_def split: checked.splits sum.splits prod.splits)

lemma logged_A:
  "logged (post_orders_A pg e b db) =
   map (\<lambda>m. snd (snd (sendEmail e m))) (handed (post_orders_A pg e b db))"
  by (simp add: post_orders_A_def answer_def respond_def notify_created_A_logged
        split: checked.splits sum.splits prod.splits)

lemma unanswered_patch:
  "(reply (patch_status pg e tok idp bs db) = None) =
   (handed (patch_status pg e tok idp bs db) \<noteq> [] \<and> env_set (BREVO_API_KEY e) \<and>
    fetch e (last (handed (patch_status pg e tok idp bs db))) = Pending)"
  by (auto simp: patch_status_def answer_def respond_def Let_def fst_sendEmail_None [symmetric]
        split: option.splits sum.splits list.splits)

lemma logged_patch:
  "logged (patch_status pg e tok idp bs db) =
   map (\<lambda>m. snd (snd (sendEmail e m))) (handed (patch_status pg e tok idp bs db))"
  by (simp add: patch_status_def answer_def respond_def Let_def
        split: option.splits sum.splits list.splits)

lemma logged_B:
  "logged (post_orders_B pg e b seen db) =
   (if handed (post_orders_B pg e b seen db) = [] then []
    else [snd (snd (sendConfirmationEmail e b)), snd (snd (sendAdminNotification e b))])"
  by (simp add: post_orders_B_def answer_def respond_def failed_B_def notify_created_B_def
        split: checked.splits sum.splits list.splits prod.splits)

lemma sendEmailViaBrevo_unconfigured:
  "\<not> env_set (BREVO_API_KEY e) \<Longrightarrow>
   sendEmailViaBrevo e m =
     (Some False, [], [console_warn ''Brevo API key not configured, skipping email''])"
  by (simp add: sendEmailViaBrevo_def)

lemma sendEmailViaBrevo_failed:
  "env_set (BREVO_API_KEY e) \<Longrightarrow> fetch e m = Rejects \<or> fetch e m = Responds False \<Longrightarrow>
   sendEmailViaBrevo e m = (Some False, [m], [console_error ''Error sending email via Brevo:''])"
  by (auto simp: sendEmailViaBrevo_def)


text \<open>
  Claim C7, as stated, fails in the first listing, whose handlers await
  \<^verbatim>\<open>sendEmail\<close>.  When the provider never answers, the status update writes
  \<^verbatim>\<open>done\<close> into the row and the request gets no response, where a send that succeeds
  is followed by 200.
\<close>

theorem unsettled_send_counterexample:
  "reply (patch_status sample_pg hanging_env GoodToken ''1'' (set_status ''done'') [alice_row]) = None \<and>
   store (patch_status sample_pg hanging_env GoodToken ''1'' (set_status ''done'') [alice_row]) =
     [alice_row\<lparr>o_status := Some ''done'', o_updated_at := 1000\<rparr>] \<and>
   reply (patch_status sample_pg sample_env GoodToken ''1'' (set_status ''done'') [alice_row]) =
     Some (status_updated ''done'')"
  by code_simp

text \<open>
  Claim C7, amended.  The table after an order submission of either listing and after a
  status update does not depend on the API key or on what the provider does.  Neither
  does the response of the second listing, which does not await its sends.  In the first
  listing the response is the same for any two sends that settle: a missing key, a
  rejected request or an answer that is not ok gives what a delivered email gives; and
  the request gets no response exactly when the last email handed to \<^verbatim>\<open>sendEmail\<close>
  was posted and the provider never answers.  Every email handed over has the lines of
  its send in the log.  \<^verbatim>\<open>sendEmail\<close> logs a missing key as a warning and a rejected
  request as an error.  In the second listing \<^verbatim>\<open>sendEmailViaBrevo\<close> logs a missing
  key as a warning, a rejected request and an answer that is not ok as an error, and
  the function around it adds a warning that the send failed.
\<close>

theorem email_failure_swallowed:
  "store (post_orders_A pg (e\<lparr>BREVO_API_KEY := k1, fetch := f1\<rparr>) b db) =
     store (post_orders_A pg (e\<lparr>BREVO_API_KEY := k2, fetch := f2\<rparr>) b db) \<and>
   store (patch_status pg (e\<lparr>BREVO_API_KEY := k1, fetch := f1\<rparr>) tok idp bs db) =
     store (patch_status pg (e\<lparr>BREVO_API_KEY := k2, fetch := f2\<rparr>) tok idp bs db) \<and>
   store (post_orders_B pg (e\<lparr>BREVO_API_KEY := k1, fetch := f1\<rparr>) b seen dbB) =
     store (post_orders_B pg (e\<lparr>BREVO_API_KEY := k2, fetch := f2\<rparr>) b seen dbB) \<and>
   reply (post_orders_B pg (e\<lparr>BREVO_API_KEY := k1, fetch := f1\<rparr>) b seen dbB) =
     reply (post_orders_B pg (e\<lparr>BREVO_API_KEY := k2, fetch := f2\<rparr>) b seen dbB) \<and>
   ((\<forall>m. f1 m \<noteq> Pending) \<and> (\<forall>m. f2 m \<noteq> Pending) \<longrightarrow>
      reply (post_orders_A pg (e\<lparr>BREVO_API_KEY := k1, fetch := f1\<rparr>) b db) =
        reply (post_orders_A pg (e\<lparr>BREVO_API_KEY := k2, fetch := f2\<rparr>) b db) \<and>
      reply (patch_status pg (e\<lparr>BREVO_API_KEY := k1, fetch := f1\<rparr>) tok idp bs db) =
        reply (patch_status pg (e\<lparr>BREVO_API_KEY := k2, fetch := f2\<rparr>) tok idp bs db)) \<and>
   (reply (post_orders_A pg e b db) = None) =
     (handed (post_orders_A pg e b db) \<noteq> [] \<and> env_set (BREVO_API_KEY e) \<and>
      fetch e (last (handed (post_orders_A pg e b db))) = Pending) \<and>
   (reply (patch_status pg e tok idp bs db) = None) =
     (handed (patch_status pg e tok idp bs db) \<noteq> [] \<and> env_set (BREVO_API_KEY e) \<and>
      fetch e (last (handed (patch_status pg e tok idp bs db))) = Pending) \<and>
   logged (post_orders_A pg e b db) =
     map (\<lambda>m. snd (snd (sendEmail e m))) (handed (post_orders_A pg e b db)) \<and>
   logged (patch_status pg e tok idp bs db) =
     map (\<lambda>m. snd (snd (sendEmail e m))) (handed (patch_status pg e tok idp bs db)) \<and>
   (\<not> env_set (BREVO_API_KEY e) \<longrightarrow>
      snd (snd (sendEmail e m)) = [console_warn ''Email service not configured'']) \<and>
   (env_set (BREVO_API_KEY e) \<and> fetch e m = Rejects \<longrightarrow>
      snd (snd (sendEmail e m)) = [console_error ''Email error:'']) \<and>
   logged (post_orders_B pg e b seen dbB) =
     (if handed (post_orders_B pg e b seen dbB) = [] then []
      else [snd (snd (sendConfirmationEmail e b)), snd (snd (sendAdminNotification e b))]) \<and>
   (\<not> env_set (BREVO_API_KEY e) \<longrightarrow>
      snd (snd (sendConfirmationEmail e b)) =
        [console_warn ''Brevo API key not configured, skipping email'',
         console_warn ''Failed to send confirmation email:''] \<and>
      snd (snd (sendAdminNotification e b)) =
        [console_warn ''Brevo API key not configured, skipping email'',
         console_warn ''Failed to send admin notification:'']) \<and>
   (env_set (BREVO_API_KEY e) \<and>
    (fetch e (confirmation_B b) = Rejects \<or> fetch e (confirmation_B b) = Responds False) \<longrightarrow>
      snd (snd (sendConfirmationEmail e b)) =
        [console_error ''Error sending email via Brevo:'',
         console_warn ''Failed to send confirmation email:'']) \<and>
   (env_set (BREVO_API_KEY e) \<and>
    (fetch e (admin_alert_B e b) = Rejects \<or> fetch e (admin_alert_B e b) = Responds False) \<longrightarrow>
      snd (snd (sendAdminNotification e b)) =
        [console_error ''Error sending email via Brevo:'',
         console_warn ''Failed to send admin notification:''])"
proof -
  have sa: "store (post_orders_A pg (e\<lparr>BREVO_API_KEY := k1, fetch := f1\<rparr>) b db) =
            store (post_orders_A pg (e\<lparr>BREVO_API_KEY := k2, fetch := f2\<rparr>) b db)"
    by (simp add: store_env_A)
  have sp: "store (patch_status pg (e\<lparr>BREVO_API_KEY := k1, fetch := f1\<rparr>) tok idp bs db) =
            store (patch_status pg (e\<lparr>BREVO_API_KEY := k2, fetch := f2\<rparr>) tok idp bs db)"
    by (simp add: store_env_patch)
  have sb: "store (post_orders_B pg (e\<lparr>BREVO_API_KEY := k1, fetch := f1\<rparr>) b seen dbB) =
            store (post_orders_B pg (e\<lparr>BREVO_API_KEY := k2, fetch := f2\<rparr>) b seen dbB)"
    and rb: "reply (post_orders_B pg (e\<lparr>BREVO_API_KEY := k1, fetch := f1\<rparr>) b seen dbB) =
            reply (post_orders_B pg (e\<lparr>BREVO_API_KEY := k2, fetch := f2\<rparr>) b seen dbB)"
    by (simp_all add: post_orders_B_env)
  have settled: "(\<forall>m. f1 m \<noteq> Pending) \<and> (\<forall>m. f2 m \<noteq> Pending) \<longrightarrow>
      reply (post_orders_A pg (e\<lparr>BREVO_API_KEY := k1, fetch := f1\<rparr>) b db) =
        reply (post_orders_A pg (e\<lparr>BREVO_API_KEY := k2, fetch := f2\<rparr>) b db) \<and>
      reply (patch_status pg (e\<lparr>BREVO_API_KEY := k1, fetch := f1\<rparr>) tok idp bs db) =
        reply (patch_status pg (e\<lparr>BREVO_API_KEY := k2, fetch := f2\<rparr>) tok idp bs db)"
  proof (intro impI)
    assume s: "(\<forall>m. f1 m \<noteq> Pending) \<and> (\<forall>m. f2 m \<noteq> Pending)"
    then have p1: "\<forall>m. fetch (e\<lparr>BREVO_API_KEY := k1, fetch := f1\<rparr>) m \<noteq> Pending"
      and p2: "\<forall>m. fetch (e\<lparr>BREVO_API_KEY := k2, fetch := f2\<rparr>) m \<noteq> Pending"
      by simp_all
    have a: "reply (post_orders_A pg (e\<lparr>BREVO_API_KEY := k1, fetch := f1\<rparr>) b db) =
             reply (post_orders_A pg (e\<lparr>BREVO_API_KEY := k2, fetch := f2\<rparr>) b db)"
      by (simp add: post_orders_A_settled [OF p1] post_orders_A_settled [OF p2] INSERT_A_env
            connectDB_env cong: checked.case_cong)
    have p: "reply (patch_status pg (e\<lparr>BREVO_API_KEY := k1, fetch := f1\<rparr>) tok idp bs db) =
             reply (patch_status pg (e\<lparr>BREVO_API_KEY := k2, fetch := f2\<rparr>) tok idp bs db)"
      by (simp add: patch_status_settled [OF p1] patch_status_settled [OF p2] connectDB_env
            cong: option.case_cong sum.case_cong list.case_cong if_cong)
    from a p show "reply (post_orders_A pg (e\<lparr>BREVO_API_KEY := k1, fetch := f1\<rparr>) b db) =
        reply (post_orders_A pg (e\<lparr>BREVO_API_KEY := k2, fetch := f2\<rparr>) b db) \<and>
      reply (patch_status pg (e\<lparr>BREVO_API_KEY := k1, fetch := f1\<rparr>) tok idp bs db) =
        reply (patch_status pg (e\<lparr>BREVO_API_KEY := k2, fetch := f2\<rparr>) tok idp bs db)"
      by blast
  qed
  note ua = unanswered_A [of pg e b db]
  note up = unanswered_patch [of pg e tok idp bs db]
  note la = logged_A [of pg e b db]
  note lp = logged_patch [of pg e tok idp bs db]
  have w: "\<not> env_set (BREVO_API_KEY e) \<longrightarrow>
      snd (snd (sendEmail e m)) = [console_warn ''Email service not configured'']"
    by (simp add: sendEmail_def)
  have r: "env_set (BREVO_API_KEY e) \<and> fetch e m = Rejects \<longrightarrow>
      snd (snd (sendEmail e m)) = [console_error ''Email error:'']"
    by (simp add: sendEmail_def)
  note lb = logged_B [of pg e b seen dbB]
  have wb: "\<not> env_set (BREVO_API_KEY e) \<longrightarrow>
      snd (snd (sendConfirmationEmail e b)) =
        [console_warn ''Brevo API key not configured, skipping email'',
         console_warn ''Failed to send confirmation email:''] \<and>
      snd (snd (sendAdminNotification e b)) =
        [console_warn ''Brevo API key not configured, skipping email'',
         console_warn ''Failed to send admin notification:'']"
    by (simp add: sendConfirmationEmail_def sendAdminNotification_def
          sendEmailViaBrevo_unconfigured)
  have fc: "env_set (BREVO_API_KEY e) \<and>
    (fetch e (confirmation_B b) = Rejects \<or> fetch e (confirmation_B b) = Responds False) \<longrightarrow>
      snd (snd (sendConfirmationEmail e b)) =
        [console_error ''Error sending email via Brevo:'',
         console_warn ''Failed to send confirmation email:'']"
    by (simp add: sendConfirmationEmail_def sendEmailViaBrevo_failed)
  have fa: "env_set (BREVO_API_KEY e) \<and>
    (fetch e (admin_alert_B e b) = Rejects \<or> fetch e (admin_alert_B e b) = Responds False) \<longrightarrow>
      snd (snd (sendAdminNotification e b)) =
        [console_error ''Error sending email via Brevo:'',
         console_warn ''Failed to send admin notification:'']"
    by (simp add: sendAdminNotification_def sendEmailViaBrevo_failed)
  from sa sp sb rb settled ua up la lp w r lb wb fc fa show ?thesis by blast
qed

theorem email_failure_swallowed_witness:
  "(\<forall>m. (\<lambda>m. Rejects) m \<noteq> Pending) \<and> (\<forall>m. (\<lambda>m. Responds True) m \<noteq> Pending) \<and>
   reply (post_orders_A sample_pg (sample_env\<lparr>BREVO_API_KEY := None, fetch := (\<lambda>m. Rejects)\<rparr>)
            (bob (JNum 7) (JStr ''bob@example.com'')) []) = Some (created_A bob_row) \<and>
   store (post_orders_A sample_pg (sample_env\<lparr>BREVO_API_KEY := None, fetch := (\<lambda>m. Rejects)\<rparr>)
            (bob (JNum 7) (JStr ''bob@example.com'')) []) = [bob_row] \<and>
   reply (patch_status sample_pg (sample_env\<lparr>BREVO_API_KEY := None, fetch := (\<lambda>m. Rejects)\<rparr>)
            GoodToken ''1'' (set_status ''done'') [alice_row]) = Some (status_updated ''done'') \<and>
   store (patch_status sample_pg (sample_env\<lparr>BREVO_API_KEY := None, fetch := (\<lambda>m. Rejects)\<rparr>)
            GoodToken ''1'' (set_status ''done'') [alice_row]) =
     [alice_row\<lparr>o_status := Some ''done'', o_updated_at := 1000\<rparr>] \<and>
   reply (post_orders_B sample_pg (sample_env\<lparr>BREVO_API_KEY := None, fetch := (\<lambda>m. Pending)\<rparr>)
            (bob (JNum 7) (JStr ''bob@example.com'')) [] []) =
     reply (post_orders_B sample_pg sample_env (bob (JNum 7) (JStr ''bob@example.com'')) [] []) \<and>
   store (post_orders_B sample_pg (sample_env\<lparr>BREVO_API_KEY := None, fetch := (\<lambda>m. Pending)\<rparr>)
            (bob (JNum 7) (JStr ''bob@example.com'')) [] []) =
     store (post_orders_B sample_pg sample_env (bob (JNum 7) (JStr ''bob@example.com'')) [] []) \<and>
   handed (patch_status sample_pg hanging_env GoodToken ''1'' (set_status ''done'') [alice_row]) =
     [status_mail alice_row] \<and>
   env_set (BREVO_API_KEY hanging_env) \<and> fetch hanging_env (status_mail alice_row) = Pending \<and>
   reply (patch_status sample_pg hanging_env GoodToken ''1'' (set_status ''done'') [alice_row]) = None \<and>
   handed (post_orders_A sample_pg hanging_env (bob (JNum 7) (JStr ''bob@example.com'')) []) =
     [confirmation_A (bob (JNum 7) (JStr ''bob@example.com''))] \<and>
   fetch hanging_env (confirmation_A (bob (JNum 7) (JStr ''bob@example.com''))) = Pending \<and>
   reply (post_orders_A sample_pg hanging_env (bob (JNum 7) (JStr ''bob@example.com'')) []) = None \<and>
   \<not> env_set (BREVO_API_KEY unconfigured_env) \<and>
   logged (patch_status sample_pg unconfigured_env GoodToken ''1'' (set_status ''done'') [alice_row]) =
     [[console_warn ''Email service not configured'']] \<and>
   env_set (BREVO_API_KEY rejecting_env) \<and>
   fetch rejecting_env (confirmation_A (bob (JNum 7) (JStr ''bob@example.com''))) = Rejects \<and>
   logged (post_orders_A sample_pg rejecting_env (bob (JNum 7) (JStr ''bob@example.com'')) []) =
     [[console_error ''Email error:'']] \<and>
   handed (post_orders_B sample_pg unconfigured_env (bob (JNum 7) (JStr ''bob@example.com'')) [] []) \<noteq> [] \<and>
   logged (post_orders_B sample_pg unconfigured_env (bob (JNum 7) (JStr ''bob@example.com'')) [] []) =
     [[console_warn ''Brevo API key not configured, skipping email'',
       console_warn ''Failed to send confirmation email:''],
      [console_warn ''Brevo API key not configured, skipping email'',
       console_warn ''Failed to send admin notification:'']] \<and>
   env_set (BREVO_API_KEY refusing_env) \<and>
   fetch refusing_env (confirmation_B (bob (JNum 7) (JStr ''bob@example.com''))) = Responds False \<and>
   fetch refusing_env (admin_alert_B refusing_env (bob (JNum 7) (JStr ''bob@example.com''))) =
     Responds False \<and>
   logged (post_orders_B sample_pg refusing_env (bob (JNum 7) (JStr ''bob@example.com'')) [] []) =
     [[console_error ''Error sending email via Brevo:'',
       console_warn ''Failed to send confirmation email:''],
      [console_error ''Error sending email via Brevo:'',
       console_warn ''Failed to send admin notification:'']]"
proof -
  let ?b = "bob (JNum 7) (JStr ''bob@example.com'')"
  let ?fail = "sample_env\<lparr>BREVO_API_KEY := None, fetch := (\<lambda>m. Rejects)\<rparr>"
  let ?mute = "sample_env\<lparr>BREVO_API_KEY := None, fetch := (\<lambda>m. Pending)\<rparr>"
  let ?done = "set_status ''done''"
  have h1: "\<forall>m. (\<lambda>m. Rejects) m \<noteq> Pending" by simp
  have h2: "\<forall>m. (\<lambda>m. Responds True) m \<noteq> Pending" by simp
  have e: "sample_env\<lparr>BREVO_API_KEY := Some ''xkeysib'', fetch := (\<lambda>m. Responds True)\<rparr> = sample_env"
    by (simp add: sample_env_def)
  have ra: "reply (post_orders_A sample_pg sample_env ?b []) = Some (created_A bob_row)"
    and sa: "store (post_orders_A sample_pg sample_env ?b []) = [bob_row]"
    and rp: "reply (patch_status sample_pg sample_env GoodToken ''1'' ?done [alice_row]) =
             Some (status_updated ''done'')"
    and sp: "store (patch_status sample_pg sample_env GoodToken ''1'' ?done [alice_row]) =
             [alice_row\<lparr>o_status := Some ''done'', o_updated_at := 1000\<rparr>]"
    by code_simp+
  note sw = email_failure_swallowed [where pg = sample_pg and e = sample_env
      and ?k1.0 = None and ?f1.0 = "\<lambda>m. Rejects" and ?k2.0 = "Some ''xkeysib''"
      and ?f2.0 = "\<lambda>m. Responds True" and b = ?b and tok = GoodToken
      and idp = "''1''" and bs = ?done and seen = "[]" and dbB = "[]"]
  from sw [where db = "[]"] h1 h2
  have "reply (post_orders_A sample_pg ?fail ?b []) =
          reply (post_orders_A sample_pg
            (sample_env\<lparr>BREVO_API_KEY := Some ''xkeysib'', fetch := (\<lambda>m. Responds True)\<rparr>) ?b [])"
    and "store (post_orders_A sample_pg ?fail ?b []) =
          store (post_orders_A sample_pg
            (sample_env\<lparr>BREVO_API_KEY := Some ''xkeysib'', fetch := (\<lambda>m. Responds True)\<rparr>) ?b [])"
    by blast+
  with ra sa
  have a: "reply (post_orders_A sample_pg ?fail ?b []) = Some (created_A bob_row)"
    and a': "store (post_orders_A sample_pg ?fail ?b []) = [bob_row]"
    by (simp_all only: e)
  from sw [where db = "[alice_row]"] h1 h2
  have "reply (patch_status sample_pg ?fail GoodToken ''1'' ?done [alice_row]) =
          reply (patch_status sample_pg
            (sample_env\<lparr>BREVO_API_KEY := Some ''xkeysib'', fetch := (\<lambda>m. Responds True)\<rparr>)
            GoodToken ''1'' ?done [alice_row])"
    and "store (patch_status sample_pg ?fail GoodToken ''1'' ?done [alice_row]) =
          store (patch_status sample_pg
            (sample_env\<lparr>BREVO_API_KEY := Some ''xkeysib'', fetch := (\<lambda>m. Responds True)\<rparr>)
            GoodToken ''1'' ?done [alice_row])"
    by blast+
  with rp sp
  have p: "reply (patch_status sample_pg ?fail GoodToken ''1'' ?done [alice_row]) =
             Some (status_updated ''done'')"
    and p': "store (patch_status sample_pg ?fail GoodToken ''1'' ?done [alice_row]) =
             [alice_row\<lparr>o_status := Some ''done'', o_updated_at := 1000\<rparr>]"
    by (simp_all only: e)
  note sm = email_failure_swallowed [where pg = sample_pg and e = sample_env
      and ?k1.0 = None and ?f1.0 = "\<lambda>m. Pending" and ?k2.0 = "Some ''xkeysib''"
      and ?f2.0 = "\<lambda>m. Responds True" and b = ?b and seen = "[]" and dbB = "[]"]
  from sm
  have "reply (post_orders_B sample_pg ?mute ?b [] []) =
          reply (post_orders_B sample_pg
            (sample_env\<lparr>BREVO_API_KEY := Some ''xkeysib'', fetch := (\<lambda>m. Responds True)\<rparr>) ?b [] [])"
    and "store (post_orders_B sample_pg ?mute ?b [] []) =
          store (post_orders_B sample_pg
            (sample_env\<lparr>BREVO_API_KEY := Some ''xkeysib'', fetch := (\<lambda>m. Responds True)\<rparr>) ?b [] [])"
    by blast+
  then have c: "reply (post_orders_B sample_pg ?mute ?b [] []) =
                reply (post_orders_B sample_pg sample_env ?b [] [])"
    and c': "store (post_orders_B sample_pg ?mute ?b [] []) =
             store (post_orders_B sample_pg sample_env ?b [] [])"
    by (simp_all only: e)
  have hp: "handed (patch_status sample_pg hanging_env GoodToken ''1'' ?done [alice_row]) =
            [status_mail alice_row]"
    and hk: "env_set (BREVO_API_KEY hanging_env)"
    and hf: "fetch hanging_env (status_mail alice_row) = Pending"
    and ha: "handed (post_orders_A sample_pg hanging_env ?b []) = [confirmation_A ?b]"
    and hc: "fetch hanging_env (confirmation_A ?b) = Pending"
    by code_simp+
  note hang = email_failure_swallowed [where pg = sample_pg and e = hanging_env and b = ?b
      and tok = GoodToken and idp = "''1''" and bs = ?done]
  from hang [where db = "[alice_row]"]
  have "(reply (patch_status sample_pg hanging_env GoodToken ''1'' ?done [alice_row]) = None) =
     (handed (patch_status sample_pg hanging_env GoodToken ''1'' ?done [alice_row]) \<noteq> [] \<and>
      env_set (BREVO_API_KEY hanging_env) \<and>
      fetch hanging_env
        (last (handed (patch_status sample_pg hanging_env GoodToken ''1'' ?done [alice_row]))) = Pending)"
    by blast
  with hp hk hf
  have np: "reply (patch_status sample_pg hanging_env GoodToken ''1'' ?done [alice_row]) = None"
    by simp
  from hang [where db = "[]"]
  have "(reply (post_orders_A sample_pg hanging_env ?b []) = None) =
     (handed (post_orders_A sample_pg hanging_env ?b []) \<noteq> [] \<and>
      env_set (BREVO_API_KEY hanging_env) \<and>
      fetch hanging_env (last (handed (post_orders_A sample_pg hanging_env ?b []))) = Pending)"
    by blast
  with ha hk hc
  have na: "reply (post_orders_A sample_pg hanging_env ?b []) = None"
    by simp
  have uk: "\<not> env_set (BREVO_API_KEY unconfigured_env)"
    and uh: "handed (patch_status sample_pg unconfigured_env GoodToken ''1'' ?done [alice_row]) =
             [status_mail alice_row]"
    and ub: "handed (post_orders_B sample_pg unconfigured_env ?b [] []) \<noteq> []"
    by code_simp+
  note un = email_failure_swallowed [where pg = sample_pg and e = unconfigured_env and b = ?b
      and tok = GoodToken and idp = "''1''" and bs = ?done and db = "[alice_row]"
      and m = "status_mail alice_row" and seen = "[]" and dbB = "[]"]
  from un uk
  have "logged (patch_status sample_pg unconfigured_env GoodToken ''1'' ?done [alice_row]) =
          map (\<lambda>m. snd (snd (sendEmail unconfigured_env m)))
            (handed (patch_status sample_pg unconfigured_env GoodToken ''1'' ?done [alice_row]))"
    and "snd (snd (sendEmail unconfigured_env (status_mail alice_row))) =
          [console_warn ''Email service not configured'']"
    by blast+
  with uh
  have lu: "logged (patch_status sample_pg unconfigured_env GoodToken ''1'' ?done [alice_row]) =
            [[console_warn ''Email service not configured'']]"
    by simp
  from un uk
  have "logged (post_orders_B sample_pg unconfigured_env ?b [] []) =
     (if handed (post_orders_B sample_pg unconfigured_env ?b [] []) = [] then []
      else [snd (snd (sendConfirmationEmail unconfigured_env ?b)),
            snd (snd (sendAdminNotification unconfigured_env ?b))])"
    and "snd (snd (sendConfirmationEmail unconfigured_env ?b)) =
        [console_warn ''Brevo API key not configured, skipping email'',
         console_warn ''Failed to send confirmation email:'']"
    and "snd (snd (sendAdminNotification unconfigured_env ?b)) =
        [console_warn ''Brevo API key not configured, skipping email'',
         console_warn ''Failed to send admin notification:'']"
    by blast+
  with ub
  have lub: "logged (post_orders_B sample_pg unconfigured_env ?b [] []) =
     [[console_warn ''Brevo API key not configured, skipping email'',
       console_warn ''Failed to send confirmation email:''],
      [console_warn ''Brevo API key not configured, skipping email'',
       console_warn ''Failed to send admin notification:'']]"
    by simp
  have rk: "env_set (BREVO_API_KEY rejecting_env)"
    and rf: "fetch rejecting_env (confirmation_A ?b) = Rejects"
    and rh: "handed (post_orders_A sample_pg rejecting_env ?b []) = [confirmation_A ?b]"
    by code_simp+
  note rj = email_failure_swallowed [where pg = sample_pg and e = rejecting_env and b = ?b
      and db = "[]" and m = "confirmation_A ?b"]
  from rj rk rf
  have "logged (post_orders_A sample_pg rejecting_env ?b []) =
          map (\<lambda>m. snd (snd (sendEmail rejecting_env m)))
            (handed (post_orders_A sample_pg rejecting_env ?b []))"
    and "snd (snd (sendEmail rejecting_env (confirmation_A ?b))) = [console_error ''Email error:'']"
    by blast+
  with rh
  have lr: "logged (post_orders_A sample_pg rejecting_env ?b []) = [[console_error ''Email error:'']]"
    by simp
  have fk: "env_set (BREVO_API_KEY refusing_env)"
    and fc: "fetch refusing_env (confirmation_B ?b) = Responds False"
    and fa: "fetch refusing_env (admin_alert_B refusing_env ?b) = Responds False"
    and fh: "handed (post_orders_B sample_pg refusing_env ?b [] []) \<noteq> []"
    by code_simp+
  note rf = email_failure_swallowed [where pg = sample_pg and e = refusing_env and b = ?b
      and seen = "[]" and dbB = "[]"]
  from rf fk fc fa
  have "logged (post_orders_B sample_pg refusing_env ?b [] []) =
     (if handed (post_orders_B sample_pg refusing_env ?b [] []) = [] then []
      else [snd (snd (sendConfirmationEmail refusing_env ?b)),
            snd (snd (sendAdminNotification refusing_env ?b))])"
    and "snd (snd (sendConfirmationEmail refusing_env ?b)) =
        [console_error ''Error sending email via Brevo:'',
         console_warn ''Failed to send confirmation email:'']"
    and "snd (snd (sendAdminNotification refusing_env ?b)) =
        [console_error ''Error sending email via Brevo:'',
         console_warn ''Failed to send admin notification:'']"
    by blast+
  with fh
  have lf: "logged (post_orders_B sample_pg refusing_env ?b [] []) =
     [[console_error ''Error sending email via Brevo:'',
       console_warn ''Failed to send confirmation email:''],
      [console_error ''Error sending email via Brevo:'',
       console_warn ''Failed to send admin notification:'']]"
    by simp
  from h1 h2 a a' p p' c c' hp hk hf np ha hc na uk lu rk \<open>fetch rejecting_env (confirmation_A ?b) = Rejects\<close>
    lr ub lub fk fc fa lf
  show ?thesis by blast
qed

text \<open>
  Claim C3, as stated, fails in the first listing, which awaits \<^verbatim>\<open>sendEmail\<close> before
  it answers: when the request to the provider never settles the order is stored and
  the submission gets no response.
\<close>

theorem awaited_send_counterexample:
  "reply (post_orders_A sample_pg (sample_env\<lparr>fetch := (\<lambda>m. Pending)\<rparr>)
            (bob (JNum 7) (JStr ''bob@example.com'')) []) = None \<and>
   store (post_orders_A sample_pg (sample_env\<lparr>fetch := (\<lambda>m. Pending)\<rparr>)
            (bob (JNum 7) (JStr ''bob@example.com'')) []) = [bob_row]"
  by code_simp

text \<open>
  Claim C3, amended.  In the second listing the response does not wait for the emails:
  it is the same whatever the provider does, also when a send never settles, and it is
  never missing; a successful submission answers 201 with both emails handed off.  In
  the first listing a successful submission answers 201 only after the confirmation
  and, when \<^verbatim>\<open>ADMIN_EMAIL\<close> is set, the admin alert have settled, whatever their
  outcome; with the API key set and one of those requests never settling it does not
  answer.
\<close>

theorem response_and_dispatch:
  "reply (post_orders_B pg (e\<lparr>fetch := f\<rparr>) b seen dbB) = reply (post_orders_B pg e b seen dbB) \<and>
   store (post_orders_B pg (e\<lparr>fetch := f\<rparr>) b seen dbB) = store (post_orders_B pg e b seen dbB) \<and>
   reply (post_orders_B pg e b seen dbB) \<noteq> None \<and>
   (validate_B b = Passed () \<and> store_up e \<and>
    SELECT_by_jersey pg (b ''jerseyNumber'') seen = Inr [] \<and>
    insert_params_B e b = Inr dB \<and> INSERT_B pg e dB dbB = Inr (rowB, dbB') \<longrightarrow>
      reply (post_orders_B pg e b seen dbB) = Some (created_B e b dB rowB) \<and>
      res_status (created_B e b dB rowB) = 201 \<and>
      handed (post_orders_B pg e b seen dbB) = [confirmation_B b, admin_alert_B e b]) \<and>
   (validate_A b = Passed n \<and> store_up e \<and>
    and_then (insert_params_A b n) (\<lambda>d. INSERT_A pg e d db) = Inr (row, db') \<longrightarrow>
      reply (post_orders_A pg e b db) =
        (if env_set (BREVO_API_KEY e) \<and>
            (fetch e (confirmation_A b) = Pending \<or>
             (env_set (ADMIN_EMAIL e) \<and>
              fetch e (admin_alert_A (the (ADMIN_EMAIL e)) row) = Pending))
         then None else Some (created_A row)) \<and>
      res_status (created_A row) = 201)"
proof (intro conjI impI)
  note same = post_orders_B_env [where e = e and k = "BREVO_API_KEY e" and f = f]
  show "reply (post_orders_B pg (e\<lparr>fetch := f\<rparr>) b seen dbB) = reply (post_orders_B pg e b seen dbB)"
    using same [of pg b seen dbB] by simp
  show "store (post_orders_B pg (e\<lparr>fetch := f\<rparr>) b seen dbB) = store (post_orders_B pg e b seen dbB)"
    using same [of pg b seen dbB] by simp
  show "reply (post_orders_B pg e b seen dbB) \<noteq> None" by (rule post_orders_B_replies)
next
  assume a: "validate_B b = Passed () \<and> store_up e \<and>
    SELECT_by_jersey pg (b ''jerseyNumber'') seen = Inr [] \<and>
    insert_params_B e b = Inr dB \<and> INSERT_B pg e dB dbB = Inr (rowB, dbB')"
  then show "reply (post_orders_B pg e b seen dbB) = Some (created_B e b dB rowB)"
    by (simp add: post_orders_B_def notify_created_B_def executeQuery_def connectDatabase_def
          and_then_def)
  show "res_status (created_B e b dB rowB) = 201" by (simp add: created_B_def)
  from a show "handed (post_orders_B pg e b seen dbB) = [confirmation_B b, admin_alert_B e b]"
    by (simp add: post_orders_B_def notify_created_B_def executeQuery_def connectDatabase_def
          and_then_def)
next
  assume a: "validate_A b = Passed n \<and> store_up e \<and>
    and_then (insert_params_A b n) (\<lambda>d. INSERT_A pg e d db) = Inr (row, db')"
  then show "reply (post_orders_A pg e b db) =
        (if env_set (BREVO_API_KEY e) \<and>
            (fetch e (confirmation_A b) = Pending \<or>
             (env_set (ADMIN_EMAIL e) \<and>
              fetch e (admin_alert_A (the (ADMIN_EMAIL e)) row) = Pending))
         then None else Some (created_A row))"
    by (auto simp: post_orders_A_def connectDB_def and_then_Inr_unit notify_created_A_reply
          fst_sendEmail_None)
  show "res_status (created_A row) = 201" by (simp add: created_A_def)
qed

theorem response_and_dispatch_witness:
  "store_up sample_env \<and> store_up (sample_env\<lparr>fetch := (\<lambda>m. Pending)\<rparr>) \<and>
   validate_B (bob (JNum 7) (JStr ''bob@example.com'')) = Passed () \<and>
   SELECT_by_jersey sample_pg (bob (JNum 7) (JStr ''bob@example.com'') ''jerseyNumber'') [] = Inr [] \<and>
   (\<exists>dB rowB dbB'. insert_params_B sample_env (bob (JNum 7) (JStr ''bob@example.com'')) = Inr dB \<and>
      INSERT_B sample_pg sample_env dB [] = Inr (rowB, dbB') \<and>
      reply (post_orders_B sample_pg sample_env (bob (JNum 7) (JStr ''bob@example.com'')) [] []) =
        Some (created_B sample_env (bob (JNum 7) (JStr ''bob@example.com'')) dB rowB)) \<and>
   reply (post_orders_B sample_pg (sample_env\<lparr>fetch := (\<lambda>m. Pending)\<rparr>)
            (bob (JNum 7) (JStr ''bob@example.com'')) [] []) =
     reply (post_orders_B sample_pg sample_env (bob (JNum 7) (JStr ''bob@example.com'')) [] []) \<and>
   handed (post_orders_B sample_pg sample_env (bob (JNum 7) (JStr ''bob@example.com'')) [] []) =
     [confirmation_B (bob (JNum 7) (JStr ''bob@example.com'')),
      admin_alert_B sample_env (bob (JNum 7) (JStr ''bob@example.com''))] \<and>
   validate_A (bob (JNum 7) (JStr ''bob@example.com'')) = Passed 7 \<and>
   and_then (insert_params_A (bob (JNum 7) (JStr ''bob@example.com'')) 7)
     (\<lambda>d. INSERT_A sample_pg sample_env d []) = Inr (bob_row, [bob_row]) \<and>
   reply (post_orders_A sample_pg sample_env (bob (JNum 7) (JStr ''bob@example.com'')) []) =
     Some (created_A bob_row) \<and>
   and_then (insert_params_A (bob (JNum 7) (JStr ''bob@example.com'')) 7)
     (\<lambda>d. INSERT_A sample_pg (sample_env\<lparr>fetch := (\<lambda>m. Pending)\<rparr>) d []) = Inr (bob_row, [bob_row]) \<and>
   reply (post_orders_A sample_pg (sample_env\<lparr>fetch := (\<lambda>m. Pending)\<rparr>)
            (bob (JNum 7) (JStr ''bob@example.com'')) []) = None"
proof -
  let ?b = "bob (JNum 7) (JStr ''bob@example.com'')"
  let ?hang = "sample_env\<lparr>fetch := (\<lambda>m. Pending)\<rparr>"
  have up: "store_up sample_env" "store_up ?hang" by (simp_all add: sample_env_def)
  have v: "validate_B ?b = Passed ()" by code_simp
  have sel: "SELECT_by_jersey sample_pg (?b ''jerseyNumber'') [] = Inr []" by code_simp
  have "case insert_params_B sample_env ?b of Inl err \<Rightarrow> False
        | Inr d \<Rightarrow> (case INSERT_B sample_pg sample_env d [] of Inl err \<Rightarrow> False | Inr x \<Rightarrow> True)"
    by code_simp
  then obtain dB rowB dbB' where ins:
    "insert_params_B sample_env ?b = Inr dB" "INSERT_B sample_pg sample_env dB [] = Inr (rowB, dbB')"
    by (auto split: sum.splits)
  have va: "validate_A ?b = Passed 7" by code_simp
  have ia: "and_then (insert_params_A ?b 7) (\<lambda>d. INSERT_A sample_pg sample_env d []) =
            Inr (bob_row, [bob_row])"
    by code_simp
  have ih: "and_then (insert_params_A ?b 7) (\<lambda>d. INSERT_A sample_pg ?hang d []) =
            Inr (bob_row, [bob_row])"
    by code_simp
  have key: "env_set (BREVO_API_KEY sample_env)" "\<not> env_set (ADMIN_EMAIL sample_env)"
    "fetch sample_env (confirmation_A ?b) = Responds True"
    by (simp_all add: sample_env_def env_set_def)
  note ok = response_and_dispatch [where pg = sample_pg and e = sample_env
      and f = "\<lambda>m. Pending" and b = ?b and seen = "[]" and dbB = "[]" and dB = dB and rowB = rowB
      and dbB' = dbB' and n = 7 and db = "[]" and row = bob_row and db' = "[bob_row]"]
  note hang = response_and_dispatch [where pg = sample_pg and e = ?hang
      and f = "\<lambda>m. Pending" and b = ?b and seen = "[]" and dbB = "[]" and dB = dB and rowB = rowB
      and dbB' = dbB' and n = 7 and db = "[]" and row = bob_row and db' = "[bob_row]"]
  from ok up v sel ins
  have rb: "reply (post_orders_B sample_pg sample_env ?b [] []) = Some (created_B sample_env ?b dB rowB)"
    and hb: "handed (post_orders_B sample_pg sample_env ?b [] []) =
             [confirmation_B ?b, admin_alert_B sample_env ?b]"
    by blast+
  from ok have same: "reply (post_orders_B sample_pg ?hang ?b [] []) =
                      reply (post_orders_B sample_pg sample_env ?b [] [])"
    by blast
  from ok up va ia have "reply (post_orders_A sample_pg sample_env ?b []) =
        (if env_set (BREVO_API_KEY sample_env) \<and>
            (fetch sample_env (confirmation_A ?b) = Pending \<or>
             (env_set (ADMIN_EMAIL sample_env) \<and>
              fetch sample_env (admin_alert_A (the (ADMIN_EMAIL sample_env)) bob_row) = Pending))
         then None else Some (created_A bob_row))"
    by blast
  then have ra: "reply (post_orders_A sample_pg sample_env ?b []) = Some (created_A bob_row)"
    by (simp add: key)
  from hang up va ih have "reply (post_orders_A sample_pg ?hang ?b []) =
        (if env_set (BREVO_API_KEY ?hang) \<and>
            (fetch ?hang (confirmation_A ?b) = Pending \<or>
             (env_set (ADMIN_EMAIL ?hang) \<and>
              fetch ?hang (admin_alert_A (the (ADMIN_EMAIL ?hang)) bob_row) = Pending))
         then None else Some (created_A bob_row))"
    by blast
  then have rh: "reply (post_orders_A sample_pg ?hang ?b []) = None"
    using key by simp
  from ins rb have ex: "\<exists>dB rowB dbB'. insert_params_B sample_env ?b = Inr dB \<and>
      INSERT_B sample_pg sample_env dB [] = Inr (rowB, dbB') \<and>
      reply (post_orders_B sample_pg sample_env ?b [] []) = Some (created_B sample_env ?b dB rowB)"
    by blast
  from up v sel ex same hb va ia ra ih rh show ?thesis by blast
qed

subsection \<open>A jersey number that is taken\<close>

lemma and_then_map:
  "map_sum id h (and_then r f) = and_then r (\<lambda>x. map_sum id h (f x))"
  by (cases r) (simp_all add: and_then_def)

lemma INSERT_A_append:
  assumes "nextval e \<notin> set (map o_id db)"
  shows "INSERT_A pg e d db = map_sum id (\<lambda>(row, t). (row, db @ t)) (INSERT_A pg e d [])"
  using assms by (simp add: INSERT_A_def and_then_map Let_def)

lemma post_orders_A_append:
  assumes "nextval e \<notin> set (map o_id db)"
  shows "reply (post_orders_A pg e b db) = reply (post_orders_A pg e b []) \<and>
         store (post_orders_A pg e b db) = db @ store (post_orders_A pg e b [])"
proof (cases "validate_A b")
  case (Rejected r)
  then show ?thesis by (simp add: post_orders_A_def answer_def)
next
  case (Threw err)
  then show ?thesis by (simp add: post_orders_A_def answer_def respond_def)
next
  case (Passed n)
  show ?thesis
  proof (cases "and_then (connectDB e) (\<lambda>client. insert_params_A b n)")
    case (Inl err)
    then show ?thesis
      by (auto simp: post_orders_A_def Passed and_then_def connectDB_def answer_def respond_def
            split: if_splits sum.splits)
  next
    case (Inr d)
    then have Inr: "connectDB e = Inr ()" "insert_params_A b n = Inr d"
      by (auto simp: and_then_def connectDB_def split: if_splits sum.splits)
    show ?thesis
    proof (cases "INSERT_A pg e d []")
      case (Inl err)
      then show ?thesis
        by (simp add: post_orders_A_def Passed Inr and_then_def INSERT_A_append [OF assms]
              answer_def respond_def)
    next
      case ins: (Inr p)
      obtain row t where p: "p = (row, t)" by (cases p)
      show ?thesis
        by (simp add: post_orders_A_def Passed Inr and_then_def INSERT_A_append [OF assms]
              ins p notify_created_A_store notify_created_A_reply)
    qed
  qed
qed

lemma SELECT_by_jersey_read:
  "Option.bind (pg_text v) (int4in pg) = Some j \<Longrightarrow>
   SELECT_by_jersey pg v seen = Inr (filter (\<lambda>r. b_jersey_number r = j) seen)"
  by (simp add: SELECT_by_jersey_def and_then_def pg_column_def)

lemma failed_B_store: "store (failed_B err db) = db" and failed_B_handed: "handed (failed_B err db) = []"
  by (simp_all add: failed_B_def respond_def answer_def)

lemma and_then_assoc:
  "and_then (and_then r f) g = and_then r (\<lambda>x. and_then (f x) g)"
  by (cases r) (simp_all add: and_then_def)

lemma and_then_Inr: "and_then (Inr x) f = f x"
  by (simp add: and_then_def)

lemma INSERT_B_table:
  "INSERT_B pg e d db =
     and_then (INSERT_B pg e d [])
       (\<lambda>(row, t). if nextval e \<in> set (map b_id db) \<or>
                       b_jersey_number row \<in> set (map b_jersey_number db)
                    then Inl (PgError unique_violation) else Inr (row, db @ [row]))"
  by (simp add: INSERT_B_def and_then_assoc and_then_Inr Let_def cong: if_cong)

lemma INSERT_B_row_jersey:
  assumes "INSERT_B pg e d [] = Inr (row, t)"
  shows "Option.bind (pg_text (d_jersey_number d)) (int4in pg) = Some (b_jersey_number row)"
  using assms
  by (auto simp: INSERT_B_def and_then_def pg_column_def Let_def
      split: sum.splits option.splits if_splits)

lemma insert_params_B_jersey:
  "insert_params_B e b = Inr d \<Longrightarrow> d_jersey_number d = b ''jerseyNumber''"
  by (auto simp: insert_params_B_def and_then_def split: sum.splits)

lemma INSERT_B_duplicate:
  assumes j: "Option.bind (pg_text (d_jersey_number d)) (int4in pg) = Some j"
    and dup: "j \<in> set (map b_jersey_number db)"
  shows "\<exists>err. INSERT_B pg e d db = Inl err \<and>
           (\<forall>x. INSERT_B pg e d [] = Inr x \<longrightarrow> err = PgError unique_violation)"
proof (cases "INSERT_B pg e d []")
  case (Inl err)
  then show ?thesis by (subst INSERT_B_table) (simp add: and_then_def)
next
  case (Inr x)
  obtain row t where x: "x = (row, t)" by (cases x)
  from INSERT_B_row_jersey [of pg e d row t] Inr x j have "b_jersey_number row = j" by simp
  with dup Inr x show ?thesis by (subst INSERT_B_table) (simp add: and_then_def)
qed

lemma filter_jersey_holder:
  "holder \<in> set db \<Longrightarrow> b_jersey_number holder = j \<Longrightarrow>
   \<exists>first rest. filter (\<lambda>r. b_jersey_number r = j) db = first # rest \<and> first \<in> set db \<and>
                 b_jersey_number first = j"
proof -
  assume h: "holder \<in> set db" "b_jersey_number holder = j"
  then have "holder \<in> set (filter (\<lambda>r. b_jersey_number r = j) db)" by simp
  then obtain first rest where f: "filter (\<lambda>r. b_jersey_number r = j) db = first # rest"
    by (cases "filter (\<lambda>r. b_jersey_number r = j) db") auto
  then have "first \<in> set (filter (\<lambda>r. b_jersey_number r = j) db)" by simp
  then have "first \<in> set db \<and> b_jersey_number first = j" by simp
  with f show ?thesis by blast
qed

text \<open>
  Claim C1, as stated, fails in the first listing, where the check is commented out,
  the table has no unique constraint on the number and the \<^verbatim>\<open>catch\<close> knows no code
  23505: with Alice holding number 7, the submission of Bob for number 7 is stored and
  answered 201.
\<close>

theorem duplicate_admitted_counterexample:
  "reply (post_orders_A sample_pg sample_env (bob (JNum 7) (JStr ''bob@example.com'')) [alice_row]) =
     Some (Response 201 (Obj [(''success'', JS (JBool True)),
                              (''message'', JS (JStr ''Order placed successfully'')),
                              (''orderId'', JS (JStr ''ICE-002'')),
                              (''status'', JS (JStr ''pending''))])) \<and>
   store (post_orders_A sample_pg sample_env (bob (JNum 7) (JStr ''bob@example.com'')) [alice_row]) =
     [alice_row, bob_row] \<and>
   o_jersey_number alice_row = ''7'' \<and> o_jersey_number bob_row = ''7''"
  by code_simp

text \<open>
  Claim C1, amended.  In the second listing, with the store reachable, a submission
  that passes validation and
  whose jersey number the store reads as the number of an order in the table is not
  stored and no email goes out.  When the check query sees a holder the response is 409
  and names the number and that holder; this is the case whenever check and insert see
  the same table.  When the check sees none and only the insert meets the holder, the
  handler ends in its \<^verbatim>\<open>catch\<close>, and when the row is otherwise acceptable the
  violated constraint (code 23505) is answered 409 with the fixed message
  \<^verbatim>\<open>Jersey number is already taken\<close>, which does not name the number.  The first
  listing has no such check: with a fresh id it treats a table with any orders as it
  treats the empty table, appending what it stores.
\<close>

theorem duplicate_jersey_number:
  assumes up: "store_up e" and v: "validate_B b = Passed ()"
    and j: "Option.bind (pg_text (b ''jerseyNumber'')) (int4in pg) = Some j"
    and h: "holder \<in> set dbB" "b_jersey_number holder = j"
  shows "store (post_orders_B pg e b seen dbB) = dbB \<and>
         handed (post_orders_B pg e b seen dbB) = [] \<and>
         (\<forall>first rest. filter (\<lambda>r. b_jersey_number r = j) seen = first # rest \<longrightarrow>
            reply (post_orders_B pg e b seen dbB) =
              Some (Response 409 (error_body (''Jersey number '' @ toString (b ''jerseyNumber'') @
                                              '' is already taken by '' @ b_name first)))) \<and>
         (filter (\<lambda>r. b_jersey_number r = j) seen = [] \<longrightarrow>
            (\<exists>err. post_orders_B pg e b seen dbB = failed_B err dbB) \<and>
            (\<forall>d x. insert_params_B e b = Inr d \<and> INSERT_B pg e d [] = Inr x \<longrightarrow>
               reply (post_orders_B pg e b seen dbB) =
                 Some (Response 409 (error_body ''Jersey number is already taken'')))) \<and>
         (\<exists>first. first \<in> set dbB \<and> b_jersey_number first = j \<and>
            reply (post_orders_B pg e b dbB dbB) =
              Some (Response 409 (error_body (''Jersey number '' @ toString (b ''jerseyNumber'') @
                                              '' is already taken by '' @ b_name first)))) \<and>
         (nextval e \<notin> set (map o_id db) \<longrightarrow>
            reply (post_orders_A pg e b db) = reply (post_orders_A pg e b []) \<and>
            store (post_orders_A pg e b db) = db @ store (post_orders_A pg e b []))"
proof -
  have sel: "executeQuery e (SELECT_by_jersey pg (b ''jerseyNumber'') s) =
             Inr (filter (\<lambda>r. b_jersey_number r = j) s)" for s
    by (simp add: executeQuery_def connectDatabase_def up and_then_def SELECT_by_jersey_read [OF j])
  have exec: "executeQuery e q = q" for q :: "failure + order_B \<times> order_B list"
    by (simp add: executeQuery_def connectDatabase_def up and_then_def)
  have dup: "j \<in> set (map b_jersey_number dbB)" using h by auto
  have seen_case: "reply (post_orders_B pg e b s dbB) =
              Some (Response 409 (error_body (''Jersey number '' @ toString (b ''jerseyNumber'') @
                                              '' is already taken by '' @ b_name first))) \<and>
           store (post_orders_B pg e b s dbB) = dbB \<and> handed (post_orders_B pg e b s dbB) = []"
    if "filter (\<lambda>r. b_jersey_number r = j) s = first # rest" for s first rest
    using that by (simp add: post_orders_B_def v sel respond_def answer_def)
  have unseen: "\<exists>err. post_orders_B pg e b seen dbB = failed_B err dbB \<and>
          (\<forall>d x. insert_params_B e b = Inr d \<and> INSERT_B pg e d [] = Inr x \<longrightarrow>
               err = PgError unique_violation)"
    if n: "filter (\<lambda>r. b_jersey_number r = j) seen = []"
  proof (cases "insert_params_B e b")
    case (Inl err)
    then have "post_orders_B pg e b seen dbB = failed_B err dbB"
      by (simp add: post_orders_B_def v sel n)
    with Inl show ?thesis by auto
  next
    case (Inr d)
    have dj: "Option.bind (pg_text (d_jersey_number d)) (int4in pg) = Some j"
      using insert_params_B_jersey [OF Inr] j by simp
    from INSERT_B_duplicate [OF dj dup, of e] obtain err where
      err: "INSERT_B pg e d dbB = Inl err"
        "\<forall>x. INSERT_B pg e d [] = Inr x \<longrightarrow> err = PgError unique_violation"
      by blast
    then show ?thesis by (auto simp: post_orders_B_def v sel n Inr exec)
  qed
  have c1: "store (post_orders_B pg e b seen dbB) = dbB \<and> handed (post_orders_B pg e b seen dbB) = []"
  proof (cases "filter (\<lambda>r. b_jersey_number r = j) seen")
    case Nil
    from unseen [OF Nil] show ?thesis by (auto simp: failed_B_store failed_B_handed)
  next
    case (Cons first rest)
    from seen_case [OF Cons] show ?thesis by simp
  qed
  have c3: "\<forall>first rest. filter (\<lambda>r. b_jersey_number r = j) seen = first # rest \<longrightarrow>
            reply (post_orders_B pg e b seen dbB) =
              Some (Response 409 (error_body (''Jersey number '' @ toString (b ''jerseyNumber'') @
                                              '' is already taken by '' @ b_name first)))"
    using seen_case by blast
  have c4: "filter (\<lambda>r. b_jersey_number r = j) seen = [] \<longrightarrow>
            (\<exists>err. post_orders_B pg e b seen dbB = failed_B err dbB) \<and>
            (\<forall>d x. insert_params_B e b = Inr d \<and> INSERT_B pg e d [] = Inr x \<longrightarrow>
               reply (post_orders_B pg e b seen dbB) =
                 Some (Response 409 (error_body ''Jersey number is already taken'')))"
  proof
    assume n: "filter (\<lambda>r. b_jersey_number r = j) seen = []"
    from unseen [OF n] obtain err where
      e1: "post_orders_B pg e b seen dbB = failed_B err dbB"
      and e2: "\<forall>d x. insert_params_B e b = Inr d \<and> INSERT_B pg e d [] = Inr x \<longrightarrow>
               err = PgError unique_violation"
      by blast
    have "reply (failed_B (PgError unique_violation) dbB) =
            Some (Response 409 (error_body ''Jersey number is already taken''))"
      by (simp add: failed_B_def respond_def answer_def)
    with e1 e2 show "(\<exists>err. post_orders_B pg e b seen dbB = failed_B err dbB) \<and>
            (\<forall>d x. insert_params_B e b = Inr d \<and> INSERT_B pg e d [] = Inr x \<longrightarrow>
               reply (post_orders_B pg e b seen dbB) =
                 Some (Response 409 (error_body ''Jersey number is already taken'')))"
      by metis
  qed
  have c5: "\<exists>first. first \<in> set dbB \<and> b_jersey_number first = j \<and>
            reply (post_orders_B pg e b dbB dbB) =
              Some (Response 409 (error_body (''Jersey number '' @ toString (b ''jerseyNumber'') @
                                              '' is already taken by '' @ b_name first)))"
  proof -
    from filter_jersey_holder [OF h] obtain first rest where
      f: "filter (\<lambda>r. b_jersey_number r = j) dbB = first # rest" "first \<in> set dbB"
         "b_jersey_number first = j"
      by blast
    from seen_case [OF f(1)] f(2,3) show ?thesis by blast
  qed
  have c6: "nextval e \<notin> set (map o_id db) \<longrightarrow>
            reply (post_orders_A pg e b db) = reply (post_orders_A pg e b []) \<and>
            store (post_orders_A pg e b db) = db @ store (post_orders_A pg e b [])"
    using post_orders_A_append by blast
  from c1 c3 c4 c5 c6 show ?thesis by blast
qed

theorem duplicate_jersey_number_witness:
  "store_up sample_env \<and> validate_B (bob (JNum 7) (JStr ''bob@example.com'')) = Passed () \<and>
   Option.bind (pg_text (bob (JNum 7) (JStr ''bob@example.com'') ''jerseyNumber'')) (int4in sample_pg) = Some 7 \<and>
   alice_row_B \<in> set [alice_row_B] \<and> b_jersey_number alice_row_B = 7 \<and>
   reply (post_orders_B sample_pg sample_env (bob (JNum 7) (JStr ''bob@example.com''))
            [alice_row_B] [alice_row_B]) =
     Some (Response 409 (error_body ''Jersey number 7 is already taken by Alice'')) \<and>
   store (post_orders_B sample_pg sample_env (bob (JNum 7) (JStr ''bob@example.com''))
            [alice_row_B] [alice_row_B]) = [alice_row_B] \<and>
   reply (post_orders_B sample_pg sample_env (bob (JNum 7) (JStr ''bob@example.com''))
            [] [alice_row_B]) =
     Some (Response 409 (error_body ''Jersey number is already taken'')) \<and>
   store (post_orders_B sample_pg sample_env (bob (JNum 7) (JStr ''bob@example.com''))
            [] [alice_row_B]) = [alice_row_B] \<and>
   nextval sample_env \<notin> set (map o_id [alice_row]) \<and>
   store (post_orders_A sample_pg sample_env (bob (JNum 7) (JStr ''bob@example.com'')) [alice_row]) =
     [alice_row] @ store (post_orders_A sample_pg sample_env (bob (JNum 7) (JStr ''bob@example.com'')) [])"
proof -
  let ?b = "bob (JNum 7) (JStr ''bob@example.com'')"
  have up: "store_up sample_env" by (simp add: sample_env_def)
  have v: "validate_B ?b = Passed ()" by code_simp
  have j: "Option.bind (pg_text (?b ''jerseyNumber'')) (int4in sample_pg) = Some 7" by code_simp
  have h1: "alice_row_B \<in> set [alice_row_B]" by simp
  have h2: "b_jersey_number alice_row_B = 7" by (simp add: alice_row_B_def)
  have fresh: "nextval sample_env \<notin> set (map o_id [alice_row])"
    by (simp add: sample_env_def alice_row_def)
  have seen: "filter (\<lambda>r. b_jersey_number r = 7) [alice_row_B] = alice_row_B # []"
    by (simp add: h2)
  have name: "b_name alice_row_B = ''Alice''" by (simp add: alice_row_B_def)
  have num: "toString (?b ''jerseyNumber'') = ''7''" by code_simp
  have "case insert_params_B sample_env ?b of Inl err \<Rightarrow> False
        | Inr d \<Rightarrow> (case INSERT_B sample_pg sample_env d [] of Inl err \<Rightarrow> False | Inr x \<Rightarrow> True)"
    by code_simp
  then obtain d x where ins: "insert_params_B sample_env ?b = Inr d \<and> INSERT_B sample_pg sample_env d [] = Inr x"
    by (auto split: sum.splits)
  note both = duplicate_jersey_number [OF up v j h1 h2, of "[alice_row_B]" "[alice_row]"]
  note race = duplicate_jersey_number [OF up v j h1 h2, of "[]" "[alice_row]"]
  from both seen
  have r1: "reply (post_orders_B sample_pg sample_env ?b [alice_row_B] [alice_row_B]) =
     Some (Response 409 (error_body (''Jersey number '' @ toString (?b ''jerseyNumber'') @
                                      '' is already taken by '' @ b_name alice_row_B)))"
    by blast
  from both have s1: "store (post_orders_B sample_pg sample_env ?b [alice_row_B] [alice_row_B]) = [alice_row_B]"
    by blast
  from race ins
  have r2: "reply (post_orders_B sample_pg sample_env ?b [] [alice_row_B]) =
     Some (Response 409 (error_body ''Jersey number is already taken''))"
    by (simp only: filter.simps) blast
  from race have s2: "store (post_orders_B sample_pg sample_env ?b [] [alice_row_B]) = [alice_row_B]"
    by blast
  from both fresh
  have a: "store (post_orders_A sample_pg sample_env ?b [alice_row]) =
     [alice_row] @ store (post_orders_A sample_pg sample_env ?b [])"
    by blast
  from r1 have r1': "reply (post_orders_B sample_pg sample_env ?b [alice_row_B] [alice_row_B]) =
     Some (Response 409 (error_body ''Jersey number 7 is already taken by Alice''))"
    by (simp add: name num)
  from up v j h1 h2 r1' s1 r2 s2 fresh a show ?thesis by blast
qed

end
